(* ===== verification/Prelude.thy ===== *)
theory Prelude
  imports Complex_Main "HOL-Library.Sublist" "HOL-Library.List_Lexorder"
    "HOL-Library.Product_Lexorder" "HOL-Library.Char_ord" "HOL-Library.Multiset"
begin

text \<open>
  Shared vocabulary of the development: the string operations the JavaScript pages and the
  Python store use (\<open>toLowerCase\<close>, \<open>includes\<close>, slicing), the fallible list
  combinators that thread an error through a Python comprehension or loop, and the
  collection \<open>model_simps\<close> that the component theories fill with their evaluation rules.
\<close>

named_theorems model_simps "evaluation rules of the model's operations"

subsection \<open>Definitions\<close>

text \<open>ASCII case folding, as \<open>String.prototype.toLowerCase\<close> and Python's
  \<open>re.IGNORECASE\<close> act on the ASCII letters (characters are bytes here).\<close>

definition lower_char :: "char \<Rightarrow> char" where
  "lower_char c =
     (case map_of (zip ''ABCDEFGHIJKLMNOPQRSTUVWXYZ'' ''abcdefghijklmnopqrstuvwxyz'') c of
        Some l \<Rightarrow> l
      | None \<Rightarrow> c)"

definition to_lower :: "string \<Rightarrow> string" where
  "to_lower s = map lower_char s"

text \<open>\<open>hay.includes(needle)\<close>: the needle occurs as a contiguous substring. The
  executable scan tries every start position, as a naive search does.\<close>

fun starts_with :: "string \<Rightarrow> string \<Rightarrow> bool" where
  "starts_with s [] = True"
| "starts_with [] (c # cs) = False"
| "starts_with (d # ds) (c # cs) = (d = c \<and> starts_with ds cs)"

fun str_includes :: "string \<Rightarrow> string \<Rightarrow> bool" where
  "str_includes [] needle = (needle = [])"
| "str_includes (c # cs) needle = (starts_with (c # cs) needle \<or> str_includes cs needle)"

text \<open>\<open>xs[:n]\<close> for a Python integer \<open>n\<close>: a negative bound counts from the end.\<close>

definition py_take :: "int \<Rightarrow> 'a list \<Rightarrow> 'a list" where
  "py_take n xs = (if 0 \<le> n then take (nat n) xs else take (nat (int (length xs) + n)) xs)"

text \<open>A predicate that may raise (\<open>Inl\<close>) applied along a list, stopping at the first
  exception as the Python comprehension or \<open>for\<close> loop does.\<close>

fun filterE :: "('a \<Rightarrow> 'e + bool) \<Rightarrow> 'a list \<Rightarrow> 'e + 'a list" where
  "filterE p [] = Inr []"
| "filterE p (x # xs) = (case p x of Inl e \<Rightarrow> Inl e
     | Inr b \<Rightarrow> (case filterE p xs of Inl e \<Rightarrow> Inl e
        | Inr ys \<Rightarrow> Inr (if b then x # ys else ys)))"

fun findE :: "('a \<Rightarrow> 'e + bool) \<Rightarrow> 'a list \<Rightarrow> 'e + 'a option" where
  "findE p [] = Inr None"
| "findE p (x # xs) = (case p x of Inl e \<Rightarrow> Inl e
     | Inr b \<Rightarrow> (if b then Inr (Some x) else findE p xs))"

text \<open>Removing the first element that satisfies a predicate (\<open>list.remove\<close> of the first
  match, or \<open>del docs[i]\<close> at the first matching index).\<close>

fun remove_first :: "('a \<Rightarrow> bool) \<Rightarrow> 'a list \<Rightarrow> 'a list" where
  "remove_first P [] = []"
| "remove_first P (x # xs) = (if P x then xs else x # remove_first P xs)"

subsection \<open>Lemmas\<close>

lemma starts_with_prefix [simp]: "starts_with s p \<longleftrightarrow> prefix p s"
  by (induction s p rule: starts_with.induct) auto

lemma str_includes_sublist [simp]: "str_includes hay needle \<longleftrightarrow> sublist needle hay"
  by (induction hay) (auto simp: sublist_Cons_right)

lemma str_includes_Nil [simp]: "str_includes hay []"
  by simp

lemma lower_char_idem [simp]: "lower_char (lower_char c) = lower_char c"
  by (simp add: lower_char_def split: option.splits)

lemma to_lower_idem [simp]: "to_lower (to_lower s) = to_lower s"
  by (simp add: to_lower_def)

lemma length_to_lower [simp]: "length (to_lower s) = length s"
  by (simp add: to_lower_def)

lemma py_take_nonneg [simp]: "0 \<le> n \<Longrightarrow> py_take n xs = take (nat n) xs"
  by (simp add: py_take_def)

lemma py_take_prefix: "prefix (py_take n xs) xs"
  by (simp add: py_take_def take_is_prefix)

text \<open>When the predicate never raises, the fallible combinators are the library's.\<close>

lemma filterE_total [simp]: "(\<And>x. x \<in> set xs \<Longrightarrow> p x = Inr (P x)) \<Longrightarrow> filterE p xs = Inr (filter P xs)"
  by (induction xs) auto

lemma findE_total [simp]: "(\<And>x. x \<in> set xs \<Longrightarrow> p x = Inr (P x)) \<Longrightarrow> findE p xs = Inr (find P xs)"
  by (induction xs) auto

lemma filterE_Inr_subset: "filterE p xs = Inr ys \<Longrightarrow> set ys \<subseteq> set xs"
  by (induction xs arbitrary: ys) (auto split: sum.splits if_splits)

lemma filterE_Inr_length: "filterE p xs = Inr ys \<Longrightarrow> length ys \<le> length xs"
  by (induction xs arbitrary: ys) (fastforce split: sum.splits if_splits)+

lemma findE_Inr_Some: "findE p xs = Inr (Some y) \<Longrightarrow> y \<in> set xs \<and> p y = Inr True"
  by (induction xs) (auto split: sum.splits if_splits)

lemma find_append_list:
  "List.find P (xs @ ys) = (case List.find P xs of None \<Rightarrow> List.find P ys | Some x \<Rightarrow> Some x)"
  by (induction xs) auto

lemma find_Some_nth_takeWhile:
  "List.find P xs = Some d \<Longrightarrow> xs ! length (takeWhile (\<lambda>x. \<not> P x) xs) = d"
  by (induction xs) (auto split: if_splits)

lemma find_Some_mem: "List.find P xs = Some x \<Longrightarrow> x \<in> set xs \<and> P x"
  by (induction xs) (auto split: if_splits)

lemma map_of_filter_key:
  "map_of (filter (\<lambda>(k', _). k' \<noteq> k) xs) j = (if j = k then None else map_of xs j)"
  by (induction xs) auto

lemma remove_first_length:
  "length (remove_first P xs) = (if \<exists>x\<in>set xs. P x then length xs - 1 else length xs)"
  by (induction xs) (auto dest!: split_list)

lemma remove_first_subset: "set (remove_first P xs) \<subseteq> set xs"
  by (induction xs) auto

text \<open>With pairwise distinct keys a stable sort does not depend on the input order.\<close>

lemma filter_key_distinct:
  "distinct (map f xs) \<Longrightarrow> k \<in> set xs \<Longrightarrow> filter (\<lambda>x. f k = f x) xs = [k]"
proof (induction xs)
  case (Cons a xs)
  show ?case
  proof (cases "k = a")
    case True
    with Cons.prems show ?thesis by (auto simp: filter_empty_conv)
  next
    case False
    with Cons have "f k \<noteq> f a" by (auto simp: image_iff)
    with Cons False show ?thesis by simp
  qed
qed simp

lemma sort_key_rev_distinct:
  assumes "distinct (map f xs)"
  shows "sort_key f (rev xs) = sort_key f xs"
proof -
  have d: "distinct (map f (sort_key f (rev xs)))"
    using assms mset_eq_imp_distinct_iff [of "map f (sort_key f (rev xs))" "map f xs"] by simp
  have "sort_key f xs = sort_key f (rev xs)"
  proof (rule properties_for_sort_key)
    show "mset (sort_key f (rev xs)) = mset xs" by simp
    show "sorted (map f (sort_key f (rev xs)))" by simp
    fix k assume "k \<in> set (sort_key f (rev xs))"
    then have k: "k \<in> set xs" "k \<in> set (sort_key f (rev xs))" by simp_all
    show "filter (\<lambda>x. f k = f x) (sort_key f (rev xs)) = filter (\<lambda>x. f k = f x) xs"
      using filter_key_distinct [OF d k(2)] filter_key_distinct [OF assms k(1)] by simp
  qed
  then show ?thesis by simp
qed

end
