(* ===== verification/Document.thy ===== *)
theory Document
  imports Prelude
begin

text \<open>
  The store's data model. A document is a Python \<open>dict\<close> from field names to JSON-like
  values; it is an association list here, because a dict keeps insertion order and the
  store returns fields in that order. Reading a field is \<open>doc.get(key)\<close>, writing one
  is \<open>doc[key] = v\<close>, which replaces the value in place or appends a new key.
\<close>

datatype jval =
    VStr string
  | VNum real
  | VBool bool
  | VNull
  | VDoc "(string \<times> jval) list"
  | VList "jval list"

type_synonym doc = "(string \<times> jval) list"

text \<open>\<open>doc.get(key)\<close>: the value under the key, \<open>None\<close> when the field is absent.\<close>

definition get_field :: "doc \<Rightarrow> string \<Rightarrow> jval option" where
  "get_field d k = map_of d k"

text \<open>\<open>doc[key] = v\<close>: overwrite in place when present, append otherwise.\<close>

fun set_field :: "doc \<Rightarrow> string \<Rightarrow> jval \<Rightarrow> doc" where
  "set_field [] k v = [(k, v)]"
| "set_field ((k', v') # d) k v = (if k' = k then (k, v) # d else (k', v') # set_field d k v)"

text \<open>\<open>doc.update(upd)\<close>: each key of the update is written in order (a shallow merge).\<close>

definition merge_doc :: "doc \<Rightarrow> doc \<Rightarrow> doc" where
  "merge_doc d upd = foldl (\<lambda>acc (k, v). set_field acc k v) d upd"

text \<open>A well-formed dict has no repeated key.\<close>

definition wf_doc :: "doc \<Rightarrow> bool" where
  "wf_doc d \<longleftrightarrow> distinct (map fst d)"

lemma get_field_set_field [simp]:
  "get_field (set_field d k v) k' = (if k' = k then Some v else get_field d k')"
  by (induction d k v rule: set_field.induct) (auto simp: get_field_def)

lemma keys_set_field [simp]: "fst ` set (set_field d k v) = insert k (fst ` set d)"
  by (induction d k v rule: set_field.induct) auto

lemma wf_doc_set_field [simp]: "wf_doc d \<Longrightarrow> wf_doc (set_field d k v)"
proof (induction d k v rule: set_field.induct)
  case (2 k' v' d k v)
  then show ?case by (auto simp: wf_doc_def)
qed (simp add: wf_doc_def)

lemma merge_doc_Cons [simp]: "merge_doc d ((k, v) # upd) = merge_doc (set_field d k v) upd"
  by (simp add: merge_doc_def)

lemma merge_doc_Nil [simp]: "merge_doc d [] = d"
  by (simp add: merge_doc_def)

lemma wf_doc_merge_doc [simp]: "wf_doc d \<Longrightarrow> wf_doc (merge_doc d upd)"
  by (induction upd arbitrary: d) auto

lemma get_field_merge_doc:
  "get_field (merge_doc d upd) k = (case map_of (rev upd) k of Some v \<Rightarrow> Some v | None \<Rightarrow> get_field d k)"
  by (induction upd arbitrary: d) (auto simp: map_of_append split: option.splits)

lemma keys_merge_doc [simp]: "fst ` set (merge_doc d upd) = fst ` set d \<union> fst ` set upd"
proof (induction upd arbitrary: d)
  case (Cons p upd)
  obtain k v where "p = (k, v)" by (cases p)
  then show ?case by (simp add: Cons.IH insert_commute)
qed simp

end
