(* ===== verification/Query.thy ===== *)
theory Query
  imports Document
begin

text \<open>
  The query matcher of the in-memory store (\<open>MockCollection._matches_query\<close> in
  \<open>backend/mock_db.py\<close>, whose \<open>$or\<close> loop is quoted in \<open>FIXES_APPLIED.md\<close>). A query is
  a dict like a document. For each key in order: \<open>$or\<close> takes a list of nested queries
  and needs one of them to match (Python's \<open>any\<close>, which stops at the first match); any
  other key names a field, and its value is either an operator dict (every operator must
  pass) or a literal that the field must equal. The loop returns \<open>False\<close> at the first
  key that fails. A malformed query (an unknown operator, an \<open>$or\<close> that is not a list of
  dicts) raises, which is the \<open>Inl\<close> branch here.
\<close>

datatype db_error = MalformedQuery string

type_synonym query = doc

subsection \<open>Comparisons\<close>

text \<open>Ordering is defined between two numbers or two strings (lexicographic on the
  characters); across types it is no match, never an error.\<close>

fun value_lt :: "jval \<Rightarrow> jval \<Rightarrow> bool" where
  "value_lt (VNum a) (VNum b) = (a < b)"
| "value_lt (VStr a) (VStr b) = (a < b)"
| "value_lt _ _ = False"

fun value_le :: "jval \<Rightarrow> jval \<Rightarrow> bool" where
  "value_le (VNum a) (VNum b) = (a \<le> b)"
| "value_le (VStr a) (VStr b) = (a \<le> b)"
| "value_le _ _ = False"

text \<open>One operator of an operator dict, applied to the field's value (\<open>None\<close> when the
  field is absent). The pattern of \<open>$regex\<close> is matched case-insensitively as a
  literal: the callers only ever pass a search term.\<close>

fun eval_op :: "jval option \<Rightarrow> string \<Rightarrow> jval \<Rightarrow> db_error + bool" where
  "eval_op fv op arg =
    (if op = ''$eq'' then Inr (fv = Some arg)
     else if op = ''$ne'' then Inr (fv \<noteq> Some arg)
     else if op = ''$gt'' then Inr (case fv of Some v \<Rightarrow> value_lt arg v | None \<Rightarrow> False)
     else if op = ''$gte'' then Inr (case fv of Some v \<Rightarrow> value_le arg v | None \<Rightarrow> False)
     else if op = ''$lt'' then Inr (case fv of Some v \<Rightarrow> value_lt v arg | None \<Rightarrow> False)
     else if op = ''$lte'' then Inr (case fv of Some v \<Rightarrow> value_le v arg | None \<Rightarrow> False)
     else if op = ''$in'' then
       (case arg of VList xs \<Rightarrow> Inr (\<exists>x\<in>set xs. fv = Some x) | _ \<Rightarrow> Inl (MalformedQuery op))
     else if op = ''$regex'' then
       (case arg of
          VStr pat \<Rightarrow> Inr (case fv of Some (VStr s) \<Rightarrow> str_includes (to_lower s) (to_lower pat) | _ \<Rightarrow> False)
        | _ \<Rightarrow> Inl (MalformedQuery op))
     else Inl (MalformedQuery op))"

text \<open>All operators of one operator dict, in order, stopping at the first that fails.\<close>

fun eval_ops :: "jval option \<Rightarrow> (string \<times> jval) list \<Rightarrow> db_error + bool" where
  "eval_ops fv [] = Inr True"
| "eval_ops fv ((op, arg) # ops) =
     (case eval_op fv op arg of Inl e \<Rightarrow> Inl e | Inr b \<Rightarrow> (if b then eval_ops fv ops else Inr False))"

text \<open>The condition on one ordinary field: an operator dict, or equality with a literal
  (an absent field never equals a literal).\<close>

fun match_field :: "jval option \<Rightarrow> jval \<Rightarrow> db_error + bool" where
  "match_field fv (VDoc ops) = eval_ops fv ops"
| "match_field fv lit = Inr (fv = Some lit)"

subsection \<open>The matcher\<close>

fun matches_query :: "doc \<Rightarrow> query \<Rightarrow> db_error + bool"
and any_cond :: "doc \<Rightarrow> jval list \<Rightarrow> db_error + bool" where
  "matches_query d [] = Inr True"
| "matches_query d ((k, v) # q) =
     (if k = ''$or'' then
        (case v of
           VList conds \<Rightarrow> (case any_cond d conds of Inl e \<Rightarrow> Inl e
              | Inr b \<Rightarrow> (if b then matches_query d q else Inr False))
         | _ \<Rightarrow> Inl (MalformedQuery ''$or''))
      else (case match_field (get_field d k) v of Inl e \<Rightarrow> Inl e
              | Inr b \<Rightarrow> (if b then matches_query d q else Inr False)))"
| "any_cond d [] = Inr False"
| "any_cond d (c # cs) =
     (case c of
        VDoc cq \<Rightarrow> (case matches_query d cq of Inl e \<Rightarrow> Inl e
           | Inr b \<Rightarrow> (if b then Inr True else any_cond d cs))
      | _ \<Rightarrow> Inl (MalformedQuery ''$or''))"

subsection \<open>Well-formed queries\<close>

text \<open>The operators the matcher knows, each with the argument shape it needs.\<close>

fun op_wf :: "string \<Rightarrow> jval \<Rightarrow> bool" where
  "op_wf op arg =
    (op \<in> {''$eq'', ''$ne'', ''$gt'', ''$gte'', ''$lt'', ''$lte''}
     \<or> (op = ''$in'' \<and> (case arg of VList _ \<Rightarrow> True | _ \<Rightarrow> False))
     \<or> (op = ''$regex'' \<and> (case arg of VStr _ \<Rightarrow> True | _ \<Rightarrow> False)))"

fun wf_query :: "query \<Rightarrow> bool"
and wf_conds :: "jval list \<Rightarrow> bool" where
  "wf_query [] = True"
| "wf_query ((k, v) # q) =
     ((if k = ''$or'' then (case v of VList conds \<Rightarrow> wf_conds conds | _ \<Rightarrow> False)
       else (case v of VDoc ops \<Rightarrow> list_all (\<lambda>(op, arg). op_wf op arg) ops | _ \<Rightarrow> True))
      \<and> wf_query q)"
| "wf_conds [] = True"
| "wf_conds (c # cs) = ((case c of VDoc cq \<Rightarrow> wf_query cq | _ \<Rightarrow> False) \<and> wf_conds cs)"

subsection \<open>The abstract meaning of a query\<close>

text \<open>What a query promises, independent of evaluation order: every key's condition
  holds; an \<open>$or\<close> holds when one of its nested queries holds.\<close>

fun query_sem :: "doc \<Rightarrow> query \<Rightarrow> bool"
and conds_sem :: "doc \<Rightarrow> jval list \<Rightarrow> bool" where
  "query_sem d [] = True"
| "query_sem d ((k, v) # q) =
     ((if k = ''$or'' then (case v of VList conds \<Rightarrow> conds_sem d conds | _ \<Rightarrow> False)
       else (case v of VDoc ops \<Rightarrow> list_all (\<lambda>(op, arg). eval_op (get_field d k) op arg = Inr True) ops
             | lit \<Rightarrow> get_field d k = Some lit))
      \<and> query_sem d q)"
| "conds_sem d [] = False"
| "conds_sem d (c # cs) = ((case c of VDoc cq \<Rightarrow> query_sem d cq | _ \<Rightarrow> False) \<or> conds_sem d cs)"

declare eval_op.simps [simp del] op_wf.simps [simp del]

lemma op_wf_eval_op: "op_wf op arg \<Longrightarrow> \<exists>b. eval_op fv op arg = Inr b"
  by (auto simp: eval_op.simps op_wf.simps split: jval.splits)

lemma eval_ops_wf: "list_all (\<lambda>(op, arg). op_wf op arg) ops \<Longrightarrow>
  eval_ops fv ops = Inr (list_all (\<lambda>(op, arg). eval_op fv op arg = Inr True) ops)"
proof (induction ops)
  case (Cons oa ops)
  obtain op arg where oa: "oa = (op, arg)" by (cases oa)
  with Cons.prems obtain b where "eval_op fv op arg = Inr b"
    using op_wf_eval_op by fastforce
  with Cons oa show ?case by simp
qed simp

lemma match_field_wf:
  assumes "case v of VDoc ops \<Rightarrow> list_all (\<lambda>(op, arg). op_wf op arg) ops | _ \<Rightarrow> True"
  shows "match_field fv v = Inr (case v of VDoc ops \<Rightarrow> list_all (\<lambda>(op, arg). eval_op fv op arg = Inr True) ops
                                | lit \<Rightarrow> fv = Some lit)"
proof (cases v)
  case (VDoc ops)
  with assms eval_ops_wf [of ops fv] show ?thesis by simp
qed simp_all

lemma matches_query_sem_both:
  shows "wf_query q \<Longrightarrow> matches_query d q = Inr (query_sem d q)"
    and "wf_conds cs \<Longrightarrow> any_cond d cs = Inr (conds_sem d cs)"
proof (induction d q and d cs rule: matches_query_any_cond.induct)
  case (2 d k v q)
  show ?case
  proof (cases "k = ''$or''")
    case True
    with "2.IH" "2.prems" show ?thesis by (auto split: jval.splits)
  next
    case False
    with "2.IH" "2.prems" show ?thesis
      by (auto simp: match_field_wf split: jval.splits)
  qed
next
  case (4 d c cs)
  then show ?case by (auto split: jval.splits)
qed simp_all

subsection \<open>Properties of the matcher\<close>

text \<open>C2. On a well-formed query the matcher never raises and decides exactly the
  query's abstract meaning: conjunction over the keys, one of the nested queries for
  \<open>$or\<close>, every operator of an operator dict, equality with a present field otherwise.\<close>

theorem matcher_refines_semantics:
  assumes "wf_query q"
  shows "matches_query d q = Inr (query_sem d q)"
  using assms by (rule matches_query_sem_both(1))

theorem matcher_refines_semantics_witness:
  "wf_query [(''$or'', VList [VDoc [(''name'', VStr ''Bob'')], VDoc [(''family_size'', VDoc [(''$gte'', VNum 3)])]])]
   \<and> matches_query [(''name'', VStr ''Alice''), (''family_size'', VNum 4)]
        [(''$or'', VList [VDoc [(''name'', VStr ''Bob'')], VDoc [(''family_size'', VDoc [(''$gte'', VNum 3)])]])]
     = Inr (query_sem [(''name'', VStr ''Alice''), (''family_size'', VNum 4)]
        [(''$or'', VList [VDoc [(''name'', VStr ''Bob'')], VDoc [(''family_size'', VDoc [(''$gte'', VNum 3)])]])])"
  using matcher_refines_semantics [of "[(''$or'', VList [VDoc [(''name'', VStr ''Bob'')], VDoc [(''family_size'', VDoc [(''$gte'', VNum 3)])]])]"
      "[(''name'', VStr ''Alice''), (''family_size'', VNum 4)]"]
  by (simp add: op_wf.simps)



text \<open>C16. An operator the matcher does not know raises \<open>MalformedQuery\<close> with its name,
  whatever the document.\<close>

theorem unknown_operator_raises:
  assumes "k \<noteq> ''$or''"
    and "op \<notin> {''$eq'', ''$ne'', ''$gt'', ''$gte'', ''$lt'', ''$lte'', ''$in'', ''$regex''}"
  shows "matches_query d [(k, VDoc [(op, arg)])] = Inl (MalformedQuery op)"
  using assms by (simp add: eval_op.simps)

text \<open>C18. Comparing a string field with a number is no match, never an error.\<close>

theorem type_mismatch_no_match:
  assumes "k \<noteq> ''$or''" and "get_field d k = Some (VStr s)"
    and "op \<in> {''$gt'', ''$gte'', ''$lt'', ''$lte''}"
  shows "matches_query d [(k, VDoc [(op, VNum x)])] = Inr False"
  using assms by (auto simp: eval_op.simps)


end
