(* ===== verification/Cursor.thy ===== *)
theory Cursor
  imports Document
begin

text \<open>
  \<open>MockCursor\<close> of \<open>backend/mock_db.py\<close> (quoted in \<open>FIXES_APPLIED.md\<close>): it holds the
  list that one \<open>find\<close> computed, reorders it with \<open>sort(key, direction)\<close> and returns
  it, or a slice of it, from \<open>to_list(max_length)\<close>. Sorting uses the ordering of the
  query operators; a document without the field sorts lowest. A descending sort is
  Python's \<open>sorted(..., reverse=True)\<close>: every comparison reversed, so documents with
  equal keys keep their relative order.
\<close>

record cursor =
  cur_data :: "doc list"

definition mk_cursor :: "doc list \<Rightarrow> cursor" where
  "mk_cursor ds = \<lparr>cur_data = ds\<rparr>"

text \<open>The sort key of a document: absent fields first, then numbers by value, then
  strings lexicographically, then every other value as one group.\<close>

fun key_of_value :: "jval option \<Rightarrow> nat \<times> real \<times> string" where
  "key_of_value None = (0, 0, [])"
| "key_of_value (Some (VNum x)) = (1, x, [])"
| "key_of_value (Some (VStr s)) = (2, 0, s)"
| "key_of_value (Some _) = (3, 0, [])"

definition sort_key_of :: "string \<Rightarrow> doc \<Rightarrow> nat \<times> real \<times> string" where
  "sort_key_of field d = key_of_value (get_field d field)"

text \<open>\<open>sort(key, direction)\<close> returns the cursor itself, reordered; \<open>direction = -1\<close>
  (\<open>DESCENDING\<close>) reverses the comparison.\<close>

definition cursor_sort :: "cursor \<Rightarrow> string \<Rightarrow> int \<Rightarrow> cursor" where
  "cursor_sort c field direction =
     c\<lparr>cur_data := (if direction = -1
                     then rev (sort_key (sort_key_of field) (rev (cur_data c)))
                     else sort_key (sort_key_of field) (cur_data c))\<rparr>"

text \<open>\<open>to_list(max_length)\<close>: the whole list for \<open>None\<close>, else \<open>self.data[:max_length]\<close>.\<close>

definition to_list :: "cursor \<Rightarrow> int option \<Rightarrow> doc list" where
  "to_list c max_length = (case max_length of None \<Rightarrow> cur_data c | Some n \<Rightarrow> py_take n (cur_data c))"

text \<open>The reference for a descending sort: insertion sort by the key under the reversed
  comparison, where an element goes before every later element with a key not above
  its own, so that equal keys keep their order.\<close>

fun insort_desc :: "('a \<Rightarrow> 'k::linorder) \<Rightarrow> 'a \<Rightarrow> 'a list \<Rightarrow> 'a list" where
  "insort_desc f x [] = [x]"
| "insort_desc f x (y # ys) = (if f y \<le> f x then x # y # ys else y # insort_desc f x ys)"

fun sort_desc :: "('a \<Rightarrow> 'k::linorder) \<Rightarrow> 'a list \<Rightarrow> 'a list" where
  "sort_desc f [] = []"
| "sort_desc f (x # xs) = insort_desc f x (sort_desc f xs)"

lemma mset_cursor_sort [simp]: "mset (cur_data (cursor_sort c f dir)) = mset (cur_data c)"
  by (simp add: cursor_sort_def)

lemma length_cursor_sort [simp]: "length (cur_data (cursor_sort c f dir)) = length (cur_data c)"
  by (metis mset_cursor_sort size_mset)

lemma set_cursor_sort [simp]: "set (cur_data (cursor_sort c f dir)) = set (cur_data c)"
  by (metis mset_cursor_sort set_mset_mset)

lemma sorted_asc: "dir \<noteq> -1 \<Longrightarrow> sorted (map (sort_key_of f) (cur_data (cursor_sort c f dir)))"
  by (simp add: cursor_sort_def)

lemma sorted_desc: "sorted_wrt (\<ge>) (map (sort_key_of f) (cur_data (cursor_sort c f (-1))))"
proof -
  have "sorted (map (sort_key_of f) (sort_key (sort_key_of f) (rev (cur_data c))))"
    by simp
  then show ?thesis
    by (simp add: cursor_sort_def rev_map [symmetric] sorted_wrt_rev)
qed

lemma sorted_missing_first:
  assumes "sorted (map (sort_key_of f) ds)" and "i < j" and "j < length ds"
    and "get_field (ds ! j) f = None"
  shows "get_field (ds ! i) f = None"
proof -
  have "sort_key_of f (ds ! i) \<le> sort_key_of f (ds ! j)"
    using assms(1-3) by (auto simp: sorted_iff_nth_mono)
  with assms(4) have "key_of_value (get_field (ds ! i) f) \<le> (0, 0, [])"
    by (simp add: sort_key_of_def)
  then show ?thesis
    by (cases "get_field (ds ! i) f" rule: key_of_value.cases) auto
qed

lemma mset_insort_desc: "mset (insort_desc f x xs) = add_mset x (mset xs)"
  by (induction xs) simp_all

lemma mset_sort_desc [simp]: "mset (sort_desc f xs) = mset xs"
  by (induction xs) (simp_all add: mset_insort_desc)

lemma set_insort_desc: "set (insort_desc f x xs) = insert x (set xs)"
  by (induction xs) auto

lemma sorted_insort_desc:
  "sorted_wrt (\<ge>) (map f (insort_desc f x xs)) = sorted_wrt (\<ge>) (map f xs)"
  by (induction xs) (auto simp: set_insort_desc)

lemma sorted_sort_desc: "sorted_wrt (\<ge>) (map f (sort_desc f xs))"
  by (induction xs) (simp_all add: sorted_insort_desc)

lemma insort_desc_is_Cons: "\<forall>y\<in>set xs. f y \<le> f x \<Longrightarrow> insort_desc f x xs = x # xs"
  by (cases xs) auto

lemma filter_insort_desc_neg: "\<not> P x \<Longrightarrow> filter P (insort_desc f x xs) = filter P xs"
  by (induction xs) simp_all

lemma filter_insort_desc_pos:
  "sorted_wrt (\<ge>) (map f xs) \<Longrightarrow> P x \<Longrightarrow> filter P (insort_desc f x xs) = insort_desc f x (filter P xs)"
  by (induction xs) (auto, subst insort_desc_is_Cons, auto)

lemma sort_desc_stable: "filter (\<lambda>y. f y = k) (sort_desc f xs) = filter (\<lambda>y. f y = k) xs"
proof (induction xs)
  case (Cons a xs)
  show ?case
  proof (cases "f a = k")
    case True
    have "filter (\<lambda>y. f y = k) (sort_desc f (a # xs))
          = insort_desc f a (filter (\<lambda>y. f y = k) (sort_desc f xs))"
      by (simp add: True filter_insort_desc_pos sorted_sort_desc)
    also have "\<dots> = a # filter (\<lambda>y. f y = k) xs"
      by (simp add: Cons.IH True insort_desc_is_Cons)
    finally show ?thesis by (simp add: True)
  qed (simp add: Cons.IH filter_insort_desc_neg)
qed simp

text \<open>CPython's \<open>reverse=True\<close>: reversing, sorting stably and reversing back is the
  stable sort under the reversed comparison.\<close>

lemma rev_sort_key_rev: "rev (sort_key f (rev xs)) = sort_desc f xs"
proof -
  have "sort_key f (rev xs) = rev (sort_desc f xs)"
  proof (rule properties_for_sort_key)
    show "mset (rev (sort_desc f xs)) = mset (rev xs)" by simp
    show "sorted (map f (rev (sort_desc f xs)))"
      using sorted_sort_desc [of f xs] by (simp add: rev_map [symmetric] sorted_wrt_rev)
    fix k
    have "filter (\<lambda>y. f y = f k) (sort_desc f xs) = filter (\<lambda>y. f y = f k) xs"
      by (rule sort_desc_stable)
    then show "filter (\<lambda>x. f k = f x) (rev (sort_desc f xs)) = filter (\<lambda>x. f k = f x) (rev xs)"
      by (simp add: rev_filter [symmetric] eq_commute [of "f k"])
  qed
  then show ?thesis by simp
qed

subsection \<open>Properties of the cursor\<close>

text \<open>Sorting only reorders the snapshot: the same documents, each as often, now in
  key order (ascending, or descending for direction -1).\<close>

theorem sort_reorders:
  "mset (cur_data (cursor_sort c f dir)) = mset (cur_data c)
   \<and> (if dir = -1 then sorted_wrt (\<ge>) (map (sort_key_of f) (cur_data (cursor_sort c f dir)))
      else sorted (map (sort_key_of f) (cur_data (cursor_sort c f dir))))"
  using sorted_asc [of dir f c] sorted_desc [of f c] by simp

text \<open>C11. When no two documents share a sort key, sorting descending gives exactly the
  reverse of sorting ascending.\<close>

theorem sort_desc_reverses_asc:
  assumes "distinct (map (sort_key_of f) (cur_data c))"
  shows "cur_data (cursor_sort c f (-1)) = rev (cur_data (cursor_sort c f 1))"
  using assms by (simp add: cursor_sort_def sort_key_rev_distinct)

text \<open>C12. The descending sort is the reference stable sort under the reversed order:
  what \<open>sort(key, DESCENDING)\<close> returns is exactly the insertion sort that places
  every document before the later ones whose key is not above its own.\<close>

theorem sort_desc_equiv:
  "cur_data (cursor_sort c f (-1)) = sort_desc (sort_key_of f) (cur_data c)"
  by (simp add: cursor_sort_def rev_sort_key_rev)

text \<open>C13. Sorting keeps ties in storage order in both directions: the documents with
  any one key come out in the order they were stored, whether the sort is ascending or
  descending. So with equal keys the descending sort is not the reverse of the ascending
  one.\<close>

theorem sort_desc_ties_keep_order:
  "filter (\<lambda>d. sort_key_of f d = k) (cur_data (cursor_sort c f dir))
   = filter (\<lambda>d. sort_key_of f d = k) (cur_data c)"
proof (cases "dir = -1")
  case True
  have "filter (\<lambda>d. sort_key_of f d = k) (sort_desc (sort_key_of f) (cur_data c))
        = filter (\<lambda>d. sort_key_of f d = k) (cur_data c)"
    by (rule sort_desc_stable)
  with True show ?thesis by (simp add: cursor_sort_def rev_sort_key_rev)
qed (simp add: cursor_sort_def sort_key_stable)

text \<open>In an ascending sort the documents without the field come first: a document
  lacking it is preceded only by documents lacking it.\<close>

theorem sort_missing_first:
  assumes "dir \<noteq> -1" and "i < j" and "j < length (cur_data (cursor_sort c f dir))"
    and "get_field (cur_data (cursor_sort c f dir) ! j) f = None"
  shows "get_field (cur_data (cursor_sort c f dir) ! i) f = None"
  using sorted_asc [OF assms(1)] assms(2-4) by (rule sorted_missing_first)

text \<open>C14. \<open>to_list(n)\<close> for \<open>n \<ge> 0\<close> returns the first \<open>n\<close> documents in the
  cursor's order (all of them when \<open>n\<close> exceeds the count), and \<open>to_list(None)\<close> all.\<close>

theorem to_list_bounds:
  assumes "0 \<le> n"
  shows "to_list c (Some n) = take (nat n) (cur_data c) \<and> length (to_list c (Some n)) = min (nat n) (length (cur_data c))
         \<and> to_list c None = cur_data c"
  using assms by (simp add: to_list_def)

text \<open>C15. A negative length is a Python slice bound: \<open>to_list(-1)\<close> drops the last
  document instead of raising or returning nothing.\<close>

theorem to_list_negative_drops_last:
  "to_list c (Some (-1)) = butlast (cur_data c)"
proof -
  have "nat (int (length (cur_data c)) - 1) = length (cur_data c) - 1" by simp
  then show ?thesis by (simp add: to_list_def py_take_def butlast_conv_take)
qed

end
