(* ===== verification/Collection.thy ===== *)
theory Collection
  imports Query Cursor
begin

text \<open>
  \<open>MockCollection\<close> of \<open>backend/mock_db.py\<close>: a list of documents in insertion order
  and the motor-style operations on it. Reads go through the matcher of \<open>Query\<close> and
  return projected copies; \<open>find\<close> wraps its results in a \<open>Cursor\<close>. A malformed
  query makes every operation raise (\<open>Inl\<close>) without changing the collection. The
  identity generator (\<open>uuid4\<close>) is outside the store: \<open>insert_one\<close> receives the
  fresh identifier it would draw.
\<close>

record collection =
  coll_docs :: "doc list"

definition empty_collection :: collection where
  "empty_collection = \<lparr>coll_docs = []\<rparr>"

subsection \<open>Projection\<close>

text \<open>A projection dict such as \<open>{"_id": 0}\<close>. A truthy value (\<open>1\<close>, \<open>True\<close>) makes it
  an inclusion projection that keeps only the included fields; otherwise the listed fields
  are dropped. The stored document is never touched: the projection builds a copy.\<close>

fun truthy :: "jval \<Rightarrow> bool" where
  "truthy (VNum x) = (x \<noteq> 0)"
| "truthy (VBool b) = b"
| "truthy _ = False"

definition project :: "doc option \<Rightarrow> doc \<Rightarrow> doc" where
  "project proj d =
     (case proj of
        None \<Rightarrow> d
      | Some p \<Rightarrow>
          (if \<exists>(k, v)\<in>set p. truthy v
           then filter (\<lambda>(k, _). \<exists>v. map_of p k = Some v \<and> truthy v) d
           else filter (\<lambda>(k, _). k \<notin> fst ` set p) d))"

subsection \<open>Operations\<close>

text \<open>\<open>insert_one(doc)\<close>: an \<open>id\<close> is added when the caller gave none; the document is
  appended and returned.\<close>

definition with_id :: "string \<Rightarrow> doc \<Rightarrow> doc" where
  "with_id uid d = (case get_field d ''id'' of None \<Rightarrow> set_field d ''id'' (VStr uid) | Some _ \<Rightarrow> d)"

definition insert_one :: "string \<Rightarrow> doc \<Rightarrow> collection \<Rightarrow> collection \<times> doc" where
  "insert_one uid d c = (let d' = with_id uid d in (c\<lparr>coll_docs := coll_docs c @ [d']\<rparr>, d'))"

text \<open>\<open>insert_many(docs)\<close>: \<open>insert_one\<close> on each document in order, one fresh
  identifier each.\<close>

fun insert_many :: "(string \<times> doc) list \<Rightarrow> collection \<Rightarrow> collection \<times> doc list" where
  "insert_many [] c = (c, [])"
| "insert_many ((uid, d) # ds) c =
     (let (c1, d1) = insert_one uid d c; (c2, ds2) = insert_many ds c1 in (c2, d1 # ds2))"

text \<open>\<open>find_one(query, projection)\<close>: the first match in storage order, projected.\<close>

definition find_one :: "collection \<Rightarrow> query \<Rightarrow> doc option \<Rightarrow> db_error + doc option" where
  "find_one c q proj =
     (case findE (\<lambda>d. matches_query d q) (coll_docs c) of
        Inl e \<Rightarrow> Inl e
      | Inr r \<Rightarrow> Inr (map_option (project proj) r))"

text \<open>\<open>find(query, projection)\<close>: every match in storage order, projected, in a cursor.\<close>

definition find :: "collection \<Rightarrow> query \<Rightarrow> doc option \<Rightarrow> db_error + cursor" where
  "find c q proj =
     (case filterE (\<lambda>d. matches_query d q) (coll_docs c) of
        Inl e \<Rightarrow> Inl e
      | Inr ds \<Rightarrow> Inr (mk_cursor (map (project proj) ds)))"

text \<open>\<open>count_documents(query)\<close>.\<close>

definition count_documents :: "collection \<Rightarrow> query \<Rightarrow> db_error + nat" where
  "count_documents c q =
     (case filterE (\<lambda>d. matches_query d q) (coll_docs c) of Inl e \<Rightarrow> Inl e | Inr ds \<Rightarrow> Inr (length ds))"

text \<open>The loop of \<open>update_one\<close>: the first matching document is merged with the update
  in place; the count is 1, or 0 when nothing matches.\<close>

fun update_first :: "query \<Rightarrow> doc \<Rightarrow> doc list \<Rightarrow> db_error + doc list \<times> nat" where
  "update_first q upd [] = Inr ([], 0)"
| "update_first q upd (d # ds) =
     (case matches_query d q of
        Inl e \<Rightarrow> Inl e
      | Inr True \<Rightarrow> Inr (merge_doc d upd # ds, 1)
      | Inr False \<Rightarrow> (case update_first q upd ds of Inl e \<Rightarrow> Inl e | Inr (ds', n) \<Rightarrow> Inr (d # ds', n)))"

definition update_one :: "collection \<Rightarrow> query \<Rightarrow> doc \<Rightarrow> db_error + collection \<times> nat" where
  "update_one c q upd =
     (case update_first q upd (coll_docs c) of
        Inl e \<Rightarrow> Inl e
      | Inr (ds, n) \<Rightarrow> Inr (c\<lparr>coll_docs := ds\<rparr>, n))"

text \<open>The loop of \<open>delete_one\<close>: the first matching document is removed.\<close>

fun delete_first :: "query \<Rightarrow> doc list \<Rightarrow> db_error + doc list \<times> nat" where
  "delete_first q [] = Inr ([], 0)"
| "delete_first q (d # ds) =
     (case matches_query d q of
        Inl e \<Rightarrow> Inl e
      | Inr True \<Rightarrow> Inr (ds, 1)
      | Inr False \<Rightarrow> (case delete_first q ds of Inl e \<Rightarrow> Inl e | Inr (ds', n) \<Rightarrow> Inr (d # ds', n)))"

definition delete_one :: "collection \<Rightarrow> query \<Rightarrow> db_error + collection \<times> nat" where
  "delete_one c q =
     (case delete_first q (coll_docs c) of
        Inl e \<Rightarrow> Inl e
      | Inr (ds, n) \<Rightarrow> Inr (c\<lparr>coll_docs := ds\<rparr>, n))"

text \<open>\<open>delete_many(query)\<close>: the documents that do not match are kept; the count is the
  number removed.\<close>

definition delete_many :: "collection \<Rightarrow> query \<Rightarrow> db_error + collection \<times> nat" where
  "delete_many c q =
     (case filterE (\<lambda>d. map_sum id Not (matches_query d q)) (coll_docs c) of
        Inl e \<Rightarrow> Inl e
      | Inr keep \<Rightarrow> Inr (c\<lparr>coll_docs := keep\<rparr>, length (coll_docs c) - length keep))"

lemma collection_update_literal [simp]: "(c :: collection)\<lparr>coll_docs := ds\<rparr> = \<lparr>coll_docs = ds\<rparr>"
  by (cases c) simp

subsection \<open>Operations on well-formed queries\<close>

text \<open>On a well-formed query no operation raises, and each is the list operation of the
  query's abstract meaning \<open>query_sem\<close>.\<close>

lemma filterE_matches [simp]:
  "wf_query q \<Longrightarrow> filterE (\<lambda>d. matches_query d q) ds = Inr (filter (\<lambda>d. query_sem d q) ds)"
  by (simp add: matches_query_sem_both(1))

lemma findE_matches [simp]:
  "wf_query q \<Longrightarrow> findE (\<lambda>d. matches_query d q) ds = Inr (List.find (\<lambda>d. query_sem d q) ds)"
  by (simp add: matches_query_sem_both(1))

lemma find_wf: "wf_query q \<Longrightarrow> find c q proj = Inr (mk_cursor (map (project proj) (filter (\<lambda>d. query_sem d q) (coll_docs c))))"
  by (simp add: find_def)

lemma find_one_wf: "wf_query q \<Longrightarrow> find_one c q proj = Inr (map_option (project proj) (List.find (\<lambda>d. query_sem d q) (coll_docs c)))"
  by (simp add: find_one_def)

lemma count_documents_wf: "wf_query q \<Longrightarrow> count_documents c q = Inr (length (filter (\<lambda>d. query_sem d q) (coll_docs c)))"
  by (simp add: count_documents_def)

lemma delete_many_wf:
  "wf_query q \<Longrightarrow> delete_many c q =
     Inr (c\<lparr>coll_docs := filter (\<lambda>d. \<not> query_sem d q) (coll_docs c)\<rparr>,
          length (filter (\<lambda>d. query_sem d q) (coll_docs c)))"
proof -
  assume q: "wf_query q"
  have "filterE (\<lambda>d. map_sum id Not (matches_query d q)) (coll_docs c)
          = Inr (filter (\<lambda>d. \<not> query_sem d q) (coll_docs c))"
    using q by (simp add: matches_query_sem_both(1))
  moreover have "length (coll_docs c) - length (filter (\<lambda>d. \<not> query_sem d q) (coll_docs c))
                 = length (filter (\<lambda>d. query_sem d q) (coll_docs c))"
    using sum_length_filter_compl [of "\<lambda>d. query_sem d q" "coll_docs c"] by simp
  ultimately show ?thesis by (simp add: delete_many_def)
qed

lemma update_first_wf:
  "wf_query q \<Longrightarrow> update_first q upd ds =
     Inr (case List.find (\<lambda>d. query_sem d q) ds of
            None \<Rightarrow> (ds, 0)
          | Some _ \<Rightarrow> (let i = length (takeWhile (\<lambda>d. \<not> query_sem d q) ds)
                      in (ds[i := merge_doc (ds ! i) upd], 1)))"
  by (induction ds) (auto simp: matches_query_sem_both(1) Let_def split: option.splits)

lemma delete_first_wf:
  "wf_query q \<Longrightarrow> delete_first q ds =
     Inr (remove_first (\<lambda>d. query_sem d q) ds, if \<exists>d\<in>set ds. query_sem d q then 1 else 0)"
  by (induction ds) (auto simp: matches_query_sem_both(1))

lemma with_id_has_id: "get_field (with_id uid d) ''id'' \<noteq> None"
  by (simp add: with_id_def split: option.splits)

lemma get_field_with_id:
  "get_field (with_id uid d) k = (if k = ''id'' \<and> get_field d ''id'' = None then Some (VStr uid) else get_field d k)"
  by (auto simp: with_id_def split: option.splits)

lemma wf_doc_with_id [simp]: "wf_doc d \<Longrightarrow> wf_doc (with_id uid d)"
  by (simp add: with_id_def split: option.splits)

subsection \<open>Properties of the collection\<close>

text \<open>C6. A document inserted without an \<open>id\<close> gets the fresh identifier, and looking
  that identifier up returns the document with its identity added and nothing else
  changed.\<close>

theorem insert_find_one_roundtrip:
  assumes "get_field d ''id'' = None"
    and "\<forall>d'\<in>set (coll_docs c). get_field d' ''id'' \<noteq> Some (VStr uid)"
  shows "find_one (fst (insert_one uid d c)) [(''id'', VStr uid)] None = Inr (Some (set_field d ''id'' (VStr uid)))
         \<and> snd (insert_one uid d c) = set_field d ''id'' (VStr uid)"
proof -
  have "List.find (\<lambda>x. get_field x ''id'' = Some (VStr uid)) (coll_docs c) = None"
    using assms(2) by (auto simp: find_None_iff)
  then have "List.find (\<lambda>x. query_sem x [(''id'', VStr uid)]) (coll_docs c @ [set_field d ''id'' (VStr uid)])
          = Some (set_field d ''id'' (VStr uid))"
    by (simp add: find_append_list)
  then show ?thesis
    using assms(1) by (simp add: find_one_wf insert_one_def with_id_def project_def Let_def)
qed

text \<open>Insertion is never refused: the document is appended even when an equal
  document, or one with the same \<open>id\<close>, is already stored.\<close>

theorem insert_never_rejected:
  "coll_docs (fst (insert_one uid d c)) = coll_docs c @ [with_id uid d]"
  by (simp add: insert_one_def Let_def)

text \<open>C9. \<open>update_one\<close> merges the update into the first matching document only, in
  place, and counts 1; fields the update does not name keep their values; with no match
  nothing changes and the count is 0.\<close>

theorem update_one_first_match:
  assumes "wf_query q"
  shows "update_one c q upd =
           (case List.find (\<lambda>d. query_sem d q) (coll_docs c) of
              None \<Rightarrow> Inr (c, 0)
            | Some d \<Rightarrow> Inr (c\<lparr>coll_docs := (coll_docs c)[length (takeWhile (\<lambda>d. \<not> query_sem d q) (coll_docs c)) := merge_doc d upd]\<rparr>, 1))
         \<and> (\<forall>d k. k \<notin> fst ` set upd \<longrightarrow> get_field (merge_doc d upd) k = get_field d k)"
proof -
  have "\<And>d k. k \<notin> fst ` set upd \<Longrightarrow> map_of (rev upd) k = None"
    by (simp add: map_of_eq_None_iff)
  then show ?thesis
    using assms by (auto simp: update_one_def update_first_wf find_Some_nth_takeWhile get_field_merge_doc Let_def split: option.splits)
qed

text \<open>C10. \<open>delete_many\<close> removes exactly the matching documents, keeps the others in
  order, and counts what it removed.\<close>

theorem delete_many_removes_matches:
  assumes "wf_query q" and "delete_many c q = Inr (c', n)"
  shows "coll_docs c' = filter (\<lambda>d. \<not> query_sem d q) (coll_docs c)
         \<and> n = length (filter (\<lambda>d. query_sem d q) (coll_docs c))
         \<and> n + length (coll_docs c') = length (coll_docs c)"
  using assms by (auto simp: delete_many_wf sum_length_filter_compl)

text \<open>\<open>count_documents\<close> agrees with the length of what \<open>find\<close> returns, raising
  on the same queries.\<close>

theorem count_agrees_with_find:
  "count_documents c q = map_sum id (\<lambda>cur. length (to_list cur None)) (find c q None)"
  by (simp add: count_documents_def find_def to_list_def mk_cursor_def split: sum.splits)

end
