(* ===== verification/Store.thy ===== *)
theory Store
  imports Collection
begin

text \<open>
  \<open>MockDatabase\<close> of \<open>backend/mock_db.py\<close>: a dict from collection names to collections,
  created on first access (\<open>db.users\<close>, \<open>db["fraud_alerts"]\<close>) and kept for the life of
  the process. Every write the HTTP handlers make is one \<open>db_op\<close>; \<open>store_step\<close> runs it
  on the named collection. The reachable stores are those built from the empty store by
  writes with well-formed documents (a Python dict has no repeated key), and in each of
  them every stored document is well-formed and carries an \<open>id\<close>.
\<close>

type_synonym store = "string \<rightharpoonup> collection"

definition empty_store :: store where
  "empty_store = Map.empty"

text \<open>\<open>db[name]\<close>: the collection, created empty on first access.\<close>

definition get_collection :: "store \<Rightarrow> string \<Rightarrow> store \<times> collection" where
  "get_collection s name =
     (case s name of
        Some c \<Rightarrow> (s, c)
      | None \<Rightarrow> (s(name \<mapsto> empty_collection), empty_collection))"

datatype db_op =
    InsertOne string string doc
  | InsertMany string "(string \<times> doc) list"
  | UpdateOne string query doc
  | DeleteOne string query
  | DeleteMany string query

datatype db_result = RInserted doc | RInsertedMany "doc list" | RCount nat

text \<open>The collection a write addresses (\<open>db.<name>\<close>) and the method it calls.\<close>

fun op_coll :: "db_op \<Rightarrow> string" where
  "op_coll (InsertOne name _ _) = name"
| "op_coll (InsertMany name _) = name"
| "op_coll (UpdateOne name _ _) = name"
| "op_coll (DeleteOne name _) = name"
| "op_coll (DeleteMany name _) = name"

fun coll_op :: "db_op \<Rightarrow> collection \<Rightarrow> db_error + collection \<times> db_result" where
  "coll_op (InsertOne _ uid d) c = (let (c', d') = insert_one uid d c in Inr (c', RInserted d'))"
| "coll_op (InsertMany _ ds) c = (let (c', ds') = insert_many ds c in Inr (c', RInsertedMany ds'))"
| "coll_op (UpdateOne _ q upd) c = map_sum id (map_prod id RCount) (update_one c q upd)"
| "coll_op (DeleteOne _ q) c = map_sum id (map_prod id RCount) (delete_one c q)"
| "coll_op (DeleteMany _ q) c = map_sum id (map_prod id RCount) (delete_many c q)"

text \<open>One write: fetch (or create) the collection, run the method, store the result back.
  An exception leaves the store as it was.\<close>

definition store_step :: "store \<Rightarrow> db_op \<Rightarrow> db_error + store \<times> db_result" where
  "store_step s op =
     (let (s1, c) = get_collection s (op_coll op)
      in (case coll_op op c of Inl e \<Rightarrow> Inl e | Inr (c', r) \<Rightarrow> Inr (s1(op_coll op \<mapsto> c'), r)))"

text \<open>The documents a write brings in from the caller, each a Python dict.\<close>

fun op_docs_wf :: "db_op \<Rightarrow> bool" where
  "op_docs_wf (InsertOne _ _ d) = wf_doc d"
| "op_docs_wf (InsertMany _ ds) = list_all (\<lambda>(_, d). wf_doc d) ds"
| "op_docs_wf (UpdateOne _ _ upd) = True"
| "op_docs_wf (DeleteOne _ _) = True"
| "op_docs_wf (DeleteMany _ _) = True"

inductive store_reach :: "store \<Rightarrow> bool" where
  init: "store_reach empty_store"
| step: "store_reach s \<Longrightarrow> op_docs_wf op \<Longrightarrow> store_step s op = Inr (s', r) \<Longrightarrow> store_reach s'"

text \<open>The store invariant: every stored document is a well-formed dict with an \<open>id\<close>.\<close>

definition doc_ok :: "doc \<Rightarrow> bool" where
  "doc_ok d \<longleftrightarrow> wf_doc d \<and> get_field d ''id'' \<noteq> None"

definition coll_ok :: "collection \<Rightarrow> bool" where
  "coll_ok c \<longleftrightarrow> list_all doc_ok (coll_docs c)"

definition store_inv :: "store \<Rightarrow> bool" where
  "store_inv s \<longleftrightarrow> (\<forall>name c. s name = Some c \<longrightarrow> coll_ok c)"

subsection \<open>Every write keeps the invariant\<close>

lemma doc_ok_merge_doc: "doc_ok d \<Longrightarrow> doc_ok (merge_doc d upd)"
  by (auto simp: doc_ok_def get_field_merge_doc split: option.splits)

lemma insert_one_ok: "wf_doc d \<Longrightarrow> coll_ok c \<Longrightarrow> coll_ok (fst (insert_one uid d c))"
  by (simp add: coll_ok_def insert_one_def doc_ok_def with_id_has_id Let_def)

lemma insert_many_ok:
  "list_all (\<lambda>(_, d). wf_doc d) ds \<Longrightarrow> coll_ok c \<Longrightarrow> coll_ok (fst (insert_many ds c))"
proof (induction ds arbitrary: c)
  case (Cons p ds)
  obtain uid d where p: "p = (uid, d)" by (cases p)
  with Cons.prems have "coll_ok (fst (insert_one uid d c))" by (simp add: insert_one_ok)
  with Cons p show ?case by (simp add: split_def Let_def)
qed simp

lemma update_first_ok:
  "update_first q upd ds = Inr (ds', n) \<Longrightarrow> list_all doc_ok ds \<Longrightarrow> list_all doc_ok ds'"
  by (induction q upd ds arbitrary: ds' n rule: update_first.induct)
     (auto simp: doc_ok_merge_doc split: sum.splits bool.splits prod.splits)

lemma delete_first_ok:
  "delete_first q ds = Inr (ds', n) \<Longrightarrow> list_all doc_ok ds \<Longrightarrow> list_all doc_ok ds'"
  by (induction q ds arbitrary: ds' n rule: delete_first.induct)
     (auto split: sum.splits bool.splits prod.splits)

lemma coll_op_ok:
  assumes "coll_op op c = Inr (c', r)" and "op_docs_wf op" and "coll_ok c"
  shows "coll_ok c'"
  using assms
proof (cases op)
  case (InsertOne name uid d)
  with assms show ?thesis
    by (auto simp: split_def Let_def dest: insert_one_ok [of d c uid])
next
  case (InsertMany name ds)
  with assms insert_many_ok [of ds c] show ?thesis
    by (auto simp: split_def Let_def)
next
  case (DeleteMany name q)
  with assms show ?thesis
    by (auto simp: delete_many_def coll_ok_def list_all_iff dest!: filterE_Inr_subset split: sum.splits)
qed (auto simp: update_one_def delete_one_def coll_ok_def
          dest: update_first_ok delete_first_ok split: sum.splits prod.splits)

lemma get_collection_ok:
  "store_inv s \<Longrightarrow> store_inv (fst (get_collection s name)) \<and> coll_ok (snd (get_collection s name))"
  by (auto simp: get_collection_def store_inv_def coll_ok_def empty_collection_def split: option.splits)

lemma store_step_inv:
  assumes "store_step s op = Inr (s', r)" and "op_docs_wf op" and "store_inv s"
  shows "store_inv s'"
proof -
  obtain s1 c where gc: "get_collection s (op_coll op) = (s1, c)"
    by (cases "get_collection s (op_coll op)")
  with get_collection_ok [OF assms(3), of "op_coll op"] have "store_inv s1" "coll_ok c"
    by simp_all
  moreover obtain c' where "coll_op op c = Inr (c', r)" and "s' = s1(op_coll op \<mapsto> c')"
    using assms(1) gc by (auto simp: store_step_def split: sum.splits)
  ultimately show ?thesis
    using coll_op_ok [OF _ assms(2)] by (auto simp: store_inv_def)
qed

subsection \<open>Properties of the store\<close>

text \<open>C1. In every store reachable by writes of well-formed documents, every document
  of every collection is a well-formed dict that carries an \<open>id\<close>.\<close>

theorem reachable_store_inv:
  assumes "store_reach s"
  shows "store_inv s"
  using assms
proof (induction rule: store_reach.induct)
  case init
  show ?case by (simp add: store_inv_def empty_store_def)
next
  case (step s op s' r)
  then show ?case by (blast intro: store_step_inv)
qed

text \<open>A collection is created on first access and the same collection is returned
  by every later access.\<close>

theorem get_collection_stable:
  "get_collection (fst (get_collection s name)) name = get_collection s name
   \<and> (s name = None \<longrightarrow> snd (get_collection s name) = empty_collection)"
  by (simp add: get_collection_def split: option.splits)

end
