(* ===== verification/Backend.thy ===== *)
theory Backend
  imports Store
begin

text \<open>
  The one HTTP handler whose code the repository records: \<open>create_user\<close> of
  \<open>backend/server.py\<close> (\<open>POST /api/users\<close>, quoted in \<open>USER_CREATION_FIX.md\<close>). It
  looks the Aadhaar number up, rejects a duplicate with status 400, inserts the new
  cardholder, and runs the fraud engine, whose failure is caught and logged so that it
  never undoes the creation. The fraud engine is outside the repository: its answer
  (the alerts, or an exception) is an input. Uniqueness of Aadhaar numbers is the
  handler's check-then-insert, not a constraint of the store; \<open>conc_step\<close> lets two
  requests interleave between the check and the insert, as they may on a database whose
  calls suspend.
\<close>

datatype http_error = HTTPException nat string

text \<open>\<open>RationUser\<close>, as serialised by \<open>model_dump()\<close> with \<open>created_at\<close> in ISO form.\<close>

record ration_user =
  user_id :: string
  aadhaar_id :: string
  name :: string
  address :: string
  district :: string
  state :: string
  family_size :: int
  income :: real
  card_type :: string
  phone :: string
  status :: string
  verification_status :: string
  created_at :: string

definition user_doc :: "ration_user \<Rightarrow> doc" where
  "user_doc u =
     [(''id'', VStr (user_id u)), (''aadhaar_id'', VStr (aadhaar_id u)), (''name'', VStr (name u)),
      (''address'', VStr (address u)), (''district'', VStr (district u)), (''state'', VStr (state u)),
      (''family_size'', VNum (of_int (family_size u))), (''income'', VNum (income u)),
      (''card_type'', VStr (card_type u)), (''phone'', VStr (phone u)), (''status'', VStr (status u)),
      (''verification_status'', VStr (verification_status u)), (''created_at'', VStr (created_at u))]"

text \<open>\<open>{"aadhaar_id": user.aadhaar_id}\<close> and the projection \<open>{"_id": 0}\<close>.\<close>

definition aadhaar_query :: "string \<Rightarrow> query" where
  "aadhaar_query a = [(''aadhaar_id'', VStr a)]"

definition no_oid :: doc where
  "no_oid = [(''_id'', VNum 0)]"

text \<open>The fraud alerts inserted one by one into \<open>db.fraud_alerts\<close> (each \<open>FraudAlert\<close>
  carries its own id).\<close>

definition insert_alerts :: "store \<Rightarrow> (string \<times> doc) list \<Rightarrow> store" where
  "insert_alerts s alerts =
     (let (s1, c) = get_collection s ''fraud_alerts'' in s1(''fraud_alerts'' \<mapsto> fst (insert_many alerts c)))"

definition create_user :: "store \<Rightarrow> ration_user \<Rightarrow> (db_error + (string \<times> doc) list) \<Rightarrow> http_error + store \<times> ration_user" where
  "create_user s u fraud =
     (let (s1, users) = get_collection s ''users''
      in (case find_one users (aadhaar_query (aadhaar_id u)) (Some no_oid) of
            Inl e \<Rightarrow> Inl (HTTPException 500 ''User creation error'')
          | Inr (Some _) \<Rightarrow> Inl (HTTPException 400 ''Aadhaar ID already registered'')
          | Inr None \<Rightarrow>
              (let s2 = s1(''users'' \<mapsto> fst (insert_one (user_id u) (user_doc u) users))
               in (case fraud of
                     Inl _ \<Rightarrow> Inr (s2, u)
                   | Inr alerts \<Rightarrow> Inr (insert_alerts s2 alerts, u)))))"

subsection \<open>Concurrent requests\<close>

text \<open>Each request is split at its \<open>await\<close>s: the duplicate check, then the insert. A
  step is one request moving; which one moves is not determined.\<close>

datatype req_phase = Pending | Checked | Created | Rejected

definition users_of :: "store \<Rightarrow> doc list" where
  "users_of s = (case s ''users'' of None \<Rightarrow> [] | Some c \<Rightarrow> coll_docs c)"

inductive conc_step :: "ration_user list \<Rightarrow> store \<times> req_phase list \<Rightarrow> store \<times> req_phase list \<Rightarrow> bool"
  for us where
  check_new: "i < length ps \<Longrightarrow> ps ! i = Pending \<Longrightarrow>
     find_one (snd (get_collection s ''users'')) (aadhaar_query (aadhaar_id (us ! i))) (Some no_oid) = Inr None \<Longrightarrow>
     conc_step us (s, ps) (fst (get_collection s ''users''), ps[i := Checked])"
| check_dup: "i < length ps \<Longrightarrow> ps ! i = Pending \<Longrightarrow>
     find_one (snd (get_collection s ''users'')) (aadhaar_query (aadhaar_id (us ! i))) (Some no_oid) = Inr (Some d) \<Longrightarrow>
     conc_step us (s, ps) (fst (get_collection s ''users''), ps[i := Rejected])"
| insert: "i < length ps \<Longrightarrow> ps ! i = Checked \<Longrightarrow>
     conc_step us (s, ps)
       ((fst (get_collection s ''users''))(''users'' \<mapsto> fst (insert_one (user_id (us ! i)) (user_doc (us ! i)) (snd (get_collection s ''users'')))),
        ps[i := Created])"

text \<open>The property the duplicate check is meant to give: no two cardholders share an
  Aadhaar number.\<close>

definition users_unique :: "store \<Rightarrow> bool" where
  "users_unique s \<longleftrightarrow> distinct (map (\<lambda>d. get_field d ''aadhaar_id'') (users_of s))"

inductive users_reach :: "store \<Rightarrow> bool" where
  init: "users_reach empty_store"
| create: "users_reach s \<Longrightarrow> create_user s u fraud = Inr (s', u') \<Longrightarrow> users_reach s'"

text \<open>The types of the serialised \<open>RationUser\<close>: every field a string but the family
  size and the income, which are numbers; \<open>conforms\<close> checks a stored document against
  the field list, in order.\<close>

datatype field_type = TStr | TNum

fun has_type :: "jval \<Rightarrow> field_type \<Rightarrow> bool" where
  "has_type (VStr _) TStr = True"
| "has_type (VNum _) TNum = True"
| "has_type _ _ = False"

definition ration_user_fields :: "(string \<times> field_type) list" where
  "ration_user_fields =
     [(''id'', TStr), (''aadhaar_id'', TStr), (''name'', TStr), (''address'', TStr), (''district'', TStr),
      (''state'', TStr), (''family_size'', TNum), (''income'', TNum), (''card_type'', TStr), (''phone'', TStr),
      (''status'', TStr), (''verification_status'', TStr), (''created_at'', TStr)]"

definition conforms :: "doc \<Rightarrow> (string \<times> field_type) list \<Rightarrow> bool" where
  "conforms d sch \<longleftrightarrow> list_all2 (\<lambda>(k, v) (k', t). k = k' \<and> has_type v t) d sch"

subsection \<open>Lemmas\<close>

lemma wf_aadhaar_query [simp]: "wf_query (aadhaar_query a)"
  by (simp add: aadhaar_query_def)

lemma query_sem_aadhaar [simp]: "query_sem d (aadhaar_query a) \<longleftrightarrow> get_field d ''aadhaar_id'' = Some (VStr a)"
  by (simp add: aadhaar_query_def)

lemma users_of_get_collection [simp]: "coll_docs (snd (get_collection s ''users'')) = users_of s"
  by (simp add: get_collection_def users_of_def empty_collection_def split: option.splits)

lemma users_of_fst_get_collection [simp]: "users_of (fst (get_collection s n)) = users_of s"
  by (auto simp: get_collection_def users_of_def empty_collection_def split: option.splits)

lemma users_of_upd_users [simp]: "users_of (s(''users'' \<mapsto> c)) = coll_docs c"
  by (simp add: users_of_def)

lemma users_of_insert_alerts [simp]: "users_of (insert_alerts s alerts) = users_of s"
proof -
  have "users_of (fst (get_collection s ''fraud_alerts'')) = users_of s" by simp
  then show ?thesis by (simp add: insert_alerts_def split_def Let_def users_of_def)
qed

lemma with_id_user_doc [simp]: "with_id uid (user_doc u) = user_doc u"
  by (simp add: with_id_def user_doc_def get_field_def)

lemma aadhaar_user_doc [simp]: "get_field (user_doc u) ''aadhaar_id'' = Some (VStr (aadhaar_id u))"
  by (simp add: user_doc_def get_field_def)

lemma find_one_aadhaar:
  "find_one c (aadhaar_query a) p =
     Inr (map_option (project p) (List.find (\<lambda>d. get_field d ''aadhaar_id'' = Some (VStr a)) (coll_docs c)))"
  by (simp add: find_one_wf)

lemma create_user_Inr:
  assumes "create_user s u fraud = Inr (s', u')"
  shows "users_of s' = users_of s @ [user_doc u] \<and> u' = u
         \<and> (\<forall>d\<in>set (users_of s). get_field d ''aadhaar_id'' \<noteq> Some (VStr (aadhaar_id u)))"
proof -
  obtain s1 c where gc: "get_collection s ''users'' = (s1, c)" by (cases "get_collection s ''users''")
  have c: "coll_docs c = users_of s" and s1: "users_of s1 = users_of s"
    using gc users_of_get_collection [of s] users_of_fst_get_collection [of s "''users''"] by simp_all
  from assms gc have "List.find (\<lambda>d. get_field d ''aadhaar_id'' = Some (VStr (aadhaar_id u))) (coll_docs c) = None"
    by (auto simp: create_user_def find_one_aadhaar split: sum.splits option.splits)
  moreover from assms gc have "users_of s' = coll_docs c @ [user_doc u] \<and> u' = u"
    by (auto simp: create_user_def find_one_aadhaar insert_one_def Let_def split: sum.splits option.splits)
  ultimately show ?thesis using c by (simp add: find_None_iff)
qed

lemma create_user_found:
  assumes "\<exists>d\<in>set (users_of s). get_field d ''aadhaar_id'' = Some (VStr (aadhaar_id u))"
  shows "create_user s u fraud = Inl (HTTPException 400 ''Aadhaar ID already registered'')"
proof -
  from assms have "List.find (\<lambda>d. get_field d ''aadhaar_id'' = Some (VStr (aadhaar_id u))) (users_of s) \<noteq> None"
    by (auto simp: find_None_iff)
  then show ?thesis
    by (auto simp: create_user_def find_one_aadhaar split_def split: option.splits)
qed

lemma create_user_new:
  assumes "\<forall>d\<in>set (users_of s). get_field d ''aadhaar_id'' \<noteq> Some (VStr (aadhaar_id u))"
  shows "\<exists>s'. create_user s u fraud = Inr (s', u) \<and> users_of s' = users_of s @ [user_doc u]"
proof -
  from assms have "List.find (\<lambda>d. get_field d ''aadhaar_id'' = Some (VStr (aadhaar_id u))) (users_of s) = None"
    by (simp add: find_None_iff)
  then have "\<exists>s' u'. create_user s u fraud = Inr (s', u')"
    by (auto simp: create_user_def find_one_aadhaar split_def Let_def split: sum.splits)
  then show ?thesis using create_user_Inr by blast
qed

subsection \<open>Properties of the handler\<close>

lemma create_user_unique_step:
  "users_unique s \<Longrightarrow> create_user s u fraud = Inr (s', u') \<Longrightarrow> users_unique s'"
  by (drule create_user_Inr) (auto simp: users_unique_def)

text \<open>C3. When every write to the users collection goes through \<open>create_user\<close>, one
  request at a time, no two cardholders share an Aadhaar number.\<close>

theorem sequential_creation_unique:
  assumes "users_reach s"
  shows "users_unique s"
  using assms
proof (induction rule: users_reach.induct)
  case init
  show ?case by (simp add: users_unique_def users_of_def empty_store_def)
next
  case (create s u fraud s' u')
  then show ?case by (blast intro: create_user_unique_step)
qed


text \<open>C19. A request for an Aadhaar number that is already registered is refused with
  status 400 and changes nothing.\<close>

theorem duplicate_aadhaar_rejected:
  assumes "\<exists>d\<in>set (users_of s). get_field d ''aadhaar_id'' = Some (VStr (aadhaar_id u))"
  shows "create_user s u fraud = Inl (HTTPException 400 ''Aadhaar ID already registered'')"
  using assms by (rule create_user_found)

text \<open>C20. An exception of the fraud engine does not undo the creation: the cardholder
  is stored and returned, and no alert is written.\<close>

theorem fraud_failure_still_creates:
  assumes "\<forall>d\<in>set (users_of s). get_field d ''aadhaar_id'' \<noteq> Some (VStr (aadhaar_id u))"
  shows "create_user s u (Inl e) = Inr ((fst (get_collection s ''users''))(''users'' \<mapsto> \<lparr>coll_docs = users_of s @ [user_doc u]\<rparr>), u)"
proof -
  from assms have "List.find (\<lambda>d. get_field d ''aadhaar_id'' = Some (VStr (aadhaar_id u))) (users_of s) = None"
    by (simp add: find_None_iff)
  then show ?thesis
    by (simp add: create_user_def find_one_aadhaar split_def insert_one_def Let_def)
qed

end
