(* ===== verification/UiCommon.thy ===== *)
theory UiCommon
  imports Prelude
begin

text \<open>
  What the React pages share: an HTTP call either succeeds with the response body or
  fails with the error's \<open>response.data.detail\<close> when the server sent one; the pages
  report outcomes through \<open>sonner\<close> toasts. A page is a record of its \<open>useState\<close>
  hooks; a handler is a function from the state and an event (a user action or the
  completion of an \<open>axios\<close> call) to the new state and the calls it starts.
\<close>

datatype 'a response = Ok 'a | Failed "string option"

datatype toast = ToastSuccess string | ToastError string | ToastInfo string | ToastWarning string

text \<open>\<open>error.response?.data?.detail || fallback\<close>: the server's detail when present and
  non-empty (an empty string is falsy), else the fallback text.\<close>

definition detail_or :: "string option \<Rightarrow> string \<Rightarrow> string" where
  "detail_or det fallback = (case det of Some d \<Rightarrow> if d = [] then fallback else d | None \<Rightarrow> fallback)"

text \<open>\<open>parseInt\<close> on a decimal input: \<open>None\<close> is \<open>NaN\<close> (an empty or non-numeric field).
  Leading digits are read, the rest ignored, as \<open>parseInt("12abc") = 12\<close>; a leading
  minus sign is honoured.\<close>

fun digits_prefix :: "string \<Rightarrow> string" where
  "digits_prefix [] = []"
| "digits_prefix (c # cs) = (if CHR ''0'' \<le> c \<and> c \<le> CHR ''9'' then c # digits_prefix cs else [])"

definition digit_step :: "int \<Rightarrow> char \<Rightarrow> int" where
  "digit_step n c = 10 * n + int (of_char c - of_char CHR ''0'')"

definition digits_value :: "string \<Rightarrow> int" where
  "digits_value ds = foldl digit_step 0 ds"

definition split_sign :: "string \<Rightarrow> bool \<times> string" where
  "split_sign s = (if s \<noteq> [] \<and> hd s = CHR ''-'' then (True, tl s) else (False, s))"

definition parse_int :: "string \<Rightarrow> int option" where
  "parse_int s =
     (let (neg, rest) = split_sign s;
          ds = digits_prefix rest
      in if ds = [] then None else Some (if neg then - digits_value ds else digits_value ds))"

text \<open>\<open>parseFloat\<close> on a decimal input: optional sign, integer digits, an optional
  fraction; \<open>None\<close> is \<open>NaN\<close>.\<close>

definition parse_unsigned_float :: "string \<Rightarrow> real option" where
  "parse_unsigned_float rest =
     (let ds1 = digits_prefix rest;
          after = drop (length ds1) rest;
          ds2 = (if after \<noteq> [] \<and> hd after = CHR ''.'' then digits_prefix (tl after) else []);
          v = of_int (digits_value ds1) + of_int (digits_value ds2) / 10 ^ length ds2
      in if ds1 = [] \<and> ds2 = [] then None else Some v)"

definition parse_float :: "string \<Rightarrow> real option" where
  "parse_float s = (let (neg, rest) = split_sign s in map_option (\<lambda>v. if neg then - v else v) (parse_unsigned_float rest))"

lemma detail_or_nonempty: "fallback \<noteq> [] \<Longrightarrow> detail_or det fallback \<noteq> []"
  by (simp add: detail_or_def split: option.splits)

lemma parse_int_empty [simp]: "parse_int [] = None"
  by (simp add: parse_int_def split_sign_def)

end
