(* ===== verification/NumberFormat.thy ===== *)
theory NumberFormat
  imports UiCommon
begin

text \<open>
  How the pages print numbers. \<open>Number.prototype.toFixed(f)\<close> writes a number rounded
  to \<open>f\<close> decimals: the pages show confidence scores and chart shares as
  \<open>(x * 100).toFixed(0)\<close> percent and amounts as \<open>toFixed(2)\<close>. The decimal digits of a
  natural number come from \<open>show_nat\<close>, the loop that divides by ten until one digit is
  left; it reads back through the page's \<open>parseInt\<close> and \<open>parseFloat\<close> models.
\<close>

definition digit_char :: "nat \<Rightarrow> char" where
  "digit_char d = ''0123456789'' ! d"

function show_nat :: "nat \<Rightarrow> string" where
  "show_nat n = (if n < 10 then [digit_char n] else show_nat (n div 10) @ [digit_char (n mod 10)])"
  by auto
termination by (relation "measure id") auto

text \<open>\<open>Number.prototype.toFixed(f)\<close> (ECMA-262, for \<open>|x| < 10^21\<close>): \<open>n\<close> is the integer
  nearest to \<open>x * 10^f\<close>, the larger one on a tie; its digits, padded with zeros to
  at least \<open>f + 1\<close> of them, get a decimal point before the last \<open>f\<close>; a negative
  \<open>x\<close> is printed as \<open>-\<close> and the digits of \<open>-x\<close>.\<close>

definition is_digit :: "char \<Rightarrow> bool" where
  "is_digit c \<longleftrightarrow> CHR ''0'' \<le> c \<and> c \<le> CHR ''9''"

definition to_fixed_digits :: "nat \<Rightarrow> nat \<Rightarrow> string" where
  "to_fixed_digits f n =
     (let m = show_nat n
      in if f = 0 then m
         else (let z = (if length m \<le> f then replicate (f + 1 - length m) CHR ''0'' @ m else m);
                   k = length z
               in take (k - f) z @ CHR ''.'' # drop (k - f) z))"

definition to_fixed :: "nat \<Rightarrow> real \<Rightarrow> string" where
  "to_fixed f x =
     (if x < 0 then ''-'' @ to_fixed_digits f (nat \<lfloor>- x * 10 ^ f + 1 / 2\<rfloor>)
      else to_fixed_digits f (nat \<lfloor>x * 10 ^ f + 1 / 2\<rfloor>))"

text \<open>The number \<open>toFixed(f)\<close> denotes: \<open>x\<close> rounded to \<open>f\<close> decimals, halves away
  from zero.\<close>

definition fixed_value :: "nat \<Rightarrow> real \<Rightarrow> real" where
  "fixed_value f x =
     (if x < 0 then - of_int \<lfloor>- x * 10 ^ f + 1 / 2\<rfloor> / 10 ^ f else of_int \<lfloor>x * 10 ^ f + 1 / 2\<rfloor> / 10 ^ f)"

text \<open>The percentage label of a score in [0, 1], as the alert cards, the details dialog
  and the pie charts write it: \<open>(x * 100).toFixed(0)\<close> followed by \<open>%\<close>.\<close>

definition percent_label :: "real \<Rightarrow> string" where
  "percent_label x = to_fixed 0 (x * 100) @ ''%''"

text \<open>An integer as \<open>String(n)\<close> writes it.\<close>

definition show_int :: "int \<Rightarrow> string" where
  "show_int n = (if n < 0 then CHR ''-'' # show_nat (nat (- n)) else show_nat (nat n))"

declare show_nat.simps [simp del]

lemma digit_char_value: "d < 10 \<Longrightarrow> of_char (digit_char d) = 48 + (d::nat)"
  by (auto simp: digit_char_def less_Suc_eq numeral_eq_Suc)

lemma digit_char_is_digit: "d < 10 \<Longrightarrow> CHR ''0'' \<le> digit_char d \<and> digit_char d \<le> CHR ''9''"
  by (auto simp: digit_char_def less_Suc_eq numeral_eq_Suc)

lemma digits_prefix_all: "\<forall>c\<in>set ds. is_digit c \<Longrightarrow> digits_prefix ds = ds"
  by (induction ds) (auto simp: is_digit_def)

lemma digits_prefix_stop:
  "\<forall>c\<in>set ds. is_digit c \<Longrightarrow> \<not> is_digit c \<Longrightarrow> digits_prefix (ds @ c # r) = ds"
  by (induction ds) (auto simp: is_digit_def)

lemma show_nat_digits: "\<forall>c\<in>set (show_nat n). is_digit c"
  by (induction n rule: show_nat.induct) (subst show_nat.simps, auto simp: is_digit_def digit_char_is_digit)

lemma show_nat_not_Nil [simp]: "show_nat n \<noteq> []"
  by (subst show_nat.simps) simp

lemma digits_value_foldl:
  "foldl digit_step a ys
   = a * 10 ^ length ys + digits_value ys"
proof (induction ys arbitrary: a)
  case (Cons y ys)
  have f1: "foldl digit_step a (y # ys) = digit_step a y * 10 ^ length ys + digits_value ys"
    by (simp add: Cons.IH)
  have f2: "digits_value (y # ys) = digit_step 0 y * 10 ^ length ys + digits_value ys"
    using Cons.IH [of "digit_step 0 y"] by (simp add: digits_value_def)
  have d: "digit_step a y = 10 * a + digit_step 0 y" by (simp add: digit_step_def)
  show ?case by (simp only: f1 f2 d length_Cons power_Suc) (simp add: algebra_simps)
qed (simp add: digits_value_def)

lemma digits_value_append: "digits_value (xs @ ys) = digits_value xs * 10 ^ length ys + digits_value ys"
proof -
  have "digits_value (xs @ ys) = foldl digit_step (digits_value xs) ys"
    by (simp add: digits_value_def)
  then show ?thesis by (simp only: digits_value_foldl)
qed

lemma digits_value_show_nat: "digits_value (show_nat n) = int n"
proof (induction n rule: show_nat.induct)
  case (1 n)
  show ?case
  proof (cases "n < 10")
    case True
    then show ?thesis by (subst show_nat.simps) (simp add: digits_value_def digit_step_def digit_char_value)
  next
    case False
    then have "digits_value (show_nat n) = int (n div 10) * 10 + int (n mod 10)"
      using 1 by (subst show_nat.simps) (simp add: digits_value_append digits_value_def digit_step_def digit_char_value)
    then show ?thesis using div_mult_mod_eq [of n 10] by (metis of_nat_add of_nat_mult of_nat_numeral)
  qed
qed

lemma show_nat_hd: "\<exists>c r. show_nat n = c # r \<and> is_digit c"
  using show_nat_digits [of n] show_nat_not_Nil [of n] by (cases "show_nat n") auto

lemma show_nat_small [simp]: "n < 10 \<Longrightarrow> show_nat n = [digit_char n]"
  by (simp add: show_nat.simps)

lemma show_nat_large [simp]: "\<not> n < 10 \<Longrightarrow> show_nat n = show_nat (n div 10) @ [digit_char (n mod 10)]"
  by (subst show_nat.simps) simp

lemma digits_value_Nil [simp]: "digits_value [] = 0"
  by (simp add: digits_value_def)

lemma not_minus_digit: "is_digit c \<Longrightarrow> c \<noteq> CHR ''-''"
  by (auto simp: is_digit_def)

lemma digits_value_zeros [simp]: "digits_value (replicate k CHR ''0'' @ m) = digits_value m"
  by (induction k) (simp_all add: digits_value_def digit_step_def)

lemma parse_float_int:
  assumes "a = c # a'" "is_digit c" "\<forall>c\<in>set a. is_digit c"
  shows "parse_float a = Some (of_int (digits_value a))"
proof -
  have dp: "digits_prefix a = a" using assms(3) by (rule digits_prefix_all)
  have sg: "split_sign a = (False, a)" using assms(1,2) by (simp add: split_sign_def not_minus_digit)
  have "a \<noteq> []" using assms(1) by simp
  with dp sg assms(1) show ?thesis by (simp add: parse_float_def parse_unsigned_float_def Let_def)
qed

lemma parse_float_point:
  assumes "a = c # a'" "is_digit c" "\<forall>c\<in>set a. is_digit c" "\<forall>c\<in>set b. is_digit c"
  shows "parse_float (a @ CHR ''.'' # b) = Some (of_int (digits_value a) + of_int (digits_value b) / 10 ^ length b)"
proof -
  have "\<not> is_digit CHR ''.''" by (simp add: is_digit_def)
  with assms(3) have dp: "digits_prefix (a @ CHR ''.'' # b) = a" by (rule digits_prefix_stop)
  have sg: "split_sign (a @ CHR ''.'' # b) = (False, a @ CHR ''.'' # b)"
    using assms(1,2) by (simp add: split_sign_def not_minus_digit)
  have "digits_prefix b = b" using assms(4) by (rule digits_prefix_all)
  moreover have "a \<noteq> []" using assms(1) by simp
  ultimately show ?thesis using dp sg by (simp add: parse_float_def parse_unsigned_float_def Let_def)
qed

lemma parse_float_split:
  assumes digits: "\<forall>c\<in>set z. is_digit c" and long: "f < length z"
  shows "parse_float (take (length z - f) z @ CHR ''.'' # drop (length z - f) z)
         = Some (of_int (digits_value z) / 10 ^ f)"
proof -
  define a where "a = take (length z - f) z"
  define b where "b = drop (length z - f) z"
  have ab: "z = a @ b" by (simp add: a_def b_def)
  have lb: "length b = f" using long by (simp add: b_def)
  have "a \<noteq> []" using long by (cases z) (simp_all add: a_def)
  then obtain c a' where a: "a = c # a'" by (cases a) auto
  have da: "\<forall>c\<in>set a. is_digit c" and db: "\<forall>c\<in>set b. is_digit c"
    using digits ab by auto
  have "is_digit c" using da a by simp
  from parse_float_point [OF a this da db]
  have "parse_float (a @ CHR ''.'' # b) = Some (of_int (digits_value a) + of_int (digits_value b) / 10 ^ f)"
    by (simp add: lb)
  moreover have "of_int (digits_value z) / (10::real) ^ f = of_int (digits_value a) + of_int (digits_value b) / 10 ^ f"
    by (simp add: ab digits_value_append lb field_simps)
  ultimately show ?thesis by (simp add: a_def b_def)
qed

lemma parse_float_to_fixed_digits: "parse_float (to_fixed_digits f n) = Some (of_nat n / 10 ^ f)"
proof (cases "f = 0")
  case True
  obtain c r where "show_nat n = c # r" "is_digit c" using show_nat_hd by blast
  from parse_float_int [OF this show_nat_digits] True show ?thesis
    by (simp add: to_fixed_digits_def digits_value_show_nat)
next
  case False
  define m where "m = show_nat n"
  define z where "z = (if length m \<le> f then replicate (f + 1 - length m) CHR ''0'' @ m else m)"
  have "\<forall>c\<in>set z. is_digit c"
    using show_nat_digits [of n] by (auto simp: z_def m_def is_digit_def)
  moreover have "f < length z" by (simp add: z_def)
  moreover have "digits_value z = int n" by (simp add: z_def m_def digits_value_show_nat)
  ultimately have "parse_float (take (length z - f) z @ CHR ''.'' # drop (length z - f) z) = Some (of_nat n / 10 ^ f)"
    by (simp add: parse_float_split)
  with False show ?thesis by (simp add: to_fixed_digits_def Let_def m_def [symmetric] z_def [symmetric])
qed

lemma to_fixed_digits_hd: "\<exists>c r. to_fixed_digits f n = c # r \<and> is_digit c"
proof (cases "f = 0")
  case True
  then show ?thesis using show_nat_hd [of n] by (simp add: to_fixed_digits_def)
next
  case False
  obtain c r where m: "show_nat n = c # r" "is_digit c" using show_nat_hd by blast
  define z where "z = (if length (c # r) \<le> f then replicate (f + 1 - length (c # r)) CHR ''0'' @ c # r else c # r)"
  have "f < length z" by (simp add: z_def)
  then obtain c' z' where z: "z = c' # z'" by (cases z) auto
  have "is_digit c'" using z m by (cases "f - length r") (auto simp: z_def is_digit_def split: if_splits)
  moreover have "take (length z - f) z = c' # take (length z - f - 1) z'"
    using \<open>f < length z\<close> z by (cases "length z - f") auto
  moreover have "to_fixed_digits f n = take (length z - f) z @ CHR ''.'' # drop (length z - f) z"
    using False m by (simp add: to_fixed_digits_def Let_def z_def)
  ultimately show ?thesis by simp
qed

lemma parse_float_minus:
  assumes "t = c # r" "is_digit c"
  shows "parse_float (CHR ''-'' # t) = map_option uminus (parse_float t)"
proof -
  have "split_sign t = (False, t)" using assms by (simp add: split_sign_def not_minus_digit)
  then show ?thesis by (simp add: parse_float_def split_sign_def option.map_comp o_def)
qed

lemma parse_float_to_fixed: "parse_float (to_fixed f x) = Some (fixed_value f x)"
proof (cases "x < 0")
  case True
  define k where "k = nat \<lfloor>- x * 10 ^ f + 1 / 2\<rfloor>"
  obtain c r where t: "to_fixed_digits f k = c # r" "is_digit c"
    using to_fixed_digits_hd by blast
  have "(0::real) < 10 ^ f" by simp
  with True have "x * 10 ^ f < 0" by (rule mult_neg_pos)
  then have "0 \<le> \<lfloor>- x * 10 ^ f + 1 / 2\<rfloor>" by simp
  then have v: "fixed_value f x = - (of_nat k / 10 ^ f)" using True by (simp add: fixed_value_def k_def)
  have "to_fixed f x = CHR ''-'' # to_fixed_digits f k" using True by (simp add: to_fixed_def k_def)
  then show ?thesis by (simp add: v parse_float_minus [OF t] parse_float_to_fixed_digits)
next
  case False
  then have "0 \<le> \<lfloor>x * 10 ^ f + 1 / 2\<rfloor>" by simp
  with False show ?thesis by (simp add: to_fixed_def fixed_value_def parse_float_to_fixed_digits)
qed

lemma round_half_error: "\<bar>of_int \<lfloor>y + 1 / 2\<rfloor> - y\<bar> \<le> (1 / 2 :: real)"
  using of_int_floor_le [of "y + 1 / 2"] real_of_int_floor_gt_diff_one [of "y + 1 / 2"] by linarith

lemma round_half_int [simp]: "\<lfloor>of_int k + 1 / 2 :: real\<rfloor> = k"
  by (simp add: floor_eq_iff)

lemma parse_int_show_nat: "parse_int (show_nat n) = Some (int n)"
proof -
  obtain c r where "show_nat n = c # r" "is_digit c" using show_nat_hd by blast
  then have "split_sign (show_nat n) = (False, show_nat n)" by (simp add: split_sign_def not_minus_digit)
  then show ?thesis
    by (simp add: parse_int_def digits_prefix_all [OF show_nat_digits] digits_value_show_nat)
qed

lemma fixed_percent_ge:
  assumes "0 < n"
  shows "(of_int n \<le> fixed_value 0 (x * 100)) = (of_int n - 1 / 2 \<le> x * 100)"
proof (cases "x < 0")
  case True
  have "fixed_value 0 (x * 100) \<le> 0" using True by (simp add: fixed_value_def)
  moreover have "(1::real) \<le> of_int n" using assms by simp
  ultimately show ?thesis using True by linarith
next
  case False
  then have "(of_int n \<le> fixed_value 0 (x * 100)) = (n \<le> \<lfloor>x * 100 + 1 / 2\<rfloor>)"
    by (simp add: fixed_value_def)
  also have "\<dots> = (of_int n \<le> x * 100 + 1 / 2)" by (rule le_floor_iff)
  finally show ?thesis by linarith
qed

lemma fixed_value_close: "\<bar>fixed_value f x - x\<bar> \<le> 1 / (2 * 10 ^ f)"
proof -
  have p: "(0::real) < 10 ^ f" by simp
  define y where "y = \<bar>x\<bar> * 10 ^ f"
  have "\<bar>fixed_value f x - x\<bar> = \<bar>of_int \<lfloor>y + 1 / 2\<rfloor> - y\<bar> / 10 ^ f"
  proof (cases "x < 0")
    case True
    then have yx: "- x * 10 ^ f = y" by (simp add: y_def)
    have "fixed_value f x - x = - ((of_int \<lfloor>y + 1 / 2\<rfloor> - y) / 10 ^ f)"
      using p by (simp only: fixed_value_def if_P [OF True] yx) (simp add: field_simps yx [symmetric])
    then show ?thesis using p by simp
  next
    case False
    then have yx: "x * 10 ^ f = y" by (simp add: y_def)
    have "fixed_value f x - x = (of_int \<lfloor>y + 1 / 2\<rfloor> - y) / 10 ^ f"
      using p by (simp only: fixed_value_def if_not_P [OF False] yx) (simp add: field_simps yx [symmetric])
    then show ?thesis using p by simp
  qed
  also have "\<dots> \<le> (1 / 2) / 10 ^ f"
    using p by (intro divide_right_mono round_half_error) simp
  also have "\<dots> = 1 / (2 * 10 ^ f)" by simp
  finally show ?thesis .
qed

subsection \<open>Properties of the number printers\<close>




end
