(* ===== verification/UsersPage.thy ===== *)
theory UsersPage
  imports Backend NumberFormat "HOL-Library.Stream"
begin

text \<open>
  The user-management page (\<open>frontend/src/pages/Users.js\<close>). Its state is the page's
  \<open>useState\<close> hooks; \<open>users_step\<close> runs one event: the effects on mount and on a change
  of \<open>users\<close>, \<open>searchTerm\<close> or \<open>statusFilter\<close>, the input handlers of the add-user
  form and the filters, the buttons of each user card, and the completion of each
  \<open>axios\<close> call the handlers start. The users the page lists are the \<open>RationUser\<close>
  documents the backend returns. Finite runs are lists of events (\<open>users_run\<close>);
  unbounded runs are streams (\<open>users_trace\<close>), on which the end of loading is stated.
\<close>

record new_user_form =
  nu_aadhaar_id :: string
  nu_name :: string
  nu_address :: string
  nu_district :: string
  nu_state :: string
  nu_family_size :: "int option"
  nu_income :: "real option"
  nu_card_type :: string
  nu_phone :: string

definition initial_form :: new_user_form where
  "initial_form =
     \<lparr>nu_aadhaar_id = [], nu_name = [], nu_address = [], nu_district = [], nu_state = [],
      nu_family_size = Some 1, nu_income = Some 0, nu_card_type = ''BPL'', nu_phone = []\<rparr>"

record users_state =
  users :: "ration_user list"
  filteredUsers :: "ration_user list"
  searchTerm :: string
  statusFilter :: string
  selectedUser :: "ration_user option"
  showAddDialog :: bool
  showDetailsDialog :: bool
  loading :: bool
  newUser :: new_user_form
  toasts :: "toast list"

definition users_init :: users_state where
  "users_init =
     \<lparr>users = [], filteredUsers = [], searchTerm = [], statusFilter = ''all'', selectedUser = None,
      showAddDialog = False, showDetailsDialog = False, loading = True, newUser = initial_form,
      toasts = []\<rparr>"

text \<open>The calls the page makes to the backend.\<close>

datatype api_call =
    GetUsers
  | PostUser new_user_form
  | PatchUserStatus string string
  | PostVerify string
  | PostScan string

subsection \<open>Filtering\<close>

text \<open>\<open>filterUsers\<close>: the status filter unless it is \<open>"all"\<close>, then, for a non-empty
  search term, a case-insensitive match on the name or a literal match on the Aadhaar
  number.\<close>

definition user_matches_search :: "string \<Rightarrow> ration_user \<Rightarrow> bool" where
  "user_matches_search term u \<longleftrightarrow>
     str_includes (to_lower (name u)) (to_lower term) \<or> str_includes (aadhaar_id u) term"

definition filter_users :: "ration_user list \<Rightarrow> string \<Rightarrow> string \<Rightarrow> ration_user list" where
  "filter_users us term sf =
     (let f1 = (if sf \<noteq> ''all'' then filter (\<lambda>u. status u = sf) us else us)
      in if term \<noteq> [] then filter (user_matches_search term) f1 else f1)"

text \<open>The effect \<open>useEffect(filterUsers, [users, searchTerm, statusFilter])\<close>, run after
  every render in which one of its dependencies changed.\<close>

definition filter_effect :: "users_state \<Rightarrow> users_state" where
  "filter_effect s = s\<lparr>filteredUsers := filter_users (users s) (searchTerm s) (statusFilter s)\<rparr>"

subsection \<open>The user cards\<close>

text \<open>The buttons on one card: Verify while the Aadhaar verification is pending, Scan
  always, Suspend for an active user, Activate for a suspended one.\<close>

datatype user_button = VerifyBtn | ScanBtn | SuspendBtn | ActivateBtn

definition user_buttons :: "ration_user \<Rightarrow> user_button list" where
  "user_buttons u =
     (if verification_status u = ''pending'' then [VerifyBtn] else [])
     @ [ScanBtn]
     @ (if status u = ''active'' then [SuspendBtn] else [])
     @ (if status u = ''suspended'' then [ActivateBtn] else [])"

text \<open>\<open>getStatusBadge\<close>: the badge variant of a known status; an unknown status has no
  entry in \<open>variants\<close> and renders a plain badge.\<close>

definition status_badge :: "string \<Rightarrow> string option" where
  "status_badge st =
     (if st = ''active'' then Some ''default''
      else if st = ''suspended'' then Some ''secondary''
      else if st = ''flagged'' then Some ''destructive'' else None)"

text \<open>\<open>getVerificationBadge\<close>: the class of a verification status; an unknown status
  gets none.\<close>

definition verification_badge :: "string \<Rightarrow> string option" where
  "verification_badge st =
     (if st = ''verified'' then Some ''bg-green-100 text-green-700''
      else if st = ''pending'' then Some ''bg-amber-100 text-amber-700''
      else if st = ''rejected'' then Some ''bg-red-100 text-red-700'' else None)"

text \<open>One user card: the name with both badges, the detail rows, the income (shown with
  the browser's \<open>toLocaleString\<close>, so as the number here) and the buttons.\<close>

record user_card_view =
  uc_name :: string
  uc_status_badge :: "string option"
  uc_verification_badge :: "string option"
  uc_rows :: "(string \<times> string) list"
  uc_income :: real
  uc_buttons :: "user_button list"

definition user_card :: "ration_user \<Rightarrow> user_card_view" where
  "user_card u =
     \<lparr>uc_name = name u, uc_status_badge = status_badge (status u),
      uc_verification_badge = verification_badge (verification_status u),
      uc_rows = [(''Aadhaar:'', aadhaar_id u), (''Card Type:'', card_type u),
                 (''District:'', district u @ '', '' @ state u), (''Family Size:'', show_int (family_size u)),
                 (''Phone:'', phone u)],
      uc_income = income u, uc_buttons = user_buttons u\<rparr>"

text \<open>What the list area shows: the loading text, or the cards of \<open>filteredUsers\<close>
  followed by "No users found" when there are none.\<close>

datatype users_view = UsersLoading | UsersList "user_card_view list" bool

definition users_view :: "users_state \<Rightarrow> users_view" where
  "users_view s =
     (if loading s then UsersLoading
      else UsersList (map user_card (filteredUsers s)) (filteredUsers s = []))"

subsection \<open>Events\<close>

datatype form_field = FAadhaar | FName | FAddress | FDistrict | FState | FFamilySize | FIncome
  | FCardType | FPhone

text \<open>\<open>onChange\<close> of one form control: \<open>setNewUser({ ...newUser, field: value })\<close>,
  through \<open>parseInt\<close> and \<open>parseFloat\<close> for the two number inputs.\<close>

fun set_form_field :: "new_user_form \<Rightarrow> form_field \<Rightarrow> string \<Rightarrow> new_user_form" where
  "set_form_field f FAadhaar v = f\<lparr>nu_aadhaar_id := v\<rparr>"
| "set_form_field f FName v = f\<lparr>nu_name := v\<rparr>"
| "set_form_field f FAddress v = f\<lparr>nu_address := v\<rparr>"
| "set_form_field f FDistrict v = f\<lparr>nu_district := v\<rparr>"
| "set_form_field f FState v = f\<lparr>nu_state := v\<rparr>"
| "set_form_field f FFamilySize v = f\<lparr>nu_family_size := parse_int v\<rparr>"
| "set_form_field f FIncome v = f\<lparr>nu_income := parse_float v\<rparr>"
| "set_form_field f FCardType v = f\<lparr>nu_card_type := v\<rparr>"
| "set_form_field f FPhone v = f\<lparr>nu_phone := v\<rparr>"

text \<open>The browser submits the form only when its constraints hold: every \<open>required\<close>
  field non-empty, family size a number of at least 1 (\<open>min="1"\<close>), income a number of
  at least 0 (\<open>min="0"\<close>). A \<open>NaN\<close> renders as an empty number field.\<close>

definition form_valid :: "new_user_form \<Rightarrow> bool" where
  "form_valid f \<longleftrightarrow>
     nu_aadhaar_id f \<noteq> [] \<and> nu_name f \<noteq> [] \<and> nu_address f \<noteq> [] \<and> nu_district f \<noteq> []
     \<and> nu_state f \<noteq> [] \<and> nu_phone f \<noteq> []
     \<and> (case nu_family_size f of Some n \<Rightarrow> 1 \<le> n | None \<Rightarrow> False)
     \<and> (case nu_income f of Some x \<Rightarrow> 0 \<le> x | None \<Rightarrow> False)"

datatype users_event =
    UsersMount
  | UsersFetched "ration_user list response"
  | SearchInput string
  | StatusSelect string
  | AddDialogOpen bool
  | FormInput form_field string
  | SubmitAdd
  | AddDone "unit response"
  | ClickUserButton string user_button
  | StatusDone string "unit response"
  | VerifyDone "string response"
  | ScanDone "string response"

text \<open>A click reaches a handler only when the card of that user is rendered with that
  button.\<close>

definition button_shown :: "users_state \<Rightarrow> string \<Rightarrow> user_button \<Rightarrow> bool" where
  "button_shown s uid b \<longleftrightarrow>
     \<not> loading s \<and> (\<exists>u\<in>set (filteredUsers s). user_id u = uid \<and> b \<in> set (user_buttons u))"

fun button_call :: "string \<Rightarrow> user_button \<Rightarrow> api_call" where
  "button_call uid VerifyBtn = PostVerify uid"
| "button_call uid ScanBtn = PostScan uid"
| "button_call uid SuspendBtn = PatchUserStatus uid ''suspended''"
| "button_call uid ActivateBtn = PatchUserStatus uid ''active''"

text \<open>One handler, before the filter effect.\<close>

fun users_handle :: "users_state \<Rightarrow> users_event \<Rightarrow> users_state \<times> api_call list" where
  "users_handle s UsersMount = (s, [GetUsers])"
| "users_handle s (UsersFetched (Ok data)) = (s\<lparr>users := data, loading := False\<rparr>, [])"
| "users_handle s (UsersFetched (Failed _)) =
     (s\<lparr>toasts := toasts s @ [ToastError ''Failed to fetch users''], loading := False\<rparr>, [])"
| "users_handle s (SearchInput v) = (s\<lparr>searchTerm := v\<rparr>, [])"
| "users_handle s (StatusSelect v) = (s\<lparr>statusFilter := v\<rparr>, [])"
| "users_handle s (AddDialogOpen b) = (s\<lparr>showAddDialog := b\<rparr>, [])"
| "users_handle s (FormInput fld v) = (s\<lparr>newUser := set_form_field (newUser s) fld v\<rparr>, [])"
| "users_handle s SubmitAdd =
     (if showAddDialog s \<and> form_valid (newUser s) then (s, [PostUser (newUser s)]) else (s, []))"
| "users_handle s (AddDone (Ok _)) =
     (s\<lparr>toasts := toasts s @ [ToastSuccess ''User added successfully''], showAddDialog := False,
        newUser := initial_form\<rparr>, [GetUsers])"
| "users_handle s (AddDone (Failed det)) =
     (s\<lparr>toasts := toasts s @ [ToastError (detail_or det ''Failed to add user'')]\<rparr>, [])"
| "users_handle s (ClickUserButton uid b) =
     (if button_shown s uid b then (s, [button_call uid b]) else (s, []))"
| "users_handle s (StatusDone st (Ok _)) =
     (s\<lparr>toasts := toasts s @ [ToastSuccess (''User '' @ st @ '' successfully'')]\<rparr>, [GetUsers])"
| "users_handle s (StatusDone st (Failed _)) =
     (s\<lparr>toasts := toasts s @ [ToastError ''Failed to update user status'']\<rparr>, [])"
| "users_handle s (VerifyDone (Ok msg)) = (s\<lparr>toasts := toasts s @ [ToastSuccess msg]\<rparr>, [GetUsers])"
| "users_handle s (VerifyDone (Failed _)) = (s\<lparr>toasts := toasts s @ [ToastError ''Verification failed'']\<rparr>, [])"
| "users_handle s (ScanDone (Ok msg)) = (s\<lparr>toasts := toasts s @ [ToastInfo msg]\<rparr>, [])"
| "users_handle s (ScanDone (Failed _)) = (s\<lparr>toasts := toasts s @ [ToastError ''Fraud scan failed'']\<rparr>, [])"

text \<open>One event and the render that follows it: the filter effect runs on mount and
  whenever \<open>users\<close>, \<open>searchTerm\<close> or \<open>statusFilter\<close> changed.\<close>

definition users_step :: "users_state \<Rightarrow> users_event \<Rightarrow> users_state \<times> api_call list" where
  "users_step s e =
     (let (s', calls) = users_handle s e
      in (if e = UsersMount \<or> users s' \<noteq> users s \<or> searchTerm s' \<noteq> searchTerm s
             \<or> statusFilter s' \<noteq> statusFilter s
          then filter_effect s' else s', calls))"

fun users_run :: "users_state \<Rightarrow> users_event list \<Rightarrow> users_state \<times> api_call list" where
  "users_run s [] = (s, [])"
| "users_run s (e # es) =
     (let (s1, c1) = users_step s e; (s2, c2) = users_run s1 es in (s2, c1 @ c2))"

text \<open>An unbounded run of the page: the events arrive as a stream, and the state after
  the first \<open>n\<close> of them is the page's state at time \<open>n\<close>. The reply to
  \<open>fetchUsers\<close> is the event \<open>UsersFetched\<close>, whatever its outcome.\<close>

definition users_trace :: "users_state \<Rightarrow> users_event stream \<Rightarrow> nat \<Rightarrow> users_state" where
  "users_trace s es n = fst (users_run s (stake n es))"

fun is_users_fetched :: "users_event \<Rightarrow> bool" where
  "is_users_fetched (UsersFetched _) = True"
| "is_users_fetched _ = False"

subsection \<open>Lemmas\<close>

definition users_consistent :: "users_state \<Rightarrow> bool" where
  "users_consistent s \<longleftrightarrow> filteredUsers s = filter_users (users s) (searchTerm s) (statusFilter s)"

lemma users_handle_filtered [simp]: "filteredUsers (fst (users_handle s e)) = filteredUsers s"
  by (cases "(s, e)" rule: users_handle.cases) simp_all

lemma users_handle_loading_mono: "\<not> loading s \<Longrightarrow> \<not> loading (fst (users_handle s e))"
  by (cases "(s, e)" rule: users_handle.cases) simp_all

lemma users_step_consistent:
  assumes "users_consistent s"
  shows "users_consistent (fst (users_step s e))"
proof -
  obtain s' calls where h: "users_handle s e = (s', calls)" by (cases "users_handle s e")
  have "filteredUsers s' = filteredUsers s" using users_handle_filtered [of s e] h by simp
  with assms h show ?thesis
    by (auto simp: users_step_def users_consistent_def filter_effect_def)
qed

lemma users_run_consistent: "users_consistent s \<Longrightarrow> users_consistent (fst (users_run s es))"
proof (induction es arbitrary: s)
  case (Cons e es)
  from Cons.prems have "users_consistent (fst (users_step s e))" by (rule users_step_consistent)
  with Cons.IH show ?case by (simp add: split_def Let_def)
qed simp

lemma users_mount_consistent: "users_consistent (fst (users_step s UsersMount))"
  by (simp add: users_step_def users_consistent_def filter_effect_def split_def)

lemma users_step_calls: "snd (users_step s e) = snd (users_handle s e)"
  by (simp add: users_step_def split_def Let_def)

lemma users_run_calls:
  "c \<in> set (snd (users_run s es)) \<Longrightarrow> \<exists>s' e. c \<in> set (snd (users_step s' e))"
  by (induction es arbitrary: s) (auto simp: split_def Let_def)

lemma button_call_patch:
  "button_call uid' b = PatchUserStatus uid st \<longleftrightarrow>
     uid' = uid \<and> (b = SuspendBtn \<and> st = ''suspended'' \<or> b = ActivateBtn \<and> st = ''active'')"
  by (cases b) auto

lemma filter_users_eq:
  "filter_users us t sf = filter (\<lambda>u. (sf = ''all'' \<or> status u = sf) \<and> (t = [] \<or> user_matches_search t u)) us"
  by (simp add: filter_users_def Let_def)

lemma users_run_append: "fst (users_run s (xs @ ys)) = fst (users_run (fst (users_run s xs)) ys)"
  by (induction xs arbitrary: s) (simp_all add: split_def Let_def)

lemma users_trace_0 [simp]: "users_trace s es 0 = s"
  by (simp add: users_trace_def)

lemma users_trace_Suc [simp]:
  "users_trace s es (Suc n) = fst (users_step (users_trace s es n) (es !! n))"
  by (simp only: users_trace_def stake_Suc users_run_append) (simp add: split_def Let_def)

lemma users_handle_loading: "loading (fst (users_handle s e)) = (loading s \<and> \<not> is_users_fetched e)"
  by (cases "(s, e)" rule: users_handle.cases) simp_all

lemma users_step_loading [simp]: "loading (fst (users_step s e)) = (loading s \<and> \<not> is_users_fetched e)"
  using users_handle_loading [of s e]
  by (simp add: users_step_def filter_effect_def split_def Let_def)

lemma users_trace_after_reply:
  assumes "is_users_fetched (es !! i)" and "i < m"
  shows "\<not> loading (users_trace s es m)"
  using assms(2)
proof (induction m)
  case (Suc m)
  then show ?case using assms(1) by (cases "i = m") auto
qed simp

lemma users_mount_calls: "snd (users_step s UsersMount) = [GetUsers]"
  by (simp add: users_step_def filter_effect_def)

subsection \<open>Properties of the page\<close>

text \<open>C32. The listed users are exactly those of the fetched list, in their order, whose
  status passes the status filter and, for a non-empty search term, whose name contains
  the term ignoring case or whose Aadhaar number contains it literally.\<close>

theorem filter_users_selects:
  "subseq (filter_users us t sf) us
   \<and> (\<forall>u\<in>set us. u \<in> set (filter_users us t sf) \<longleftrightarrow>
        (sf = ''all'' \<or> status u = sf)
        \<and> (t = [] \<or> sublist (to_lower t) (to_lower (name u)) \<or> sublist t (aadhaar_id u)))"
  by (auto simp: filter_users_eq user_matches_search_def)

text \<open>C33. After the page mounts, whatever events follow, the rendered list is the
  filter of the current users by the current search term and status filter: the
  effect never leaves a stale list behind.\<close>

theorem users_list_consistent:
  "users_consistent (fst (users_run (fst (users_step s UsersMount)) es))"
  using users_mount_consistent by (rule users_run_consistent)

text \<open>C34. The spinner ends and stays off: in every unbounded run that begins with the
  page's mount and in which every \<open>GET /users\<close> the page sends is eventually answered,
  there is a time from which the page is never loading again. Nothing sets
  \<open>loading\<close> back to true, so the later refetches after an update do not bring it
  back.\<close>

theorem users_loading_ends:
  assumes mount: "shd es = UsersMount"
    and fair: "\<forall>i. GetUsers \<in> set (snd (users_step (users_trace s es i) (es !! i)))
                    \<longrightarrow> (\<exists>j>i. is_users_fetched (es !! j))"
  shows "\<exists>n. \<forall>m\<ge>n. \<not> loading (users_trace s es m)"
proof -
  have "GetUsers \<in> set (snd (users_step (users_trace s es 0) (es !! 0)))"
    using mount by (simp add: users_mount_calls)
  with fair obtain j where "is_users_fetched (es !! j)" by blast
  then have "\<forall>m\<ge>Suc j. \<not> loading (users_trace s es m)"
    using users_trace_after_reply [of es j] by (simp add: Suc_le_eq)
  then show ?thesis by blast
qed

text \<open>C35. A status change is requested only from a rendered card, and only in the
  direction its button offers: suspend an active user, reactivate a suspended one.\<close>

theorem status_change_only_shown:
  assumes "PatchUserStatus uid st \<in> set (snd (users_step s e))"
  shows "\<exists>u\<in>set (filteredUsers s). user_id u = uid
           \<and> (st = ''suspended'' \<and> status u = ''active'' \<or> st = ''active'' \<and> status u = ''suspended'')"
proof -
  from assms obtain uid' b where "button_shown s uid' b" and "button_call uid' b = PatchUserStatus uid st"
    by (cases "(s, e)" rule: users_handle.cases) (auto simp: users_step_calls split: if_splits)
  then show ?thesis
    by (auto simp: button_call_patch button_shown_def user_buttons_def split: if_splits)
qed


text \<open>A flagged cardholder's card offers neither Suspend nor Activate: the page has
  no way to change a flagged user's status.\<close>

theorem flagged_user_status_locked:
  assumes "status u = ''flagged''"
  shows "SuspendBtn \<notin> set (user_buttons u) \<and> ActivateBtn \<notin> set (user_buttons u) \<and> ScanBtn \<in> set (user_buttons u)"
  using assms by (simp add: user_buttons_def)

text \<open>A successful add closes the dialog, resets the form to its initial values,
  reports success and refetches the list; a failed add keeps the dialog and the typed
  form and shows the server's detail, or a fallback text.\<close>

theorem add_user_outcome:
  "users_step s (AddDone (Ok x)) =
     (s\<lparr>toasts := toasts s @ [ToastSuccess ''User added successfully''], showAddDialog := False,
        newUser := initial_form\<rparr>, [GetUsers])
   \<and> users_step s (AddDone (Failed det)) =
     (s\<lparr>toasts := toasts s @ [ToastError (detail_or det ''Failed to add user'')]\<rparr>, [])"
  by (simp add: users_step_def)

end
