(* ===== verification/Api.thy ===== *)
theory Api
  imports UsersPage
begin

text \<open>
  The HTTP boundary between the Users page and \<open>create_user\<close>: the add-user form that
  \<open>axios.post(`${API}/users`, newUser)\<close> sends as JSON is validated by pydantic into
  \<open>RationUserCreate\<close> and turned into a \<open>RationUser\<close> (\<open>RationUser(**user.model_dump())\<close>)
  with the server's fresh id and timestamp and the model's defaults; the reply reaches
  the page as \<open>axios\<close> delivers it: success, or the \<open>detail\<close> of FastAPI's
  \<open>HTTPException\<close> body \<open>{"detail": ...}\<close>. The server code is not in \<open>src/\<close>; this
  boundary follows the handler quoted in \<open>USER_CREATION_FIX.md\<close> and the user shown in
  \<open>FIXES_APPLIED.md\<close> (a new cardholder is \<open>"active"\<close>). The running guide's
  client examples of Create user are run against this boundary at the end.
\<close>

text \<open>The \<open>RationUser\<close> built from the posted form; \<open>None\<close> when a number field holds
  \<open>NaN\<close>, which \<open>JSON.stringify\<close> sends as \<open>null\<close> and pydantic rejects (status 422,
  whose list of errors the model does not render).\<close>

definition user_of_form :: "string \<Rightarrow> string \<Rightarrow> new_user_form \<Rightarrow> ration_user option" where
  "user_of_form uid ts f =
     (case (nu_family_size f, nu_income f) of
        (Some n, Some x) \<Rightarrow>
          Some \<lparr>user_id = uid, aadhaar_id = nu_aadhaar_id f, name = nu_name f, address = nu_address f,
                district = nu_district f, state = nu_state f, family_size = n, income = x,
                card_type = nu_card_type f, phone = nu_phone f, status = ''active'',
                verification_status = ''pending'', created_at = ts\<rparr>
      | _ \<Rightarrow> None)"

text \<open>\<open>POST /api/users\<close> as the page sees it: the store after the request and the
  response \<open>axios\<close> resolves or rejects with.\<close>

definition post_user :: "store \<Rightarrow> string \<Rightarrow> string \<Rightarrow> (db_error + (string \<times> doc) list) \<Rightarrow> new_user_form
                         \<Rightarrow> store \<times> unit response" where
  "post_user st uid ts fraud f =
     (case user_of_form uid ts f of
        None \<Rightarrow> (st, Failed None)
      | Some u \<Rightarrow>
          (case create_user st u fraud of
             Inl (HTTPException code det) \<Rightarrow> (st, Failed (Some det))
           | Inr (st', u') \<Rightarrow> (st', Ok ())))"

lemma user_of_form_valid:
  "form_valid f \<Longrightarrow> \<exists>u. user_of_form uid ts f = Some u \<and> aadhaar_id u = nu_aadhaar_id f"
  by (auto simp: form_valid_def user_of_form_def split: option.splits)

subsection \<open>The running guide's client examples\<close>

text \<open>The running guide (\<open>src/unnamed/part_003\<close>) tests the system with a cURL command
  and a Python script that each create a cardholder through \<open>POST /api/users\<close>. Their
  JSON bodies have the fields of \<open>RationUserCreate\<close>, the same as the page's form; the
  sign-up and sign-in requests before them reach endpoints whose code is not in the
  repository, so only the creation is run here. The status a client prints is 200 for
  the created user and the status of the \<open>HTTPException\<close> otherwise.\<close>

definition curl_create_body :: new_user_form where
  "curl_create_body =
     \<lparr>nu_aadhaar_id = ''123456789012'', nu_name = ''Test User'', nu_address = ''Test Address'',
      nu_district = ''Test District'', nu_state = ''State'', nu_family_size = Some 3, nu_income = Some 50000,
      nu_card_type = ''AAY'', nu_phone = ''9876543210''\<rparr>"

definition py_create_body :: new_user_form where
  "py_create_body =
     \<lparr>nu_aadhaar_id = ''123456789012'', nu_name = ''Test User'', nu_address = ''123 St'',
      nu_district = ''District'', nu_state = ''State'', nu_family_size = Some 3, nu_income = Some 50000,
      nu_card_type = ''AAY'', nu_phone = ''9876543210''\<rparr>"

definition client_create :: "store \<Rightarrow> string \<Rightarrow> string \<Rightarrow> (db_error + (string \<times> doc) list) \<Rightarrow> new_user_form
                              \<Rightarrow> store \<times> nat" where
  "client_create st uid ts fraud body =
     (case user_of_form uid ts body of
        None \<Rightarrow> (st, 422)
      | Some u \<Rightarrow>
          (case create_user st u fraud of
             Inl (HTTPException code det) \<Rightarrow> (st, code)
           | Inr (st', u') \<Rightarrow> (st', 200)))"

text \<open>Following the guide on a fresh store: the cURL example creates the cardholder
  (status 200), and the Python script, which posts the same Aadhaar number, is then
  refused with 400 and changes nothing, although the guide presents both as succeeding.\<close>

theorem guide_examples_conflict:
  "snd (client_create empty_store uid ts fraud curl_create_body) = 200
   \<and> users_of (fst (client_create empty_store uid ts fraud curl_create_body))
       = [user_doc (the (user_of_form uid ts curl_create_body))]
   \<and> client_create (fst (client_create empty_store uid ts fraud curl_create_body)) uid' ts' fraud' py_create_body
       = (fst (client_create empty_store uid ts fraud curl_create_body), 400)"
proof -
  obtain u where u: "user_of_form uid ts curl_create_body = Some u" "aadhaar_id u = ''123456789012''"
    by (simp add: user_of_form_def curl_create_body_def)
  obtain u' where u': "user_of_form uid' ts' py_create_body = Some u'" "aadhaar_id u' = ''123456789012''"
    by (simp add: user_of_form_def py_create_body_def)
  obtain st where st: "create_user empty_store u fraud = Inr (st, u)" "users_of st = [user_doc u]"
    using create_user_new [of empty_store u fraud] by (auto simp: users_of_def empty_store_def)
  have "create_user st u' fraud' = Inl (HTTPException 400 ''Aadhaar ID already registered'')"
    using st(2) u(2) u'(2) by (intro create_user_found) simp
  with u u' st show ?thesis by (simp add: client_create_def)
qed

end
