(* ===== verification/AlertsPage.thy ===== *)
theory AlertsPage
  imports Backend NumberFormat
begin

text \<open>
  The fraud-alert review page (\<open>frontend/src/pages/FraudAlerts.js\<close>): the alerts the
  backend lists, filtered by status (pending by default), a card per alert with View and,
  for a pending alert, Confirm and Dismiss, and a details dialog that fetches the
  alert's cardholder. \<open>alerts_step\<close> runs one event and the filter effect after it.
\<close>

record fraud_alert =
  alert_id :: string
  alert_user_id :: string
  fraud_type :: string
  confidence_score :: real
  details_message :: string
  alert_status :: string
  alert_created_at :: string

record alerts_state =
  alerts :: "fraud_alert list"
  filteredAlerts :: "fraud_alert list"
  alertStatusFilter :: string
  selectedAlert :: "(fraud_alert \<times> ration_user) option"
  showAlertDialog :: bool
  alertsLoading :: bool
  alertToasts :: "toast list"

definition alerts_init :: alerts_state where
  "alerts_init =
     \<lparr>alerts = [], filteredAlerts = [], alertStatusFilter = ''pending'', selectedAlert = None,
      showAlertDialog = False, alertsLoading = True, alertToasts = []\<rparr>"

datatype alert_call = GetAlerts | PatchAlert string string | GetAlertUser string

text \<open>\<open>filterAlerts\<close>: all alerts for \<open>"all"\<close>, else those with the chosen status.\<close>

definition filter_alerts :: "fraud_alert list \<Rightarrow> string \<Rightarrow> fraud_alert list" where
  "filter_alerts as sf = (if sf = ''all'' then as else filter (\<lambda>a. alert_status a = sf) as)"

definition alerts_filter_effect :: "alerts_state \<Rightarrow> alerts_state" where
  "alerts_filter_effect s = s\<lparr>filteredAlerts := filter_alerts (alerts s) (alertStatusFilter s)\<rparr>"

text \<open>\<open>getConfidenceColor\<close>: red from 0.8, amber from 0.6, grey below.\<close>

datatype confidence_color = TextRed | TextAmber | TextGray

definition confidence_color :: "real \<Rightarrow> confidence_color" where
  "confidence_color score =
     (if score \<ge> 0.8 then TextRed else if score \<ge> 0.6 then TextAmber else TextGray)"

text \<open>The buttons of one alert card, and of the details dialog.\<close>

datatype alert_button = ViewBtn | ConfirmBtn | DismissBtn

definition alert_buttons :: "fraud_alert \<Rightarrow> alert_button list" where
  "alert_buttons a = ViewBtn # (if alert_status a = ''pending'' then [ConfirmBtn, DismissBtn] else [])"

definition dialog_buttons :: "alerts_state \<Rightarrow> alert_button list" where
  "dialog_buttons s =
     (case selectedAlert s of
        Some (a, _) \<Rightarrow> if showAlertDialog s \<and> alert_status a = ''pending'' then [ConfirmBtn, DismissBtn] else []
      | None \<Rightarrow> [])"

fun button_status :: "alert_button \<Rightarrow> string option" where
  "button_status ConfirmBtn = Some ''confirmed''"
| "button_status DismissBtn = Some ''dismissed''"
| "button_status ViewBtn = None"

datatype alerts_event =
    AlertsMount
  | AlertsFetched "fraud_alert list response"
  | AlertFilterSelect string
  | ClickAlertButton string alert_button
  | ClickDialogButton alert_button
  | AlertUpdateDone string "unit response"
  | ViewDone fraud_alert "ration_user response"
  | AlertDialogOpen bool

text \<open>The rendered card of an alert, when the list is shown.\<close>

definition alert_card :: "alerts_state \<Rightarrow> string \<Rightarrow> fraud_alert option" where
  "alert_card s aid = (if alertsLoading s then None else List.find (\<lambda>a. alert_id a = aid) (filteredAlerts s))"

fun alerts_handle :: "alerts_state \<Rightarrow> alerts_event \<Rightarrow> alerts_state \<times> alert_call list" where
  "alerts_handle s AlertsMount = (s, [GetAlerts])"
| "alerts_handle s (AlertsFetched (Ok data)) = (s\<lparr>alerts := data, alertsLoading := False\<rparr>, [])"
| "alerts_handle s (AlertsFetched (Failed _)) =
     (s\<lparr>alertToasts := alertToasts s @ [ToastError ''Failed to fetch alerts''], alertsLoading := False\<rparr>, [])"
| "alerts_handle s (AlertFilterSelect v) = (s\<lparr>alertStatusFilter := v\<rparr>, [])"
| "alerts_handle s (ClickAlertButton aid b) =
     (case alert_card s aid of
        None \<Rightarrow> (s, [])
      | Some a \<Rightarrow>
          if b \<notin> set (alert_buttons a) then (s, [])
          else (case button_status b of
                  None \<Rightarrow> (s, [GetAlertUser (alert_user_id a)])
                | Some st \<Rightarrow> (s, [PatchAlert aid st])))"
| "alerts_handle s (ClickDialogButton b) =
     (case (selectedAlert s, button_status b) of
        (Some (a, _), Some st) \<Rightarrow> if b \<in> set (dialog_buttons s) then (s, [PatchAlert (alert_id a) st]) else (s, [])
      | _ \<Rightarrow> (s, []))"
| "alerts_handle s (AlertUpdateDone st (Ok _)) =
     (s\<lparr>alertToasts := alertToasts s @ [ToastSuccess (''Alert '' @ st @ '' successfully'')],
        showAlertDialog := False\<rparr>, [GetAlerts])"
| "alerts_handle s (AlertUpdateDone st (Failed _)) =
     (s\<lparr>alertToasts := alertToasts s @ [ToastError ''Failed to update alert'']\<rparr>, [])"
| "alerts_handle s (ViewDone a (Ok u)) = (s\<lparr>selectedAlert := Some (a, u), showAlertDialog := True\<rparr>, [])"
| "alerts_handle s (ViewDone a (Failed _)) =
     (s\<lparr>alertToasts := alertToasts s @ [ToastError ''Failed to fetch alert details'']\<rparr>, [])"
| "alerts_handle s (AlertDialogOpen b) = (s\<lparr>showAlertDialog := b\<rparr>, [])"

definition alerts_step :: "alerts_state \<Rightarrow> alerts_event \<Rightarrow> alerts_state \<times> alert_call list" where
  "alerts_step s e =
     (let (s', calls) = alerts_handle s e
      in (if e = AlertsMount \<or> alerts s' \<noteq> alerts s \<or> alertStatusFilter s' \<noteq> alertStatusFilter s
          then alerts_filter_effect s' else s', calls))"

text \<open>A sequence of events, each with the effect it triggers; the calls started in order.\<close>

fun alerts_run :: "alerts_state \<Rightarrow> alerts_event list \<Rightarrow> alerts_state \<times> alert_call list" where
  "alerts_run s [] = (s, [])"
| "alerts_run s (e # es) =
     (let (s1, c1) = alerts_step s e; (s2, c2) = alerts_run s1 es in (s2, c1 @ c2))"

text \<open>\<open>getStatusBadge\<close>: the badge colour of a status; an unknown status gets no
  class (\<open>variants[status]?.className\<close> is \<open>undefined\<close>).\<close>

datatype badge = BadgeAmber | BadgeRed | BadgeGray

definition status_badge_class :: "string \<Rightarrow> badge option" where
  "status_badge_class st =
     (if st = ''pending'' then Some BadgeAmber else if st = ''confirmed'' then Some BadgeRed
      else if st = ''dismissed'' then Some BadgeGray else None)"

text \<open>The page below the header: "Showing n alerts" (always rendered), then the
  loading text, or the cards followed by the empty-list message. A card shows the fraud
  type, the status badge, the confidence as \<open>(score * 100).toFixed(0)\<close> percent in its
  colour, and its buttons.\<close>

record alert_card_view =
  card_alert :: fraud_alert
  card_badge :: "badge option"
  card_confidence :: string
  card_color :: confidence_color
  card_buttons :: "alert_button list"

definition alert_card_view :: "fraud_alert \<Rightarrow> alert_card_view" where
  "alert_card_view a =
     \<lparr>card_alert = a, card_badge = status_badge_class (alert_status a),
      card_confidence = percent_label (confidence_score a),
      card_color = confidence_color (confidence_score a), card_buttons = alert_buttons a\<rparr>"

definition alerts_view :: "alerts_state \<Rightarrow> nat \<times> (alert_card_view list \<times> bool) option" where
  "alerts_view s =
     (length (filteredAlerts s),
      if alertsLoading s then None
      else Some (map alert_card_view (filteredAlerts s), filteredAlerts s = []))"

text \<open>The details dialog: shown while \<open>showDetailsDialog\<close> holds; with an alert
  selected it shows the alert (type, message, confidence percentage, badge), the
  cardholder's fields in the order of the page, and the Confirm and Dismiss buttons of
  a pending alert. The income is shown as the number it is (its
  \<open>toLocaleString\<close> grouping depends on the browser's locale).\<close>

record alert_details_view =
  det_fraud_type :: string
  det_message :: string
  det_confidence :: string
  det_badge :: "badge option"
  det_user_rows :: "(string \<times> string) list"
  det_income :: real
  det_buttons :: "alert_button list"

definition user_rows :: "ration_user \<Rightarrow> (string \<times> string) list" where
  "user_rows u =
     [(''Name:'', name u), (''Aadhaar ID:'', aadhaar_id u), (''Address:'', address u),
      (''District:'', district u @ '', '' @ state u), (''Card Type:'', card_type u),
      (''Phone:'', phone u), (''Status:'', status u)]"

definition alert_details_view :: "alerts_state \<Rightarrow> alert_details_view option option" where
  "alert_details_view s =
     (if showAlertDialog s
      then Some (map_option (\<lambda>(a, u).
             \<lparr>det_fraud_type = fraud_type a, det_message = details_message a,
              det_confidence = percent_label (confidence_score a),
              det_badge = status_badge_class (alert_status a), det_user_rows = user_rows u,
              det_income = income u, det_buttons = dialog_buttons s\<rparr>) (selectedAlert s))
      else None)"

subsection \<open>Lemmas\<close>

lemma alerts_step_calls: "snd (alerts_step s e) = snd (alerts_handle s e)"
  by (simp add: alerts_step_def split_def Let_def)

lemma alert_card_shown: "alert_card s aid = Some a \<Longrightarrow> a \<in> set (filteredAlerts s) \<and> alert_id a = aid"
  by (auto simp: alert_card_def split: if_splits dest: find_Some_mem)

lemma patch_from_card_or_dialog:
  assumes "PatchAlert aid st \<in> set (snd (alerts_handle s e))"
  shows "(\<exists>a b. alert_card s aid = Some a \<and> b \<in> set (alert_buttons a) \<and> button_status b = Some st)
         \<or> (\<exists>a u b. selectedAlert s = Some (a, u) \<and> alert_id a = aid \<and> b \<in> set (dialog_buttons s) \<and> button_status b = Some st)"
proof (cases e)
  case (ClickAlertButton aid' b)
  with assms show ?thesis by (auto split: option.splits if_splits)
next
  case (ClickDialogButton b)
  with assms show ?thesis by (auto split: option.splits if_splits)
next
  case (AlertsFetched r)
  with assms show ?thesis by (cases r) simp_all
next
  case (AlertUpdateDone st' r)
  with assms show ?thesis by (cases r) simp_all
next
  case (ViewDone a r)
  with assms show ?thesis by (cases r) simp_all
qed (use assms in simp_all)

definition alerts_consistent :: "alerts_state \<Rightarrow> bool" where
  "alerts_consistent s \<longleftrightarrow> filteredAlerts s = filter_alerts (alerts s) (alertStatusFilter s)"

lemma alerts_handle_filtered [simp]: "filteredAlerts (fst (alerts_handle s e)) = filteredAlerts s"
  by (cases "(s, e)" rule: alerts_handle.cases) (simp_all split: option.splits prod.splits if_splits)

lemma alerts_step_consistent:
  assumes "alerts_consistent s"
  shows "alerts_consistent (fst (alerts_step s e))"
proof -
  obtain s' calls where h: "alerts_handle s e = (s', calls)" by (cases "alerts_handle s e")
  have "filteredAlerts s' = filteredAlerts s" using alerts_handle_filtered [of s e] h by simp
  with assms h show ?thesis
    by (auto simp: alerts_step_def alerts_consistent_def alerts_filter_effect_def)
qed

lemma alerts_run_consistent: "alerts_consistent s \<Longrightarrow> alerts_consistent (fst (alerts_run s es))"
proof (induction es arbitrary: s)
  case (Cons e es)
  from Cons.prems have "alerts_consistent (fst (alerts_step s e))" by (rule alerts_step_consistent)
  with Cons.IH show ?case by (simp add: split_def Let_def)
qed simp

lemma alerts_mount_consistent: "alerts_consistent (fst (alerts_step s AlertsMount))"
  by (simp add: alerts_step_def alerts_consistent_def alerts_filter_effect_def)

subsection \<open>Properties of the page\<close>

text \<open>When every alert is pending, confirmed or dismissed, the three status views
  split the alert list: each alert appears in exactly one of them, once.\<close>

theorem status_views_partition:
  assumes "\<forall>a\<in>set as. alert_status a \<in> {''pending'', ''confirmed'', ''dismissed''}"
  shows "mset as = mset (filter_alerts as ''pending'') + mset (filter_alerts as ''confirmed'')
                   + mset (filter_alerts as ''dismissed'') \<and> filter_alerts as ''all'' = as"
  using assms
proof (induction as)
  case (Cons a as)
  then show ?case by (auto simp: filter_alerts_def)
qed (simp add: filter_alerts_def)

text \<open>A higher confidence score never gets a milder colour: red from 0.8 up,
  amber from 0.6 up.\<close>

theorem confidence_color_monotone:
  assumes "x \<le> y"
  shows "(confidence_color x = TextRed \<longrightarrow> confidence_color y = TextRed)
         \<and> (confidence_color x = TextAmber \<longrightarrow> confidence_color y \<noteq> TextGray)
         \<and> (confidence_color y = TextRed \<longleftrightarrow> 0.8 \<le> y)"
  using assms by (auto simp: confidence_color_def)

text \<open>C39. After the page has mounted, the cards shown are always exactly the fetched
  alerts of the selected status, in their order, whatever sequence of fetches, filter
  changes, clicks and replies follows: the effect on \<open>[alerts, statusFilter]\<close> runs after
  every event that changes either.\<close>

theorem alerts_list_consistent:
  "alerts_consistent (fst (alerts_run (fst (alerts_step s AlertsMount)) es))"
  using alerts_mount_consistent by (rule alerts_run_consistent)

text \<open>C37. Only a pending alert can be confirmed or dismissed from the page, from its
  card or from its details dialog, and only to "confirmed" or "dismissed".\<close>

theorem only_pending_alerts_updated:
  assumes "PatchAlert aid st \<in> set (snd (alerts_step s e))"
  shows "\<exists>a. alert_id a = aid \<and> alert_status a = ''pending'' \<and> st \<in> {''confirmed'', ''dismissed''}
             \<and> (a \<in> set (filteredAlerts s) \<or> (\<exists>u. selectedAlert s = Some (a, u)))"
proof -
  from assms have "PatchAlert aid st \<in> set (snd (alerts_handle s e))" by (simp add: alerts_step_calls)
  from patch_from_card_or_dialog [OF this] show ?thesis
  proof
    assume "\<exists>a b. alert_card s aid = Some a \<and> b \<in> set (alert_buttons a) \<and> button_status b = Some st"
    then obtain a b where "alert_card s aid = Some a" "b \<in> set (alert_buttons a)" "button_status b = Some st"
      by blast
    then show ?thesis
      by (cases b) (auto simp: alert_buttons_def dest!: alert_card_shown split: if_splits)
  next
    assume "\<exists>a u b. selectedAlert s = Some (a, u) \<and> alert_id a = aid \<and> b \<in> set (dialog_buttons s) \<and> button_status b = Some st"
    then obtain a u b where "selectedAlert s = Some (a, u)" "alert_id a = aid" "b \<in> set (dialog_buttons s)" "button_status b = Some st"
      by blast
    then show ?thesis
      by (cases b) (auto simp: dialog_buttons_def split: if_splits)
  qed
qed

text \<open>A successful update reports it, closes the details dialog and refetches the
  alerts; a failed one only reports the failure.\<close>

theorem alert_update_outcome:
  "alerts_step s (AlertUpdateDone st (Ok x)) =
     (s\<lparr>alertToasts := alertToasts s @ [ToastSuccess (''Alert '' @ st @ '' successfully'')],
        showAlertDialog := False\<rparr>, [GetAlerts])
   \<and> alerts_step s (AlertUpdateDone st (Failed det)) =
     (s\<lparr>alertToasts := alertToasts s @ [ToastError ''Failed to update alert'']\<rparr>, [])"
  by (simp add: alerts_step_def)

text \<open>C29. The details dialog shows the answer that arrives last, not the alert whose View was
  clicked last: with two View requests in flight, answered out of order, the dialog
  opened for the second alert shows the first.\<close>

theorem details_follow_last_response:
  assumes "alert_card s (alert_id a) = Some a" and "alert_card s (alert_id b) = Some b"
  shows "alerts_run s [ClickAlertButton (alert_id a) ViewBtn, ClickAlertButton (alert_id b) ViewBtn,
                       ViewDone b (Ok ub), ViewDone a (Ok ua)]
         = (s\<lparr>selectedAlert := Some (a, ua), showAlertDialog := True\<rparr>,
            [GetAlertUser (alert_user_id a), GetAlertUser (alert_user_id b)])"
  using assms by (simp add: alerts_step_def alert_buttons_def)

text \<open>C30. The percentage a card prints and the colour it prints it in disagree on exactly
  two intervals of scores: the label reads 80% or more while the colour is not red
  exactly for scores from 0.795 up to 0.8, and it reads 60% or more while the colour is
  grey exactly for scores from 0.595 up to 0.6, because the colour compares the raw score
  and the label rounds it.\<close>

theorem confidence_label_colour_disagree:
  "parse_float (butlast (card_confidence (alert_card_view a))) = Some (fixed_value 0 (confidence_score a * 100))
   \<and> ((80 \<le> fixed_value 0 (confidence_score a * 100) \<and> card_color (alert_card_view a) \<noteq> TextRed)
      \<longleftrightarrow> 0.795 \<le> confidence_score a \<and> confidence_score a < 0.8)
   \<and> ((60 \<le> fixed_value 0 (confidence_score a * 100) \<and> card_color (alert_card_view a) = TextGray)
      \<longleftrightarrow> 0.595 \<le> confidence_score a \<and> confidence_score a < 0.6)"
proof -
  let ?x = "confidence_score a"
  have r: "(80 \<le> fixed_value 0 (?x * 100)) = (0.795 \<le> ?x)"
    using fixed_percent_ge [of 80 ?x] by (simp add: mult.commute)
  have g: "(60 \<le> fixed_value 0 (?x * 100)) = (0.595 \<le> ?x)"
    using fixed_percent_ge [of 60 ?x] by (simp add: mult.commute)
  have c: "card_color (alert_card_view a) = confidence_color ?x" by (simp add: alert_card_view_def)
  have red: "(card_color (alert_card_view a) \<noteq> TextRed) = (?x < 0.8)" by (simp add: c confidence_color_def)
  have grey: "(card_color (alert_card_view a) = TextGray) = (?x < 0.6)" by (simp add: c confidence_color_def)
  have l: "parse_float (butlast (card_confidence (alert_card_view a))) = Some (fixed_value 0 (?x * 100))"
    by (simp add: alert_card_view_def percent_label_def parse_float_to_fixed)
  show ?thesis by (simp only: l r g red grey)
qed

end
