(* ===== verification/TransactionsPage.thy ===== *)
theory TransactionsPage
  imports NumberFormat
begin

text \<open>
  The transaction monitor (\<open>frontend/src/pages/Transactions.js\<close>): the transactions
  the backend lists, searched by card number or user id, one card per transaction with
  its items. A failed fetch is only logged to the console.
\<close>

record txn_item =
  item_name :: string
  quantity :: int

record transaction =
  txn_id :: string
  card_number :: string
  txn_user_id :: string
  shop_id :: string
  transaction_date :: string
  items :: "txn_item list"
  total_amount :: real

record txn_state =
  transactions :: "transaction list"
  filteredTransactions :: "transaction list"
  txnSearchTerm :: string
  txnLoading :: bool

definition txn_init :: txn_state where
  "txn_init = \<lparr>transactions = [], filteredTransactions = [], txnSearchTerm = [], txnLoading = True\<rparr>"

datatype txn_call = GetTransactions

datatype txn_event = TxnMount | TxnFetched "transaction list response" | TxnSearchInput string

text \<open>\<open>filterTransactions\<close>: everything for an empty term, else a literal (case-sensitive)
  match on the card number or the user id.\<close>

definition filter_transactions :: "transaction list \<Rightarrow> string \<Rightarrow> transaction list" where
  "filter_transactions ts term =
     (if term = [] then ts
      else filter (\<lambda>t. str_includes (card_number t) term \<or> str_includes (txn_user_id t) term) ts)"

fun txn_handle :: "txn_state \<Rightarrow> txn_event \<Rightarrow> txn_state \<times> txn_call list" where
  "txn_handle s TxnMount = (s, [GetTransactions])"
| "txn_handle s (TxnFetched (Ok data)) = (s\<lparr>transactions := data, txnLoading := False\<rparr>, [])"
| "txn_handle s (TxnFetched (Failed _)) = (s\<lparr>txnLoading := False\<rparr>, [])"
| "txn_handle s (TxnSearchInput v) = (s\<lparr>txnSearchTerm := v\<rparr>, [])"

definition txn_step :: "txn_state \<Rightarrow> txn_event \<Rightarrow> txn_state \<times> txn_call list" where
  "txn_step s e =
     (let (s', calls) = txn_handle s e
      in (if e = TxnMount \<or> transactions s' \<noteq> transactions s \<or> txnSearchTerm s' \<noteq> txnSearchTerm s
          then s'\<lparr>filteredTransactions := filter_transactions (transactions s') (txnSearchTerm s')\<rparr>
          else s', calls))"

text \<open>One card: the card number, the shop, the date as stored (its
  \<open>toLocaleString\<close> form depends on the browser's locale), the item count, the total
  as \<open>total_amount.toFixed(2)\<close> after the rupee sign, and a badge per item
  (\<open>name x quantity\<close>) when there are items.\<close>

record txn_card_view =
  tc_card :: string
  tc_shop :: string
  tc_date :: string
  tc_item_count :: string
  tc_total :: string
  tc_badges :: "string list option"

definition txn_card :: "transaction \<Rightarrow> txn_card_view" where
  "txn_card t =
     \<lparr>tc_card = ''Card: '' @ card_number t, tc_shop = shop_id t, tc_date = transaction_date t,
      tc_item_count = show_nat (length (items t)) @ '' items'', tc_total = to_fixed 2 (total_amount t),
      tc_badges = (if length (items t) > 0 then Some (map (\<lambda>i. item_name i @ '' x '' @ show_int (quantity i)) (items t))
                   else None)\<rparr>"

datatype txn_view = TxnLoadingView | TxnListView "txn_card_view list" bool

definition txn_view :: "txn_state \<Rightarrow> txn_view" where
  "txn_view s =
     (if txnLoading s then TxnLoadingView
      else TxnListView (map txn_card (filteredTransactions s)) (filteredTransactions s = []))"

subsection \<open>Properties of the page\<close>

text \<open>A failed fetch is indistinguishable from an empty ledger: the page stops
  loading and shows "No transactions found", with no error message.\<close>

theorem txn_fetch_failure_looks_empty:
  "txn_view (fst (txn_step (fst (txn_step txn_init TxnMount)) (TxnFetched (Failed det)))) = TxnListView [] True
   \<and> txn_view (fst (txn_step (fst (txn_step txn_init TxnMount)) (TxnFetched (Ok [])))) = TxnListView [] True"
  by (simp add: txn_step_def txn_init_def txn_view_def filter_transactions_def)

text \<open>The search keeps the transactions, in order, whose card number or user id
  contains the term exactly as typed; an empty term keeps them all.\<close>

theorem txn_search_selects:
  "subseq (filter_transactions ts term) ts
   \<and> filter_transactions ts [] = ts
   \<and> (\<forall>t\<in>set ts. t \<in> set (filter_transactions ts term) \<longleftrightarrow>
        sublist term (card_number t) \<or> sublist term (txn_user_id t))"
  by (auto simp: filter_transactions_def)


text \<open>A card's total is the amount to the paisa: \<open>parseFloat\<close> reads it back as the amount
  rounded to two decimals, within half a paisa, and an amount already in paise is shown
  exactly.\<close>

theorem txn_total_to_the_paisa:
  "parse_float (tc_total (txn_card t)) = Some (fixed_value 2 (total_amount t))
   \<and> \<bar>fixed_value 2 (total_amount t) - total_amount t\<bar> \<le> 1 / 200"
  using fixed_value_close [of 2 "total_amount t"] by (simp add: txn_card_def parse_float_to_fixed)

end
