(* ===== verification/JsonValue.thy ===== *)
theory JsonValue
  imports NumberFormat
begin

text \<open>
  \<open>JSON.stringify\<close> and the lexical part of \<open>JSON.parse\<close> (ECMA-262), as the frontend
  uses them on the signed-in user it keeps in \<open>localStorage\<close>. A value is a string,
  an integer, a boolean, \<open>null\<close>, an array or an object, the object as the list of its
  members in insertion order. Characters are bytes; a \<open>\\u\<close> escape above 255, a
  fraction or an exponent lies outside the model and is reported as \<open>Unsupported\<close>
  rather than guessed. A parser takes the text and returns an error or the value and
  the rest of the text; the scalar parsers are here, the nested ones in \<open>Json\<close>.
\<close>

datatype json = JStr string | JInt int | JBool bool | JNull | JArr "json list" | JObj "(string \<times> json) list"

datatype json_error = SyntaxError | Unsupported

subsection \<open>Printing\<close>

definition hex_char :: "nat \<Rightarrow> char" where
  "hex_char d = ''0123456789abcdef'' ! d"

text \<open>QuoteJSONString: the quote and the backslash are escaped, the control characters
  below 32 get their short escape or \<open>\\u00XX\<close> with lower-case hex digits; every
  other character is copied.\<close>

definition escape_char :: "char \<Rightarrow> string" where
  "escape_char c =
     (if c = CHR 0x22 then [CHR 0x5C, CHR 0x22]
      else if c = CHR 0x5C then [CHR 0x5C, CHR 0x5C]
      else if c = CHR 0x08 then [CHR 0x5C, CHR ''b'']
      else if c = CHR 0x0C then [CHR 0x5C, CHR ''f'']
      else if c = CHR 0x0A then [CHR 0x5C, CHR ''n'']
      else if c = CHR 0x0D then [CHR 0x5C, CHR ''r'']
      else if c = CHR 0x09 then [CHR 0x5C, CHR ''t'']
      else if of_char c < (32::nat)
      then [CHR 0x5C, CHR ''u'', CHR ''0'', CHR ''0'', hex_char (of_char c div 16), hex_char (of_char c mod 16)]
      else [c])"

definition quote_json :: "string \<Rightarrow> string" where
  "quote_json s = CHR 0x22 # concat (map escape_char s) @ [CHR 0x22]"

text \<open>Joining strings with a separator (the \<open>join\<close> step of the serialisation).\<close>

fun join_with :: "string \<Rightarrow> string list \<Rightarrow> string" where
  "join_with sep [] = []"
| "join_with sep [x] = x"
| "join_with sep (x # xs) = x @ sep @ join_with sep xs"

text \<open>SerializeJSONProperty: SerializeJSONArray gives \<open>[]\<close> for no elements, else
  the elements joined by commas in brackets; SerializeJSONObject gives \<open>{}\<close> for no
  members, else each member as its quoted key, a colon and its value, joined by commas
  in braces. No white space is written (no \<open>space\<close> argument).\<close>

fun stringify :: "json \<Rightarrow> string" where
  "stringify (JStr s) = quote_json s"
| "stringify (JInt n) = show_int n"
| "stringify (JBool b) = (if b then ''true'' else ''false'')"
| "stringify JNull = ''null''"
| "stringify (JArr vs) = (if vs = [] then ''[]'' else CHR ''['' # join_with '','' (map stringify vs) @ '']'')"
| "stringify (JObj ob) =
     (if ob = [] then ''{}''
      else CHR ''{'' # join_with '','' (map (\<lambda>(k, v). quote_json k @ CHR '':'' # stringify v) ob) @ ''}'')"

subsection \<open>Parsing\<close>

definition is_ws :: "char \<Rightarrow> bool" where
  "is_ws c \<longleftrightarrow> c = CHR '' '' \<or> c = CHR 0x09 \<or> c = CHR 0x0A \<or> c = CHR 0x0D"

definition skip_ws :: "string \<Rightarrow> string" where
  "skip_ws s = dropWhile is_ws s"

definition hex_val :: "char \<Rightarrow> nat option" where
  "hex_val c =
     (let n = of_char c
      in if 48 \<le> n \<and> n \<le> 57 then Some (n - 48)
         else if 97 \<le> n \<and> n \<le> 102 then Some (n - 87)
         else if 65 \<le> n \<and> n \<le> 70 then Some (n - 55) else None)"

definition simple_unescape :: "char \<Rightarrow> char option" where
  "simple_unescape e =
     (if e = CHR 0x22 then Some (CHR 0x22) else if e = CHR 0x5C then Some (CHR 0x5C)
      else if e = CHR ''/'' then Some (CHR ''/'') else if e = CHR ''b'' then Some (CHR 0x08)
      else if e = CHR ''f'' then Some (CHR 0x0C) else if e = CHR ''n'' then Some (CHR 0x0A)
      else if e = CHR ''r'' then Some (CHR 0x0D) else if e = CHR ''t'' then Some (CHR 0x09)
      else None)"

definition unicode_escape :: "string \<Rightarrow> json_error + char" where
  "unicode_escape hs =
     (case those (map hex_val hs) of
        None \<Rightarrow> Inl SyntaxError
      | Some ds \<Rightarrow> (let v = foldl (\<lambda>a d. 16 * a + d) 0 ds
                   in if v < 256 then Inr (char_of v) else Inl Unsupported))"

text \<open>The characters of a string literal after its opening quote, up to and including
  the closing quote.\<close>

fun parse_chars :: "string \<Rightarrow> json_error + (string \<times> string)" where
  "parse_chars [] = Inl SyntaxError"
| "parse_chars (c # cs) =
     (if c = CHR 0x22 then Inr ([], cs)
      else if c = CHR 0x5C then
        (case cs of
           [] \<Rightarrow> Inl SyntaxError
         | e # cs' \<Rightarrow>
             if e = CHR ''u'' then
               (if length cs' < 4 then Inl SyntaxError
                else (case unicode_escape (take 4 cs') of
                        Inl err \<Rightarrow> Inl err
                      | Inr ch \<Rightarrow> (case parse_chars (drop 4 cs') of
                                   Inl err \<Rightarrow> Inl err
                                 | Inr (str, r) \<Rightarrow> Inr (ch # str, r))))
             else (case simple_unescape e of
                     None \<Rightarrow> Inl SyntaxError
                   | Some ch \<Rightarrow> (case parse_chars cs' of
                                  Inl err \<Rightarrow> Inl err
                                | Inr (str, r) \<Rightarrow> Inr (ch # str, r))))
      else if of_char c < (32::nat) then Inl SyntaxError
      else (case parse_chars cs of
              Inl err \<Rightarrow> Inl err
            | Inr (str, r) \<Rightarrow> Inr (c # str, r)))"

text \<open>A number: an optional minus sign and an integer without leading zeros.\<close>

definition parse_number :: "string \<Rightarrow> json_error + (json \<times> string)" where
  "parse_number s =
     (let (neg, rest) = split_sign s;
          ds = digits_prefix rest;
          after = drop (length ds) rest
      in if ds = [] then Inl SyntaxError
         else if 1 < length ds \<and> hd ds = CHR ''0'' then Inl SyntaxError
         else if after \<noteq> [] \<and> hd after \<in> {CHR ''.'', CHR ''e'', CHR ''E''} then Inl Unsupported
         else Inr (JInt (if neg then - digits_value ds else digits_value ds), after))"

definition parse_literal :: "string \<Rightarrow> json \<Rightarrow> string \<Rightarrow> json_error + (json \<times> string)" where
  "parse_literal lit v s = (if take (length lit) s = lit then Inr (v, drop (length lit) s) else Inl SyntaxError)"

text \<open>A value that is not an array or an object, at its first character.\<close>

definition parse_scalar :: "string \<Rightarrow> json_error + (json \<times> string)" where
  "parse_scalar s =
     (case s of
        [] \<Rightarrow> Inl SyntaxError
      | c # cs \<Rightarrow>
          if c = CHR 0x22 then (case parse_chars cs of Inl err \<Rightarrow> Inl err | Inr (str, r) \<Rightarrow> Inr (JStr str, r))
          else if c = CHR ''t'' then parse_literal ''true'' (JBool True) s
          else if c = CHR ''f'' then parse_literal ''false'' (JBool False) s
          else if c = CHR ''n'' then parse_literal ''null'' JNull s
          else if c = CHR ''-'' \<or> is_digit c then parse_number s
          else Inl SyntaxError)"

text \<open>Where a value may end: at the end of the text, before a separator of an array or
  an object, or before white space.\<close>

definition value_end :: "string \<Rightarrow> bool" where
  "value_end rest \<longleftrightarrow> rest = [] \<or> hd rest = CHR '','' \<or> hd rest = CHR ''}'' \<or> hd rest = CHR '']'' \<or> is_ws (hd rest)"

subsection \<open>Lemmas\<close>

lemma skip_ws_length: "length (skip_ws s) \<le> length s"
  by (simp add: skip_ws_def length_dropWhile_le)

lemma skip_ws_Cons_shorter: "skip_ws s = c # r \<Longrightarrow> length r < length s"
  using skip_ws_length [of s] by simp

lemma skip_ws_le: "length s \<le> n \<Longrightarrow> length (skip_ws s) \<le> n"
  using skip_ws_length [of s] by simp

lemma skip_ws_not_le: "\<not> length (skip_ws s) \<le> n \<Longrightarrow> n < length s"
  using skip_ws_length [of s] by simp

lemma skip_ws_idem [simp]: "skip_ws (skip_ws s) = skip_ws s"
  by (induction s) (simp_all add: skip_ws_def)

lemma skip_ws_not_ws [simp]: "\<not> is_ws c \<Longrightarrow> skip_ws (c # s) = c # s"
  by (simp add: skip_ws_def)

lemma parse_chars_shorter: "parse_chars s = Inr (x, r) \<Longrightarrow> length r < length s"
proof (induction s arbitrary: x r rule: parse_chars.induct)
  case (2 c cs)
  then show ?case
    by (auto split: if_splits list.splits sum.splits option.splits prod.splits) fastforce+
qed simp

lemma parse_scalar_shorter: "parse_scalar s = Inr (v, r) \<Longrightarrow> length r < length s"
  by (auto simp: parse_scalar_def parse_literal_def parse_number_def split_sign_def Let_def
           dest: parse_chars_shorter split: list.splits if_splits sum.splits prod.splits)

lemma hex_val_hex_char: "d < 16 \<Longrightarrow> hex_val (hex_char d) = Some d"
  by (auto simp: hex_val_def hex_char_def less_Suc_eq numeral_eq_Suc)

lemma unicode_escape_control:
  assumes "of_char c < (32::nat)"
  shows "unicode_escape [CHR ''0'', CHR ''0'', hex_char (of_char c div 16), hex_char (of_char c mod 16)] = Inr c"
proof -
  have "of_char c div 16 < (16::nat)" using assms by simp
  moreover have "of_char c mod 16 < (16::nat)" by simp
  ultimately have "those (map hex_val [CHR ''0'', CHR ''0'', hex_char (of_char c div 16), hex_char (of_char c mod 16)])
                   = Some [0, 0, of_char c div 16, of_char c mod 16]"
    by (simp add: hex_val_hex_char hex_val_def [of "CHR ''0''"])
  moreover have "foldl (\<lambda>a d. 16 * a + d) 0 [0, 0, of_char c div 16, of_char c mod 16] = (of_char c :: nat)"
    by simp
  ultimately show ?thesis using assms by (simp add: unicode_escape_def)
qed

lemma parse_chars_escape:
  "parse_chars (escape_char c @ t) = (case parse_chars t of Inl e \<Rightarrow> Inl e | Inr (str, r) \<Rightarrow> Inr (c # str, r))"
proof (cases "of_char c < (32::nat)")
  case True
  then show ?thesis
    by (auto simp: escape_char_def simple_unescape_def unicode_escape_control split: sum.splits)
next
  case False
  then have "c \<noteq> CHR 0x08 \<and> c \<noteq> CHR 0x0C \<and> c \<noteq> CHR 0x0A \<and> c \<noteq> CHR 0x0D \<and> c \<noteq> CHR 0x09" by auto
  with False show ?thesis
    by (auto simp: escape_char_def simple_unescape_def split: sum.splits)
qed

lemma parse_chars_quoted: "parse_chars (concat (map escape_char s) @ CHR 0x22 # t) = Inr (s, t)"
  by (induction s) (simp_all add: parse_chars_escape)

lemma digits_prefix_append:
  "\<forall>c\<in>set ds. is_digit c \<Longrightarrow> rest = [] \<or> \<not> is_digit (hd rest) \<Longrightarrow> digits_prefix (ds @ rest) = ds"
  by (cases rest) (auto simp: digits_prefix_all digits_prefix_stop)

lemma digit_char_zero: "d < 10 \<Longrightarrow> digit_char d = CHR ''0'' \<longleftrightarrow> d = 0"
  using digit_char_value [of d] by (auto simp: digit_char_def)

lemma show_nat_hd_nonzero: "n \<noteq> 0 \<Longrightarrow> hd (show_nat n) \<noteq> CHR ''0''"
proof (induction n rule: show_nat.induct)
  case (1 n)
  show ?case
  proof (cases "n < 10")
    case True
    with 1 show ?thesis by (simp add: digit_char_zero)
  next
    case False
    then have "n div 10 \<noteq> 0" by simp
    with 1 False show ?thesis by simp
  qed
qed

lemma show_nat_long_nonzero: "1 < length (show_nat n) \<Longrightarrow> n \<noteq> 0"
  by (rule ccontr) simp

lemma value_end_not_digit: "value_end rest \<Longrightarrow> rest = [] \<or> \<not> is_digit (hd rest) \<and> hd rest \<notin> {CHR ''.'', CHR ''e'', CHR ''E''}"
  by (auto simp: value_end_def is_digit_def is_ws_def)

lemma parse_number_show_nat:
  assumes "value_end rest"
  shows "parse_number (show_nat m @ rest) = Inr (JInt (int m), rest)"
    and "parse_number (CHR ''-'' # show_nat m @ rest) = Inr (JInt (- int m), rest)"
proof -
  obtain c r where hd: "show_nat m = c # r" "is_digit c" using show_nat_hd by blast
  have dp: "digits_prefix (show_nat m @ rest) = show_nat m"
    using value_end_not_digit [OF assms] by (intro digits_prefix_append show_nat_digits) auto
  have lz: "\<not> (1 < length (show_nat m) \<and> hd (show_nat m) = CHR ''0'')"
    using show_nat_hd_nonzero show_nat_long_nonzero by blast
  have aft: "\<not> (rest \<noteq> [] \<and> hd rest \<in> {CHR ''.'', CHR ''e'', CHR ''E''})"
    using value_end_not_digit [OF assms] by auto
  have sg: "split_sign (show_nat m @ rest) = (False, show_nat m @ rest)"
    using hd by (simp add: split_sign_def not_minus_digit)
  show "parse_number (show_nat m @ rest) = Inr (JInt (int m), rest)"
    using dp lz aft sg by (simp add: parse_number_def Let_def digits_value_show_nat)
  show "parse_number (CHR ''-'' # show_nat m @ rest) = Inr (JInt (- int m), rest)"
    using dp lz aft by (simp add: parse_number_def Let_def split_sign_def digits_value_show_nat)
qed



lemma parse_scalar_stringify:
  assumes "value_end rest" and "\<And>vs. v \<noteq> JArr vs" and "\<And>ob. v \<noteq> JObj ob"
  shows "parse_scalar (stringify v @ rest) = Inr (v, rest)"
proof (cases v)
  case (JStr str)
  then show ?thesis by (simp add: parse_scalar_def quote_json_def parse_chars_quoted)
next
  case (JInt n)
  show ?thesis
  proof (cases "n < 0")
    case True
    then show ?thesis using JInt parse_number_show_nat(2) [OF assms(1), of "nat (- n)"]
      by (simp add: parse_scalar_def show_int_def)
  next
    case False
    obtain c r where hd: "show_nat (nat n) = c # r" "is_digit c" using show_nat_hd by blast
    then have "c \<noteq> CHR 0x22 \<and> c \<noteq> CHR ''t'' \<and> c \<noteq> CHR ''f'' \<and> c \<noteq> CHR ''n''"
      by (auto simp: is_digit_def)
    with False show ?thesis using JInt hd parse_number_show_nat(1) [OF assms(1), of "nat n"]
      by (simp add: parse_scalar_def show_int_def)
  qed
next
  case (JBool b)
  then show ?thesis by (cases b) (simp_all add: parse_scalar_def parse_literal_def)
next
  case JNull
  then show ?thesis by (simp add: parse_scalar_def parse_literal_def)
qed (use assms in auto)

end
