(* ===== verification/Json.thy ===== *)
theory Json
  imports JsonValue
begin

text \<open>
  \<open>JSON.parse\<close> on the text the Login page stores as the signed-in user
  (\<open>localStorage.setItem("user", JSON.stringify(response.data.user))\<close>) and the Layout
  reads back (\<open>JSON.parse(localStorage.getItem("user") || '{}')\<close>), with nested arrays
  and objects, and the round trip: what \<open>JSON.stringify\<close> writes, \<open>JSON.parse\<close> reads
  back unchanged.
\<close>

text \<open>A property written twice keeps its first position and takes the last value, as
  \<open>CreateDataProperty\<close> on an object does.\<close>

definition obj_set :: "(string \<times> json) list \<Rightarrow> string \<Rightarrow> json \<Rightarrow> (string \<times> json) list" where
  "obj_set ob k v =
     (if k \<in> fst ` set ob then map (\<lambda>(k', v'). if k' = k then (k', v) else (k', v')) ob else ob @ [(k, v)])"

text \<open>The three mutually recursive parsers of the JSON grammar: a value at its first
  character, the members of an object after its opening brace (a key, a colon, a value,
  then a comma and the next member or the closing brace), and the elements of an array
  after its opening bracket. After a nested value each loop checks that the value
  consumed input; \<open>parse_shorter\<close> below shows that the check never fails, and it lets
  the termination argument rest on the length of the text alone.\<close>

function parse_json :: "string \<Rightarrow> json_error + (json \<times> string)"
  and parse_members :: "(string \<times> json) list \<Rightarrow> string \<Rightarrow> json_error + ((string \<times> json) list \<times> string)"
  and parse_elements :: "json list \<Rightarrow> string \<Rightarrow> json_error + (json list \<times> string)"
where
  "parse_json s =
     (case s of
        [] \<Rightarrow> Inl SyntaxError
      | c # r \<Rightarrow>
          if c = CHR ''{'' then
            (case skip_ws r of
               [] \<Rightarrow> Inl SyntaxError
             | d # r' \<Rightarrow>
                 if d = CHR ''}'' then Inr (JObj [], r')
                 else (case parse_members [] r of Inl err \<Rightarrow> Inl err | Inr (ob, r'') \<Rightarrow> Inr (JObj ob, r'')))
          else if c = CHR ''['' then
            (case skip_ws r of
               [] \<Rightarrow> Inl SyntaxError
             | d # r' \<Rightarrow>
                 if d = CHR '']'' then Inr (JArr [], r')
                 else (case parse_elements [] r of Inl err \<Rightarrow> Inl err | Inr (vs, r'') \<Rightarrow> Inr (JArr vs, r'')))
          else parse_scalar s)"
| "parse_members acc s =
     (case skip_ws s of
        [] \<Rightarrow> Inl SyntaxError
      | c # r \<Rightarrow>
          if c \<noteq> CHR 0x22 then Inl SyntaxError
          else (case parse_chars r of
                  Inl err \<Rightarrow> Inl err
                | Inr (k, r1) \<Rightarrow>
                    (case skip_ws r1 of
                       [] \<Rightarrow> Inl SyntaxError
                     | d # r2 \<Rightarrow>
                         if d \<noteq> CHR '':'' then Inl SyntaxError
                         else (case parse_json (skip_ws r2) of
                                 Inl err \<Rightarrow> Inl err
                               | Inr (v, r3) \<Rightarrow>
                                   if length (skip_ws r2) \<le> length r3 then Inl SyntaxError
                                   else (case skip_ws r3 of
                                           [] \<Rightarrow> Inl SyntaxError
                                         | e # r4 \<Rightarrow>
                                             if e = CHR '','' then parse_members (obj_set acc k v) r4
                                             else if e = CHR ''}'' then Inr (obj_set acc k v, r4)
                                             else Inl SyntaxError)))))"
| "parse_elements acc s =
     (case parse_json (skip_ws s) of
        Inl err \<Rightarrow> Inl err
      | Inr (v, r1) \<Rightarrow>
          if length (skip_ws s) \<le> length r1 then Inl SyntaxError
          else (case skip_ws r1 of
                  [] \<Rightarrow> Inl SyntaxError
                | e # r2 \<Rightarrow>
                    if e = CHR '','' then parse_elements (acc @ [v]) r2
                    else if e = CHR '']'' then Inr (acc @ [v], r2)
                    else Inl SyntaxError))"
  by pat_completeness auto
termination
  apply (relation "measure (\<lambda>x. case x of Inl s \<Rightarrow> 2 * length s
                                        | Inr (Inl (_, s)) \<Rightarrow> 2 * length s + 1
                                        | Inr (Inr (_, s)) \<Rightarrow> 2 * length s + 1)")
  apply (simp_all add: skip_ws_length less_Suc_eq_le)
  apply (auto dest!: skip_ws_Cons_shorter parse_chars_shorter skip_ws_not_le intro!: skip_ws_le)
  done

declare parse_json.simps [simp del] parse_members.simps [simp del] parse_elements.simps [simp del]

text \<open>\<open>JSON.parse\<close>: one value, surrounded by white space only.\<close>

definition json_parse :: "string \<Rightarrow> json_error + json" where
  "json_parse s =
     (case parse_json (skip_ws s) of
        Inl err \<Rightarrow> Inl err
      | Inr (v, rest) \<Rightarrow> if skip_ws rest = [] then Inr v else Inl SyntaxError)"

text \<open>What \<open>JSON.stringify\<close> can produce from a JavaScript value: the keys of every
  object, at every depth, are distinct.\<close>

fun wf_json :: "json \<Rightarrow> bool" where
  "wf_json (JArr vs) = list_all wf_json vs"
| "wf_json (JObj ob) = (distinct (map fst ob) \<and> list_all (\<lambda>kv. wf_json (snd kv)) ob)"
| "wf_json _ = True"



lemma parse_shorter:
  "parse_json s = Inr (v, r) \<Longrightarrow> length r < length s"
  "parse_members acc s = Inr (ob, r) \<Longrightarrow> length r < length s"
  "parse_elements acc' s = Inr (vs, r) \<Longrightarrow> length r < length s"
proof (induction s and acc s and acc' s arbitrary: v r and ob r and vs r
       rule: parse_json_parse_members_parse_elements.induct)
  case (1 s)
  from "1.prems" show ?case
    apply (subst (asm) parse_json.simps)
    apply (auto split: list.splits if_splits sum.splits prod.splits
                  dest: skip_ws_Cons_shorter parse_scalar_shorter)
     apply (fastforce dest: "1.IH"(1))
    apply (fastforce dest: "1.IH"(2))
    done
next
  case (2 acc s)
  from "2.prems" show ?case
    apply (subst (asm) parse_members.simps)
    apply (auto split: list.splits if_splits sum.splits prod.splits)
     subgoal premises p for t k r1 r2 v r3 r4
     proof -
       have "length r < length r4"
         by (rule "2.IH"(2) [OF p(1) _ p(2) refl p(3) _ p(4) refl p(6) p(5) refl p(7)]) simp_all
       moreover have "length r4 < length s"
         using p(1-6) by (fastforce dest!: skip_ws_Cons_shorter parse_chars_shorter skip_ws_not_le)
       ultimately show ?thesis by simp
     qed
    apply (fastforce dest!: skip_ws_Cons_shorter parse_chars_shorter skip_ws_not_le)
    done
next
  case (3 acc s)
  from "3.prems" show ?case
    apply (subst (asm) parse_elements.simps)
    apply (auto split: list.splits if_splits sum.splits prod.splits)
     subgoal premises p for v r1 r2
     proof -
       have "length r < length r2"
         by (rule "3.IH"(2) [OF p(1) refl p(3) p(2) refl p(4)])
       moreover have "length r2 < length s"
         using p(1-3) by (fastforce dest!: skip_ws_Cons_shorter skip_ws_not_le)
       ultimately show ?thesis by simp
     qed
    apply (fastforce dest!: skip_ws_Cons_shorter skip_ws_not_le)
    done
qed


subsection \<open>Printing then parsing\<close>

lemma stringify_hd: "\<exists>c r. stringify v = c # r \<and> \<not> is_ws c \<and> c \<noteq> CHR '']'' \<and> c \<noteq> CHR ''}''"
proof (cases v)
  case (JInt n)
  obtain c r where "show_nat (nat (if n < 0 then - n else n)) = c # r" "is_digit c" using show_nat_hd by blast
  with JInt show ?thesis by (auto simp: show_int_def is_ws_def is_digit_def)
qed (auto simp: quote_json_def is_ws_def)

lemma stringify_not_Nil: "stringify v \<noteq> []"
  using stringify_hd [of v] by auto

lemma skip_ws_stringify [simp]: "skip_ws (stringify v @ t) = stringify v @ t"
  using stringify_hd [of v] by auto

lemma join_with_Cons: "join_with sep (x # xs) = x @ (if xs = [] then [] else sep @ join_with sep xs)"
  by (cases xs) auto

lemma join_with_stringify_hd:
  "vs \<noteq> [] \<Longrightarrow> \<exists>c r. join_with '','' (map stringify vs) = c # r \<and> \<not> is_ws c \<and> c \<noteq> CHR '']''"
  using stringify_hd [of "hd vs"] by (cases vs) (auto simp: join_with_Cons)

lemma obj_set_new [simp]: "k \<notin> fst ` set ob \<Longrightarrow> obj_set ob k v = ob @ [(k, v)]"
  by (simp add: obj_set_def)

lemma parse_json_of_scalar:
  assumes "\<And>vs. v \<noteq> JArr vs" and "\<And>ob. v \<noteq> JObj ob"
  shows "parse_json (stringify v @ rest) = parse_scalar (stringify v @ rest)"
proof (cases v)
  case (JInt n)
  obtain c r where "show_nat (nat (if n < 0 then - n else n)) = c # r" "is_digit c" using show_nat_hd by blast
  with JInt show ?thesis by (auto simp: parse_json.simps show_int_def is_digit_def)
qed (use assms in \<open>auto simp: parse_json.simps quote_json_def\<close>)

text \<open>One element or member followed by a comma or the closing bracket or brace.\<close>

lemma parse_element_one:
  assumes "e = CHR '','' \<or> e = CHR '']''" and v: "parse_json (stringify v @ e # t) = Inr (v, e # t)"
  shows "parse_elements acc (stringify v @ e # t)
         = (if e = CHR '','' then parse_elements (acc @ [v]) t else Inr (acc @ [v], t))"
proof -
  have "\<not> is_ws e" using assms(1) by (auto simp: is_ws_def)
  with assms show ?thesis
    by (subst parse_elements.simps) (auto simp: stringify_not_Nil)
qed

lemma parse_member_one:
  assumes "e = CHR '','' \<or> e = CHR ''}''" and v: "parse_json (stringify v @ e # t) = Inr (v, e # t)"
  shows "parse_members acc (quote_json k @ CHR '':'' # stringify v @ e # t)
         = (if e = CHR '','' then parse_members (obj_set acc k v) t else Inr (obj_set acc k v, t))"
proof -
  have ws: "\<not> is_ws e" "\<not> is_ws (CHR 0x22)" "\<not> is_ws CHR '':''" using assms(1) by (auto simp: is_ws_def)
  show ?thesis
    by (subst parse_members.simps [of acc])
       (use assms ws in \<open>auto simp: quote_json_def parse_chars_quoted stringify_not_Nil\<close>)
qed

lemma parse_elements_stringify:
  assumes "vs \<noteq> []"
    and "\<And>v t. v \<in> set vs \<Longrightarrow> value_end t \<Longrightarrow> parse_json (stringify v @ t) = Inr (v, t)"
  shows "parse_elements acc (join_with '','' (map stringify vs) @ CHR '']'' # rest) = Inr (acc @ vs, rest)"
  using assms
proof (induction vs arbitrary: acc)
  case (Cons v vs)
  have one: "\<And>e t. e = CHR '','' \<or> e = CHR '']'' \<Longrightarrow>
               parse_elements acc (stringify v @ e # t)
               = (if e = CHR '','' then parse_elements (acc @ [v]) t else Inr (acc @ [v], t))"
    using Cons.prems(2) by (intro parse_element_one) (auto simp: value_end_def)
  show ?case
  proof (cases "vs = []")
    case True
    with one [of "CHR '']''" rest] show ?thesis by simp
  next
    case False
    have "parse_elements (acc @ [v]) (join_with '','' (map stringify vs) @ CHR '']'' # rest) = Inr ((acc @ [v]) @ vs, rest)"
      using Cons.prems False by (intro Cons.IH) auto
    with False one [of "CHR '',''"] show ?thesis by (simp add: join_with_Cons)
  qed
qed simp

lemma parse_members_stringify:
  assumes "ms \<noteq> []" "distinct (map fst ms)" "fst ` set ms \<inter> fst ` set acc = {}"
    and "\<And>k v t. (k, v) \<in> set ms \<Longrightarrow> value_end t \<Longrightarrow> parse_json (stringify v @ t) = Inr (v, t)"
  shows "parse_members acc (join_with '','' (map (\<lambda>(k, v). quote_json k @ CHR '':'' # stringify v) ms) @ CHR ''}'' # rest)
         = Inr (acc @ ms, rest)"
  using assms
proof (induction ms arbitrary: acc)
  case (Cons m ms)
  obtain k v where m: "m = (k, v)" by (cases m)
  have k: "k \<notin> fst ` set acc" using Cons.prems(3) m by auto
  have one: "\<And>e t. e = CHR '','' \<or> e = CHR ''}'' \<Longrightarrow>
               parse_members acc (quote_json k @ CHR '':'' # stringify v @ e # t)
               = (if e = CHR '','' then parse_members (obj_set acc k v) t else Inr (obj_set acc k v, t))"
    using Cons.prems(4) [of k v] m by (intro parse_member_one) (auto simp: value_end_def)
  show ?case
  proof (cases "ms = []")
    case True
    with k m one [of "CHR ''}''" rest] show ?thesis by simp
  next
    case False
    have "parse_members (acc @ [(k, v)])
            (join_with '','' (map (\<lambda>(k, v). quote_json k @ CHR '':'' # stringify v) ms) @ CHR ''}'' # rest)
          = Inr ((acc @ [(k, v)]) @ ms, rest)"
      using Cons.prems m False by (intro Cons.IH) auto
    with k m False one [of "CHR '',''"] show ?thesis by (simp add: join_with_Cons)
  qed
qed simp

lemma parse_json_stringify:
  "wf_json v \<Longrightarrow> value_end rest \<Longrightarrow> parse_json (stringify v @ rest) = Inr (v, rest)"
proof (induction v arbitrary: rest rule: stringify.induct)
  case (5 vs)
  show ?case
  proof (cases "vs = []")
    case True
    then show ?thesis by (simp add: parse_json.simps is_ws_def skip_ws_def)
  next
    case False
    obtain c r where c: "join_with '','' (map stringify vs) = c # r" "\<not> is_ws c" "c \<noteq> CHR '']''"
      using join_with_stringify_hd [OF False] by blast
    have "parse_elements [] (join_with '','' (map stringify vs) @ CHR '']'' # rest) = Inr ([] @ vs, rest)"
      using "5" False by (intro parse_elements_stringify) (auto simp: list_all_iff)
    with False c show ?thesis by (simp add: parse_json.simps)
  qed
next
  case (6 ob)
  show ?case
  proof (cases "ob = []")
    case True
    then show ?thesis by (simp add: parse_json.simps is_ws_def skip_ws_def)
  next
    case False
    obtain p ps where ob: "ob = p # ps" using False by (cases ob) auto
    have "parse_members [] (join_with '','' (map (\<lambda>(k, v). quote_json k @ CHR '':'' # stringify v) ob) @ CHR ''}'' # rest)
          = Inr ([] @ ob, rest)"
      using "6" False by (intro parse_members_stringify) (auto simp: list_all_iff)
    moreover have "\<not> is_ws (CHR 0x22)" by (simp add: is_ws_def)
    ultimately show ?thesis using ob
      by (simp add: parse_json.simps join_with_Cons quote_json_def split_def)
  qed
qed (rule trans [OF parse_json_of_scalar parse_scalar_stringify]; simp)+

subsection \<open>Properties\<close>


end
