(* ===== verification/LoginPage.thy ===== *)
theory LoginPage
  imports UiCommon Json
begin

text \<open>
  The sign-in and registration page (\<open>frontend/src/pages/Login.js\<close>, staged as
  \<open>src/unnamed/part_001\<close>). One form serves both modes; \<open>handleSubmit\<close> posts the form
  to \<open>/auth/login\<close> or \<open>/auth/register\<close> and, when the login succeeds, stores the token
  and the user in \<open>localStorage\<close> and tells the App that the officer is authenticated
  through the \<open>setIsAuthenticated\<close> callback. \<open>localStorage\<close> is a map from keys to
  strings shared with the App; the callback's argument is the third component of the
  step's result.
\<close>

type_synonym storage = "string \<rightharpoonup> string"

record login_form =
  email :: string
  password :: string
  username :: string

record login_state =
  isLogin :: bool
  formData :: login_form
  loginLoading :: bool
  loginToasts :: "toast list"

definition login_init :: login_state where
  "login_init = \<lparr>isLogin = True, formData = \<lparr>email = [], password = [], username = []\<rparr>,
                  loginLoading = False, loginToasts = []\<rparr>"

text \<open>\<open>response.data\<close> of \<open>/auth/login\<close>: the token and the user, each \<open>None\<close> when
  the reply lacks it (\<open>undefined\<close>).\<close>

record login_reply =
  access_token :: "string option"
  reply_user :: "json option"

datatype auth_call = PostLogin login_form | PostRegister login_form

datatype login_field = LEmail | LPassword | LUsername

datatype login_event =
    ToggleMode
  | LoginInput login_field string
  | LoginSubmit
  | LoginDone bool "login_reply response"

text \<open>A valid e-mail address as HTML defines it for \<open><input type="email">\<close>: a local
  part of letters, digits and \<open>.!#$%&'*+/=?^_`{|}~-\<close>, an \<open>@\<close>, and a domain of
  labels separated by dots, each of 1 to 63 letters, digits or hyphens that neither
  starts nor ends with a hyphen.\<close>

definition ascii_alnum :: "char \<Rightarrow> bool" where
  "ascii_alnum c \<longleftrightarrow>
     (let n = of_char c :: nat in 48 \<le> n \<and> n \<le> 57 \<or> 65 \<le> n \<and> n \<le> 90 \<or> 97 \<le> n \<and> n \<le> 122)"

definition email_local_char :: "char \<Rightarrow> bool" where
  "email_local_char c \<longleftrightarrow> ascii_alnum c \<or> c \<in> set (CHR 0x27 # ''.!#$%&*+/=?^_`{|}~-'')"

definition domain_label :: "string \<Rightarrow> bool" where
  "domain_label l \<longleftrightarrow>
     l \<noteq> [] \<and> length l \<le> 63 \<and> list_all (\<lambda>c. ascii_alnum c \<or> c = CHR ''-'') l
     \<and> ascii_alnum (hd l) \<and> ascii_alnum (last l)"

text \<open>The labels between the dots, as \<open>split(".")\<close> gives them.\<close>

fun split_dots :: "string \<Rightarrow> string list" where
  "split_dots [] = [[]]"
| "split_dots (c # cs) =
     (if c = CHR ''.'' then [] # split_dots cs
      else (case split_dots cs of l # ls \<Rightarrow> (c # l) # ls | [] \<Rightarrow> [[c]]))"

definition valid_email :: "string \<Rightarrow> bool" where
  "valid_email s \<longleftrightarrow>
     (let loc = takeWhile (\<lambda>c. c \<noteq> CHR ''@'') s; dom = dropWhile (\<lambda>c. c \<noteq> CHR ''@'') s
      in loc \<noteq> [] \<and> list_all email_local_char loc \<and> dom \<noteq> [] \<and> list_all domain_label (split_dots (tl dom)))"

text \<open>The browser submits only a form whose required fields are filled (the username only
  in registration mode, \<open>required={!isLogin}\<close>) and whose e-mail is valid, and not while
  the submit button is disabled (\<open>disabled={loading}\<close>).\<close>

definition login_form_ok :: "login_state \<Rightarrow> bool" where
  "login_form_ok s \<longleftrightarrow>
     valid_email (email (formData s)) \<and> password (formData s) \<noteq> []
     \<and> (isLogin s \<or> username (formData s) \<noteq> [])"

text \<open>\<open>localStorage.setItem(k, v)\<close> stores \<open>String(v)\<close>: an absent token is stored as
  the text "undefined"; so is the user, since \<open>JSON.stringify(undefined)\<close> is
  \<open>undefined\<close>.\<close>

definition js_string_of :: "string option \<Rightarrow> string" where
  "js_string_of v = (case v of Some t \<Rightarrow> t | None \<Rightarrow> ''undefined'')"

fun login_step :: "login_state \<Rightarrow> storage \<Rightarrow> login_event \<Rightarrow> login_state \<times> storage \<times> bool option \<times> auth_call list" where
  "login_step s st ToggleMode = (s\<lparr>isLogin := \<not> isLogin s\<rparr>, st, None, [])"
| "login_step s st (LoginInput LEmail v) = (s\<lparr>formData := (formData s)\<lparr>email := v\<rparr>\<rparr>, st, None, [])"
| "login_step s st (LoginInput LPassword v) = (s\<lparr>formData := (formData s)\<lparr>password := v\<rparr>\<rparr>, st, None, [])"
| "login_step s st (LoginInput LUsername v) = (s\<lparr>formData := (formData s)\<lparr>username := v\<rparr>\<rparr>, st, None, [])"
| "login_step s st LoginSubmit =
     (if loginLoading s \<or> \<not> login_form_ok s then (s, st, None, [])
      else (s\<lparr>loginLoading := True\<rparr>, st, None,
            [if isLogin s then PostLogin (formData s) else PostRegister (formData s)]))"
| "login_step s st (LoginDone True (Ok r)) =
     (s\<lparr>loginToasts := loginToasts s @ [ToastSuccess ''Login successful!''], loginLoading := False\<rparr>,
      st(''token'' \<mapsto> js_string_of (access_token r), ''user'' \<mapsto> js_string_of (map_option stringify (reply_user r))), Some True, [])"
| "login_step s st (LoginDone False (Ok r)) =
     (s\<lparr>loginToasts := loginToasts s @ [ToastSuccess ''Registration successful! Please login.''],
        isLogin := True, loginLoading := False\<rparr>, st, None, [])"
| "login_step s st (LoginDone _ (Failed det)) =
     (s\<lparr>loginToasts := loginToasts s @ [ToastError (detail_or det ''An error occurred'')], loginLoading := False\<rparr>,
      st, None, [])"

text \<open>What the form shows: the username field in registration mode, and the button text.\<close>

definition login_view :: "login_state \<Rightarrow> bool \<times> string \<times> string" where
  "login_view s =
     (\<not> isLogin s,
      (if loginLoading s then ''Please wait...'' else if isLogin s then ''Sign In'' else ''Register''),
      (if isLogin s then ''Don't have an account? Register'' else ''Already have an account? Sign In''))"

subsection \<open>Properties of the page\<close>

text \<open>While a request is in flight the form cannot be submitted again, and the
  completion of a request, whatever its outcome, ends the loading state.\<close>

theorem login_no_double_submit:
  assumes "loginLoading s"
  shows "login_step s st LoginSubmit = (s, st, None, [])
         \<and> \<not> loginLoading (fst (login_step s st (LoginDone m r)))"
  using assms by (cases r; cases m) simp_all

text \<open>A successful registration switches the form to sign-in mode and does not
  authenticate or store anything; only a successful sign-in stores the token and the user
  and authenticates.\<close>

theorem register_then_login:
  "login_step s st (LoginDone False (Ok r)) =
     (s\<lparr>loginToasts := loginToasts s @ [ToastSuccess ''Registration successful! Please login.''],
        isLogin := True, loginLoading := False\<rparr>, st, None, [])
   \<and> (fst (snd (snd (login_step s st e))) = Some True \<longleftrightarrow> (\<exists>r. e = LoginDone True (Ok r)))"
  by (cases "(s, st, e)" rule: login_step.cases) simp_all

end
