(* ===== verification/AppShell.thy ===== *)
theory AppShell
  imports LoginPage
begin

text \<open>
  The application shell (\<open>frontend/src/App.js\<close>, staged at the end of
  \<open>frontend/src/pages/FraudAlerts.js\<close>): the axios request interceptor that adds the
  bearer token, the mount effect that restores the session from \<open>localStorage\<close>, and
  the routes, each protected page behind \<open>isAuthenticated\<close>. The Login page runs
  inside the shell and authenticates it through its callback.
\<close>

text \<open>\<open>axios.interceptors.request.use\<close>: a truthy stored token becomes the
  \<open>Authorization\<close> header; other headers are left as they are.\<close>

type_synonym headers = "(string \<times> string) list"

definition set_header :: "headers \<Rightarrow> string \<Rightarrow> string \<Rightarrow> headers" where
  "set_header hs k v = (k, v) # filter (\<lambda>(k', _). k' \<noteq> k) hs"

definition add_auth_header :: "storage \<Rightarrow> headers \<Rightarrow> headers" where
  "add_auth_header st hs =
     (case st ''token'' of
        Some t \<Rightarrow> if t \<noteq> [] then set_header hs ''Authorization'' (''Bearer '' @ t) else hs
      | None \<Rightarrow> hs)"

record app_state =
  isAuthenticated :: bool
  appLoading :: bool
  localStore :: storage
  loginPage :: login_state

definition app_init :: "storage \<Rightarrow> app_state" where
  "app_init st = \<lparr>isAuthenticated = False, appLoading = True, localStore = st, loginPage = login_init\<rparr>"

text \<open>The mount effect: a truthy token marks the session authenticated; loading ends.\<close>

definition app_mount :: "app_state \<Rightarrow> app_state" where
  "app_mount s =
     (let authed = (case localStore s ''token'' of Some t \<Rightarrow> t \<noteq> [] | None \<Rightarrow> False)
      in (if authed then s\<lparr>isAuthenticated := True\<rparr> else s)\<lparr>appLoading := False\<rparr>)"

datatype page = LoginP | DashboardP | UsersP | FraudAlertsP | TransactionsP | AnalyticsP

datatype route_result = RenderPage page | Redirect string

text \<open>The \<open>Routes\<close>: \<open>/login\<close> sends an authenticated officer to \<open>/\<close>; every other
  page sends an unauthenticated visitor to \<open>/login\<close>; an unknown path matches no route.\<close>

definition route :: "string \<Rightarrow> bool \<Rightarrow> route_result option" where
  "route path authed =
     (if path = ''/login'' then Some (if authed then Redirect ''/'' else RenderPage LoginP)
      else (let protected = (\<lambda>p. Some (if authed then RenderPage p else Redirect ''/login''))
            in if path = ''/'' then protected DashboardP
               else if path = ''/users'' then protected UsersP
               else if path = ''/fraud-alerts'' then protected FraudAlertsP
               else if path = ''/transactions'' then protected TransactionsP
               else if path = ''/analytics'' then protected AnalyticsP
               else None))"

datatype app_view = AppLoadingScreen | AppRoute "route_result option"

definition app_view :: "app_state \<Rightarrow> string \<Rightarrow> app_view" where
  "app_view s path = (if appLoading s then AppLoadingScreen else AppRoute (route path (isAuthenticated s)))"

text \<open>An event of the Login page, run inside the shell: its storage writes reach
  \<open>localStorage\<close> and its callback sets \<open>isAuthenticated\<close>.\<close>

definition app_login_step :: "app_state \<Rightarrow> login_event \<Rightarrow> app_state \<times> auth_call list" where
  "app_login_step s e =
     (let (l', st', auth, calls) = login_step (loginPage s) (localStore s) e
      in (s\<lparr>loginPage := l', localStore := st',
            isAuthenticated := (case auth of Some b \<Rightarrow> b | None \<Rightarrow> isAuthenticated s)\<rparr>, calls))"

subsection \<open>Properties of the shell\<close>

text \<open>A protected page is rendered only for an authenticated session; every other
  visitor of a protected path is redirected to the sign-in page.\<close>

theorem protected_pages_need_auth:
  assumes "route path authed = Some (RenderPage p)" and "p \<noteq> LoginP"
  shows "authed"
  using assms by (auto simp: route_def Let_def split: if_splits)

text \<open>Every redirect lands on a rendered page in one hop, so the routes never loop.\<close>

theorem redirect_one_hop:
  assumes "route path authed = Some (Redirect q)"
  shows "\<exists>p. route q authed = Some (RenderPage p)"
  using assms by (auto simp: route_def Let_def split: if_splits)

text \<open>Every request carries \<open>Authorization: Bearer <token>\<close> exactly when a
  non-empty token is stored; the other headers are kept.\<close>

theorem interceptor_adds_bearer:
  "(map_of (add_auth_header st hs) ''Authorization'' =
      (case st ''token'' of Some t \<Rightarrow> if t \<noteq> [] then Some (''Bearer '' @ t) else map_of hs ''Authorization''
       | None \<Rightarrow> map_of hs ''Authorization''))
   \<and> (\<forall>k. k \<noteq> ''Authorization'' \<longrightarrow> map_of (add_auth_header st hs) k = map_of hs k)"
proof -
  have "\<And>k v. map_of (set_header hs ''Authorization'' v) k = (if k = ''Authorization'' then Some v else map_of hs k)"
    by (auto simp: set_header_def map_of_filter_key)
  then show ?thesis by (auto simp: add_auth_header_def split: option.splits)
qed

text \<open>A successful sign-in inside the shell stores the token and authenticates the
  session, after which the sign-in path redirects to the dashboard and the dashboard
  renders; a reply without a token stores the text "undefined" and authenticates all
  the same.\<close>

theorem login_success_opens_dashboard:
  assumes "app_login_step s (LoginDone True (Ok r)) = (s', calls)" and "\<not> appLoading s"
  shows "isAuthenticated s' \<and> localStore s' ''token'' = Some (js_string_of (access_token r))
         \<and> app_view s' ''/login'' = AppRoute (Some (Redirect ''/''))
         \<and> app_view s' ''/'' = AppRoute (Some (RenderPage DashboardP))"
  using assms by (auto simp: app_login_step_def app_view_def route_def)

text \<open>On start the session is authenticated exactly when a non-empty token is
  stored, and only the loading screen shows until the mount effect has run.\<close>

theorem session_restored_from_token:
  "isAuthenticated (app_mount (app_init st)) = (\<exists>t. st ''token'' = Some t \<and> t \<noteq> [])
   \<and> \<not> appLoading (app_mount (app_init st))
   \<and> app_view (app_init st) path = AppLoadingScreen"
  by (auto simp: app_mount_def app_init_def app_view_def split: option.splits)

end
