(* ===== verification/Layout.thy ===== *)
theory Layout
  imports AppShell
begin

text \<open>
  The frame around every protected page (\<open>frontend/src/components/Layout.js\<close>, staged
  in \<open>src/unnamed/part_000\<close>): the header with the signed-in officer read back from
  \<open>localStorage\<close>, the Logout button, and the sidebar whose buttons navigate between the
  pages. The browser is the App's state with the current path and the toasts; a Layout
  event changes \<open>localStorage\<close>, the App's \<open>isAuthenticated\<close> and the path. The
  browser states a session can reach form an inductive set, over which the session
  invariant is proved by rule induction.
\<close>

text \<open>What rendering the header can throw: \<open>JSON.parse\<close>'s \<open>SyntaxError\<close> (or text the
  model does not cover), the \<open>TypeError\<close> of reading a property of \<open>null\<close>, and the
  error React raises when an object is rendered as a child.\<close>

datatype js_error = JsonError json_error | TypeError | InvalidChild

text \<open>\<open>localStorage.getItem("user") || '{}'\<close>: a missing item (\<open>null\<close>) and the empty
  string are falsy.\<close>

definition stored_user_text :: "storage \<Rightarrow> string" where
  "stored_user_text st = (case st ''user'' of Some t \<Rightarrow> if t = [] then ''{}'' else t | None \<Rightarrow> ''{}'')"

definition layout_user :: "storage \<Rightarrow> js_error + json" where
  "layout_user st = (case json_parse (stored_user_text st) of Inl e \<Rightarrow> Inl (JsonError e) | Inr u \<Rightarrow> Inr u)"

text \<open>\<open>user.p\<close>: a member of an object, \<open>undefined\<close> (\<open>None\<close>) when absent or when the
  value is an array or a primitive other than \<open>null\<close>, and a \<open>TypeError\<close> on
  \<open>null\<close>.\<close>

fun js_prop :: "json \<Rightarrow> string \<Rightarrow> js_error + json option" where
  "js_prop (JObj ob) p = Inr (map_of ob p)"
| "js_prop JNull p = Inl TypeError"
| "js_prop v p = Inr None"

text \<open>ToBoolean: the empty string, zero, \<open>false\<close>, \<open>null\<close> and \<open>undefined\<close> are falsy;
  every array and every object is truthy.\<close>

fun js_truthy :: "json option \<Rightarrow> bool" where
  "js_truthy None = False"
| "js_truthy (Some (JStr s)) = (s \<noteq> [])"
| "js_truthy (Some (JInt n)) = (n \<noteq> 0)"
| "js_truthy (Some (JBool b)) = b"
| "js_truthy (Some JNull) = False"
| "js_truthy (Some (JArr vs)) = True"
| "js_truthy (Some (JObj ob)) = True"

text \<open>What React renders for a value in JSX: strings and numbers as text; booleans,
  \<open>null\<close> and \<open>undefined\<close> as nothing; an array as its items one after the other;
  an object is not a valid child and throws.\<close>

fun react_node :: "json \<Rightarrow> js_error + string"
  and react_nodes :: "json list \<Rightarrow> js_error + string" where
  "react_node (JStr s) = Inr s"
| "react_node (JInt n) = Inr (show_int n)"
| "react_node (JBool b) = Inr []"
| "react_node JNull = Inr []"
| "react_node (JArr vs) = react_nodes vs"
| "react_node (JObj ob) = Inl InvalidChild"
| "react_nodes [] = Inr []"
| "react_nodes (v # vs) =
     (case react_node v of
        Inl e \<Rightarrow> Inl e
      | Inr t \<Rightarrow> (case react_nodes vs of Inl e \<Rightarrow> Inl e | Inr u \<Rightarrow> Inr (t @ u)))"

definition react_text :: "json option \<Rightarrow> js_error + string" where
  "react_text v = (case v of None \<Rightarrow> Inr [] | Some x \<Rightarrow> react_node x)"

text \<open>The header's name and e-mail for a parsed user: \<open>user.username || 'Admin'\<close> and
  \<open>user.email\<close> are read while the JSX is built, then rendered in order.\<close>

definition user_header :: "json \<Rightarrow> js_error + string \<times> string" where
  "user_header u =
     (case js_prop u ''username'' of
        Inl e \<Rightarrow> Inl e
      | Inr un \<Rightarrow>
          (case js_prop u ''email'' of
             Inl e \<Rightarrow> Inl e
           | Inr em \<Rightarrow>
               (case (if js_truthy un then react_text un else Inr ''Admin'') of
                  Inl e \<Rightarrow> Inl e
                | Inr n \<Rightarrow> (case react_text em of Inl e \<Rightarrow> Inl e | Inr m \<Rightarrow> Inr (n, m)))))"

definition layout_header :: "storage \<Rightarrow> js_error + string \<times> string" where
  "layout_header st = (case layout_user st of Inl e \<Rightarrow> Inl e | Inr u \<Rightarrow> user_header u)"

record menu_item =
  item_path :: string
  item_label :: string
  item_test_id :: string

definition menuItems :: "menu_item list" where
  "menuItems =
     [\<lparr>item_path = ''/'', item_label = ''Dashboard'', item_test_id = ''nav-dashboard''\<rparr>,
      \<lparr>item_path = ''/users'', item_label = ''Users'', item_test_id = ''nav-users''\<rparr>,
      \<lparr>item_path = ''/fraud-alerts'', item_label = ''Fraud Alerts'', item_test_id = ''nav-fraud-alerts''\<rparr>,
      \<lparr>item_path = ''/transactions'', item_label = ''Transactions'', item_test_id = ''nav-transactions''\<rparr>,
      \<lparr>item_path = ''/analytics'', item_label = ''Analytics'', item_test_id = ''nav-analytics''\<rparr>]"

text \<open>The sidebar: one button per menu item, highlighted when it is the current path
  (\<open>isActive = location.pathname === item.path\<close>).\<close>

definition sidebar :: "string \<Rightarrow> (menu_item \<times> bool) list" where
  "sidebar path = map (\<lambda>it. (it, item_path it = path)) menuItems"

record browser =
  br_app :: app_state
  br_path :: string
  br_toasts :: "toast list"

datatype layout_event = LogoutClick | NavClick string

text \<open>\<open>handleLogout\<close>: both items are removed, the App is told the officer is signed
  out, a toast confirms it and the browser goes to \<open>/login\<close>. A sidebar button
  navigates to its path.\<close>

fun layout_step :: "browser \<Rightarrow> layout_event \<Rightarrow> browser" where
  "layout_step b LogoutClick =
     b\<lparr>br_app := (br_app b)\<lparr>localStore := (localStore (br_app b))(''token'' := None, ''user'' := None),
                             isAuthenticated := False\<rparr>,
       br_path := ''/login'', br_toasts := br_toasts b @ [ToastSuccess ''Logged out successfully'']\<rparr>"
| "layout_step b (NavClick p) = (if p \<in> item_path ` set menuItems then b\<lparr>br_path := p\<rparr> else b)"

text \<open>What the browser shows at its path: the App's view, a redirect followed once
  (\<open>Navigate replace\<close>).\<close>

definition browser_view :: "browser \<Rightarrow> app_view" where
  "browser_view b =
     (case app_view (br_app b) (br_path b) of
        AppRoute (Some (Redirect q)) \<Rightarrow> app_view (br_app b) q
      | v \<Rightarrow> v)"


text \<open>The browser states a session can reach: a page load with whatever
  \<open>localStorage\<close> holds at any path, then any sequence of events of the Login page run
  inside the App, clicks of the Layout, reloads (the App mounts again on the same
  storage) and navigation to a typed path.\<close>

inductive browser_reach :: "browser \<Rightarrow> bool" where
  load: "browser_reach \<lparr>br_app = app_mount (app_init st), br_path = p, br_toasts = []\<rparr>"
| login: "browser_reach b \<Longrightarrow> browser_reach (b\<lparr>br_app := fst (app_login_step (br_app b) e)\<rparr>)"
| layout: "browser_reach b \<Longrightarrow> browser_reach (layout_step b e)"
| reload: "browser_reach b \<Longrightarrow> browser_reach (b\<lparr>br_app := app_mount (app_init (localStore (br_app b)))\<rparr>)"
| navigate: "browser_reach b \<Longrightarrow> browser_reach (b\<lparr>br_path := p\<rparr>)"

text \<open>The session invariant: an authenticated App has a token in \<open>localStorage\<close>.\<close>

definition session_ok :: "browser \<Rightarrow> bool" where
  "session_ok b \<longleftrightarrow> (isAuthenticated (br_app b) \<longrightarrow> localStore (br_app b) ''token'' \<noteq> None)"

subsection \<open>Lemmas\<close>

lemma app_login_store:
  "localStore (fst (app_login_step s (LoginDone True (Ok r))))
     = (localStore s)(''token'' \<mapsto> js_string_of (access_token r),
                      ''user'' \<mapsto> js_string_of (map_option stringify (reply_user r)))
   \<and> isAuthenticated (fst (app_login_step s (LoginDone True (Ok r))))"
  by (simp add: app_login_step_def)

lemma layout_user_stored:
  "st ''user'' = Some (stringify u) \<Longrightarrow> wf_json u \<Longrightarrow> layout_user st = Inr u"
  using parse_json_stringify [of u "[]"] skip_ws_stringify [of u "[]"]
  by (simp add: layout_user_def stored_user_text_def stringify_not_Nil json_parse_def value_end_def skip_ws_def)

lemma localStore_app_mount [simp]: "localStore (app_mount s) = localStore s"
  by (simp add: app_mount_def Let_def)

lemma app_mount_session: "isAuthenticated (app_mount (app_init st)) \<Longrightarrow> st ''token'' \<noteq> None"
  by (auto simp: app_mount_def app_init_def split: option.splits)

lemma app_login_session:
  assumes "isAuthenticated s \<longrightarrow> localStore s ''token'' \<noteq> None"
  shows "isAuthenticated (fst (app_login_step s e)) \<longrightarrow> localStore (fst (app_login_step s e)) ''token'' \<noteq> None"
proof (cases e)
  case (LoginInput f v)
  with assms show ?thesis by (cases f) (simp_all add: app_login_step_def)
next
  case (LoginDone m r)
  with assms show ?thesis by (cases m; cases r) (simp_all add: app_login_step_def)
qed (use assms in \<open>simp_all add: app_login_step_def\<close>)

lemma browser_reach_session: "browser_reach b \<Longrightarrow> session_ok b"
proof (induction rule: browser_reach.induct)
  case (layout b e)
  then show ?case by (cases e) (simp_all add: session_ok_def)
qed (auto simp: session_ok_def app_login_session app_mount_session app_init_def)

lemma browser_view_page:
  assumes "browser_view b = AppRoute (Some (RenderPage p))" and "p \<noteq> LoginP"
  shows "isAuthenticated (br_app b)"
proof -
  have "\<exists>q. route q (isAuthenticated (br_app b)) = Some (RenderPage p)"
    using assms(1) by (auto simp: browser_view_def app_view_def split: app_view.splits option.splits route_result.splits if_splits)
  then show ?thesis using assms(2) protected_pages_need_auth by blast
qed

subsection \<open>Properties of the Layout\<close>

text \<open>C38. Whatever the session has done (sign-ins and failed sign-ins, logouts, reloads,
  typed paths), a protected page is on screen only while a token is stored in
  \<open>localStorage\<close>, and every request the page then sends carries that token as its
  bearer credential when it is not empty.\<close>

theorem protected_page_has_token:
  assumes "browser_reach b" and "browser_view b = AppRoute (Some (RenderPage p))" and "p \<noteq> LoginP"
  shows "\<exists>t. localStore (br_app b) ''token'' = Some t
             \<and> (t \<noteq> [] \<longrightarrow> map_of (add_auth_header (localStore (br_app b)) hs) ''Authorization'' = Some (''Bearer '' @ t))"
proof -
  have "isAuthenticated (br_app b)" using assms(2,3) by (rule browser_view_page)
  with browser_reach_session [OF assms(1)] obtain t where t: "localStore (br_app b) ''token'' = Some t"
    by (auto simp: session_ok_def)
  then show ?thesis by (auto simp: add_auth_header_def set_header_def)
qed

text \<open>C25. Logging out ends the session for good: the token and the user are gone, the App
  is no longer authenticated, the browser shows the sign-in page, every sidebar path
  redirects to it, and a reload does not restore the session.\<close>

theorem logout_ends_session:
  assumes "\<not> appLoading (br_app b)"
  shows "localStore (br_app (layout_step b LogoutClick)) ''token'' = None
         \<and> localStore (br_app (layout_step b LogoutClick)) ''user'' = None
         \<and> browser_view (layout_step b LogoutClick) = AppRoute (Some (RenderPage LoginP))
         \<and> list_all (\<lambda>it. route (item_path it) (isAuthenticated (br_app (layout_step b LogoutClick)))
                           = Some (Redirect ''/login'')) menuItems
         \<and> \<not> isAuthenticated (app_mount (app_init (localStore (br_app (layout_step b LogoutClick)))))"
  using assms by (simp add: browser_view_def app_view_def route_def menuItems_def app_mount_def app_init_def)

text \<open>The sidebar: each of its five buttons leads to its own page of a signed-in
  officer, and exactly one is highlighted when the path is one of theirs.\<close>

theorem sidebar_routes:
  "map (\<lambda>it. route (item_path it) True) menuItems
     = map (\<lambda>p. Some (RenderPage p)) [DashboardP, UsersP, FraudAlertsP, TransactionsP, AnalyticsP]
   \<and> length (filter snd (sidebar path)) = (if path \<in> item_path ` set menuItems then 1 else 0)"
  by (auto simp: route_def menuItems_def sidebar_def)

text \<open>C23. After a sign-in, the header shows the officer the server sent: the user written
  by the Login page with \<open>JSON.stringify\<close> is read back by the Layout with
  \<open>JSON.parse\<close> unchanged, so the header is the one computed from the reply's user itself,
  whatever its shape (nested objects and arrays included).\<close>

theorem header_shows_signed_in_user:
  assumes "reply_user r = Some u" and "wf_json u"
  shows "layout_header (localStore (fst (app_login_step s (LoginDone True (Ok r))))) = user_header u"
proof -
  have "layout_user (localStore (fst (app_login_step s (LoginDone True (Ok r))))) = Inr u"
    using assms app_login_store [of s r] by (intro layout_user_stored) (simp_all add: js_string_of_def)
  then show ?thesis by (simp add: layout_header_def)
qed

text \<open>C24. A sign-in reply without a user makes every protected page throw: the Login page
  stores the text "undefined", the App is authenticated, and the Layout's
  \<open>JSON.parse\<close> of that text raises a \<open>SyntaxError\<close>.\<close>

theorem missing_user_breaks_layout:
  assumes "reply_user r = None"
  shows "isAuthenticated (fst (app_login_step s (LoginDone True (Ok r))))
         \<and> layout_header (localStore (fst (app_login_step s (LoginDone True (Ok r))))) = Inl (JsonError SyntaxError)"
  using assms app_login_store [of s r]
  by (simp add: layout_header_def layout_user_def stored_user_text_def js_string_of_def json_parse_def
                skip_ws_def is_ws_def parse_json.simps parse_scalar_def is_digit_def)

end
