(* ===== verification/DashboardPage.thy ===== *)
theory DashboardPage
  imports NumberFormat
begin

text \<open>
  The dashboard (\<open>frontend/src/pages/Dashboard.js\<close>): it loads four endpoints at once
  with \<open>Promise.all\<close>, which either delivers every response or rejects, and turns the
  statistics into six cards and the per-type counts into pie slices coloured from a
  palette of six and labelled with their share in percent. The pie's shares are the
  counts over their sum, as the chart library computes them.
\<close>

record dashboard_stats =
  total_users :: nat
  active_users :: nat
  flagged_users :: nat
  pending_alerts :: nat
  confirmed_frauds :: nat
  total_transactions :: nat

type_synonym counts = "(string \<times> nat) list"

record dash_state =
  stats :: "dashboard_stats option"
  fraudByType :: counts
  fraudByDistrict :: counts
  transactionsTrend :: counts
  dashLoading :: bool

definition dash_init :: dash_state where
  "dash_init = \<lparr>stats = None, fraudByType = [], fraudByDistrict = [], transactionsTrend = [], dashLoading = True\<rparr>"

datatype dash_call = GetDashboard | GetFraudByType | GetFraudByDistrict | GetTransactionsTrend | GetMlStatus | PostTrain

text \<open>\<open>Promise.all\<close> of four requests: the four bodies, or the rejection.\<close>

definition promise_all4 :: "'a response \<Rightarrow> 'b response \<Rightarrow> 'c response \<Rightarrow> 'd response \<Rightarrow> ('a \<times> 'b \<times> 'c \<times> 'd) option" where
  "promise_all4 r1 r2 r3 r4 =
     (case (r1, r2, r3, r4) of (Ok a, Ok b, Ok c, Ok d) \<Rightarrow> Some (a, b, c, d) | _ \<Rightarrow> None)"

text \<open>\<open>fetchDashboardData\<close> once its four requests have settled.\<close>

definition dash_fetched :: "dash_state \<Rightarrow> dashboard_stats response \<Rightarrow> counts response \<Rightarrow> counts response \<Rightarrow> counts response \<Rightarrow> dash_state" where
  "dash_fetched s r1 r2 r3 r4 =
     (case promise_all4 r1 r2 r3 r4 of
        Some (st, ft, fd, tt) \<Rightarrow> s\<lparr>stats := Some st, fraudByType := ft, fraudByDistrict := fd,
                                   transactionsTrend := tt, dashLoading := False\<rparr>
      | None \<Rightarrow> s\<lparr>dashLoading := False\<rparr>)"

definition dash_mount_calls :: "dash_call list" where
  "dash_mount_calls = [GetDashboard, GetFraudByType, GetFraudByDistrict, GetTransactionsTrend]"

text \<open>\<open>statCards\<close>: six cards when the statistics arrived, none otherwise.\<close>

definition stat_cards :: "dash_state \<Rightarrow> (string \<times> nat \<times> string) list" where
  "stat_cards s =
     (case stats s of
        None \<Rightarrow> []
      | Some st \<Rightarrow>
          [(''Total Users'', total_users st, ''total-users-stat''),
           (''Active Users'', active_users st, ''active-users-stat''),
           (''Flagged Users'', flagged_users st, ''flagged-users-stat''),
           (''Pending Alerts'', pending_alerts st, ''pending-alerts-stat''),
           (''Confirmed Frauds'', confirmed_frauds st, ''confirmed-frauds-stat''),
           (''Total Transactions'', total_transactions st, ''total-transactions-stat'')])"

definition COLORS :: "string list" where
  "COLORS = [''#6366f1'', ''#8b5cf6'', ''#ec4899'', ''#f59e0b'', ''#10b981'', ''#3b82f6'']"

text \<open>\<open>fraudByType.map((entry, index) => <Cell fill={COLORS[index % COLORS.length]}/>)\<close>.\<close>

definition pie_cells :: "counts \<Rightarrow> ((string \<times> nat) \<times> string) list" where
  "pie_cells xs = map (\<lambda>(i, e). (e, COLORS ! (i mod length COLORS))) (enumerate 0 xs)"

text \<open>A chart when its data is non-empty, else its placeholder text.\<close>

definition chart_or_placeholder :: "counts \<Rightarrow> string \<Rightarrow> counts option \<times> string option" where
  "chart_or_placeholder xs placeholder = (if xs \<noteq> [] then (Some xs, None) else (None, Some placeholder))"

text \<open>The share of each slice: its count over the sum of the counts (\<open>percent\<close> of the
  chart's label callback).\<close>

definition pie_shares :: "counts \<Rightarrow> real list" where
  "pie_shares xs = map (\<lambda>(t, c). real c / real (sum_list (map snd xs))) xs"

text \<open>The dashboard's slice labels: \<open>`${type} (${(percent * 100).toFixed(0)}%)`\<close>.\<close>

definition dash_pie_labels :: "counts \<Rightarrow> string list" where
  "dash_pie_labels xs =
     map2 (\<lambda>(t, c) p. t @ '' ('' @ to_fixed 0 (p * 100) @ ''%)'') xs (pie_shares xs)"

text \<open>The page once loaded: the stat cards, the pie (its slices with their colours and
  labels) or its placeholder, and the two other charts or their placeholders.\<close>

definition dash_view :: "dash_state \<Rightarrow> ((string \<times> nat \<times> string) list \<times> (string + ((string \<times> nat) \<times> string) list \<times> string list)
                                        \<times> (counts option \<times> string option) list) option" where
  "dash_view s =
     (if dashLoading s then None
      else Some (stat_cards s,
                 (if fraudByType s \<noteq> [] then Inr (pie_cells (fraudByType s), dash_pie_labels (fraudByType s))
                  else Inl ''No fraud data available''),
                 [chart_or_placeholder (fraudByDistrict s) ''No district data available'',
                  chart_or_placeholder (transactionsTrend s) ''No transaction data available'']))"

subsection \<open>Lemmas\<close>

lemma sum_fixed_value_close:
  "\<bar>(\<Sum>x\<leftarrow>ys. fixed_value 0 x) - sum_list ys\<bar> \<le> real (length ys) / 2"
proof (induction ys)
  case (Cons y ys)
  have y: "\<bar>fixed_value 0 y - y\<bar> \<le> 1 / 2" using fixed_value_close [of 0 y] by simp
  let ?S = "(\<Sum>x\<leftarrow>ys. fixed_value 0 x) - sum_list ys"
  have "\<bar>(\<Sum>x\<leftarrow>y # ys. fixed_value 0 x) - sum_list (y # ys)\<bar> \<le> \<bar>fixed_value 0 y - y\<bar> + \<bar>?S\<bar>"
    using abs_triangle_ineq [of "fixed_value 0 y - y" ?S] by simp
  with y Cons.IH show ?case by simp
qed simp

lemma sum_shares: "(\<Sum>(t, c)\<leftarrow>xs. real c / d) = real (sum_list (map snd xs)) / d"
  by (induction xs) (auto simp: add_divide_distrib)

lemma pie_shares_sum:
  assumes "0 < sum_list (map snd xs)"
  shows "sum_list (pie_shares xs) = 1"
proof -
  have "real (sum_list (map snd xs)) \<noteq> 0" using assms by linarith
  then show ?thesis by (simp add: pie_shares_def sum_shares del: of_nat_eq_0_iff)
qed

subsection \<open>Properties of the page\<close>

text \<open>The dashboard's four data sets are updated together or not at all: if any of
  the four requests fails, nothing is shown but the placeholders; either way loading
  ends.\<close>

theorem dashboard_all_or_nothing:
  "\<not> dashLoading (dash_fetched s r1 r2 r3 r4)
   \<and> (dash_fetched s r1 r2 r3 r4 = s\<lparr>dashLoading := False\<rparr>
      \<or> (\<exists>st ft fd tt. r1 = Ok st \<and> r2 = Ok ft \<and> r3 = Ok fd \<and> r4 = Ok tt
           \<and> dash_fetched s r1 r2 r3 r4 = s\<lparr>stats := Some st, fraudByType := ft, fraudByDistrict := fd,
                                            transactionsTrend := tt, dashLoading := False\<rparr>))"
  by (auto simp: dash_fetched_def promise_all4_def split: response.splits)

text \<open>Every pie slice gets a palette colour, the i-th slice colour i mod 6, so
  colours repeat only after six types.\<close>

theorem pie_colours_cycle:
  assumes "i < length xs"
  shows "pie_cells xs ! i = (xs ! i, COLORS ! (i mod 6)) \<and> snd (pie_cells xs ! i) \<in> set COLORS
         \<and> length (pie_cells xs) = length xs"
proof -
  have six: "length COLORS = 6" by (simp add: COLORS_def)
  then have "COLORS ! (i mod 6) \<in> set COLORS" by (simp add: nth_mem)
  with six assms show ?thesis by (simp add: pie_cells_def nth_enumerate_eq)
qed



text \<open>Three types with one case each are labelled 33% apiece: the labels total 99%.\<close>

theorem pie_labels_total_99:
  "dash_pie_labels [(''a'', 1), (''b'', 1), (''c'', 1)] = [''a (33%)'', ''b (33%)'', ''c (33%)'']"
  by (simp add: dash_pie_labels_def pie_shares_def to_fixed_def to_fixed_digits_def digit_char_def)

end
