(* ===== verification/AnalyticsPage.thy ===== *)
theory AnalyticsPage
  imports DashboardPage
begin

text \<open>
  The analytics page (\<open>Analytics.js\<close>, staged as \<open>src/unnamed/part_002\<close>): the fraud
  counts by type and by district, the transaction trend and the ML model's status, all
  loaded at once with \<open>Promise.all\<close>; a button retrains the model and reloads the page's
  data when the server reports success. The page declares the dashboard's palette again
  (\<open>COLORS\<close>, line 11) and colours its pie the same way.
\<close>

text \<open>\<open>mlStatus\<close>: the body of \<open>/ml/status\<close>; \<open>model_type\<close> is \<open>None\<close> when absent,
  as in the initial \<open>{ is_trained: false }\<close>.\<close>

record ml_status =
  is_trained :: bool
  model_type :: "string option"

record analytics_state =
  aFraudByType :: counts
  aFraudByDistrict :: counts
  aTransactionsTrend :: counts
  mlStatus :: ml_status
  aLoading :: bool
  aToasts :: "toast list"

definition analytics_init :: analytics_state where
  "analytics_init =
     \<lparr>aFraudByType = [], aFraudByDistrict = [], aTransactionsTrend = [],
      mlStatus = \<lparr>is_trained = False, model_type = None\<rparr>, aLoading = True, aToasts = []\<rparr>"

definition analytics_calls :: "dash_call list" where
  "analytics_calls = [GetFraudByType, GetFraudByDistrict, GetTransactionsTrend, GetMlStatus]"

record train_reply =
  success :: bool
  message :: string

datatype analytics_event =
    AnalyticsMount
  | AnalyticsFetched "counts response" "counts response" "counts response" "ml_status response"
  | TrainClick
  | TrainDone "train_reply response"

text \<open>\<open>fetchAnalytics\<close> once its four requests have settled: all four bodies, or only
  the end of loading (the error is logged).\<close>

definition analytics_fetched :: "analytics_state \<Rightarrow> counts response \<Rightarrow> counts response \<Rightarrow> counts response \<Rightarrow> ml_status response \<Rightarrow> analytics_state" where
  "analytics_fetched s r1 r2 r3 r4 =
     (case promise_all4 r1 r2 r3 r4 of
        Some (ft, fd, tt, ml) \<Rightarrow> s\<lparr>aFraudByType := ft, aFraudByDistrict := fd, aTransactionsTrend := tt,
                                  mlStatus := ml, aLoading := False\<rparr>
      | None \<Rightarrow> s\<lparr>aLoading := False\<rparr>)"

text \<open>\<open>handleTrainModel\<close> once \<open>/ml/train\<close> has answered: a refetch only on success.\<close>

definition train_done :: "analytics_state \<Rightarrow> train_reply response \<Rightarrow> analytics_state \<times> dash_call list" where
  "train_done s r =
     (case r of
        Ok rep \<Rightarrow> if success rep
                  then (s\<lparr>aToasts := aToasts s @ [ToastSuccess ''ML model trained successfully'']\<rparr>, analytics_calls)
                  else (s\<lparr>aToasts := aToasts s @ [ToastWarning (message rep)]\<rparr>, [])
      | Failed _ \<Rightarrow> (s\<lparr>aToasts := aToasts s @ [ToastError ''Failed to train model'']\<rparr>, []))"

fun analytics_step :: "analytics_state \<Rightarrow> analytics_event \<Rightarrow> analytics_state \<times> dash_call list" where
  "analytics_step s AnalyticsMount = (s, analytics_calls)"
| "analytics_step s (AnalyticsFetched r1 r2 r3 r4) = (analytics_fetched s r1 r2 r3 r4, [])"
| "analytics_step s TrainClick = (s, [PostTrain])"
| "analytics_step s (TrainDone r) = train_done s r"

definition train_button_label :: "analytics_state \<Rightarrow> string" where
  "train_button_label s = (if is_trained (mlStatus s) then ''Retrain Model'' else ''Train Model'')"

text \<open>The model card: its status text and \<open>mlStatus.model_type || 'Isolation Forest'\<close>.\<close>

definition ml_card :: "analytics_state \<Rightarrow> string \<times> string \<times> string" where
  "ml_card s =
     (if is_trained (mlStatus s) then ''Trained & Active'' else ''Not Trained'',
      (case model_type (mlStatus s) of Some t \<Rightarrow> if t = [] then ''Isolation Forest'' else t | None \<Rightarrow> ''Isolation Forest''),
      train_button_label s)"

text \<open>The slice labels of this page: \<open>`${type.slice(0, 15)}... ${(percent * 100).toFixed(0)}%`\<close>.\<close>

definition analytics_pie_labels :: "counts \<Rightarrow> string list" where
  "analytics_pie_labels xs =
     map2 (\<lambda>(t, c) p. take 15 t @ ''... '' @ to_fixed 0 (p * 100) @ ''%'') xs (pie_shares xs)"

definition analytics_view :: "analytics_state \<Rightarrow> ((string \<times> string \<times> string)
                                 \<times> (string + ((string \<times> nat) \<times> string) list \<times> string list)
                                 \<times> (counts option \<times> string option) list) option" where
  "analytics_view s =
     (if aLoading s then None
      else Some (ml_card s,
                 (if aFraudByType s \<noteq> [] then Inr (pie_cells (aFraudByType s), analytics_pie_labels (aFraudByType s))
                  else Inl ''No fraud data available''),
                 [chart_or_placeholder (aFraudByDistrict s) ''No district data available'',
                  chart_or_placeholder (aTransactionsTrend s) ''No transaction data available'']))"

subsection \<open>Properties of the page\<close>

text \<open>Retraining refetches the analytics only when the server reports success; a reply
  without success shows the server's message as a warning; a failed request an error.\<close>

theorem train_refetch_on_success:
  "(snd (analytics_step s (TrainDone r)) \<noteq> []) = (\<exists>rep. r = Ok rep \<and> success rep)
   \<and> analytics_step s (TrainDone (Ok \<lparr>success = False, message = m\<rparr>)) = (s\<lparr>aToasts := aToasts s @ [ToastWarning m]\<rparr>, [])"
  by (auto simp: train_done_def analytics_calls_def split: response.splits)


text \<open>The label always appends "..." after the first fifteen characters of the type,
  also when nothing was cut.\<close>

theorem analytics_label_ellipsis:
  "analytics_pie_labels [(''Ghost'', 1)] = [''Ghost... 100%'']"
  by (simp add: analytics_pie_labels_def pie_shares_def to_fixed_def to_fixed_digits_def digit_char_def)

end
