(* ===== verification/Spec2Isabelle.thy ===== *)
theory Spec2Isabelle
  imports Backend UsersPage Api AlertsPage TransactionsPage AppShell Layout DashboardPage AnalyticsPage
begin

text \<open>
  \<^bold>\<open>A verification library for the ration-card fraud tracking application.\<close>

  \<^medskip>\<^bold>\<open>The program.\<close> A FastAPI backend keeps its data in an in-memory substitute for
  MongoDB (\<open>backend/mock_db.py\<close>: \<open>MockDatabase\<close>, \<open>MockCollection\<close>, \<open>MockCursor\<close>,
  and the matcher \<open>_matches_query\<close>); its HTTP handlers, of which \<open>create_user\<close> is
  recorded in \<open>src/USER_CREATION_FIX.md\<close>, read and write it. A React frontend
  (\<open>src/frontend/src/pages/*.js\<close>, \<open>Login.js\<close> and \<open>Analytics.js\<close> staged as
  \<open>src/unnamed/part_001\<close> and \<open>part_002\<close>, \<open>App.js\<close> appended to \<open>FraudAlerts.js\<close>)
  calls those handlers through axios and renders the results. The store's source is not
  in \<open>src/\<close>; \<open>src/FIXES_APPLIED.md\<close> quotes \<open>MockCursor\<close>, the shape of \<open>find\<close> and
  the \<open>$or\<close> loop of the matcher, and the rest of the store follows the specification.

  \<^medskip>\<^bold>\<open>Theories and what they model.\<close>
  \<^item> \<open>Prelude\<close>: ASCII case folding (\<open>toLowerCase\<close>), substring search (\<open>includes\<close>,
    proved equal to \<open>sublist\<close>), Python slicing \<open>xs[:n]\<close> (\<open>py_take\<close>), the fallible
    comprehensions \<open>filterE\<close>/\<open>findE\<close> that stop at the first exception, and list
    lemmas shared by the components.
  \<^item> \<open>Document\<close>: JSON values (\<open>jval\<close>) and documents as association lists, as a
    Python dict keeps insertion order; \<open>get_field\<close> is \<open>dict.get\<close>, \<open>set_field\<close> is
    item assignment, \<open>merge_doc\<close> the shallow merge of \<open>update_one\<close>.
  \<^item> \<open>Query\<close>: \<open>matches_query\<close>/\<open>any_cond\<close> (\<open>_matches_query\<close>), with errors as
    \<open>Inl (MalformedQuery op)\<close>. The abstract specification is \<open>query_sem\<close> (conjunction
    over keys, disjunction for \<open>$or\<close>) on well-formed queries (\<open>wf_query\<close>); the
    refinement theorem says the matcher computes it and never raises. \<open>$regex\<close> is
    modelled as a case-insensitive literal substring match, the only use the callers make.
  \<^item> \<open>Cursor\<close>: \<open>MockCursor\<close> as a record holding the snapshot list; \<open>cursor_sort\<close> is
    a stable key sort (absent fields lowest, numbers, strings, other values), descending as
    Python's \<open>reverse=True\<close> (reverse, stable sort, reverse, as CPython does it), proved
    equal to the reference \<open>sort_desc\<close>, a stable insertion sort under the reversed
    order; \<open>to_list\<close> is \<open>data[:max_length]\<close> on a Python int.
  \<^item> \<open>Collection\<close>: \<open>MockCollection\<close>: \<open>insert_one\<close>/\<open>insert_many\<close> (the fresh
    \<open>uuid4\<close> is an argument), \<open>find_one\<close>, \<open>find\<close>, \<open>count_documents\<close>,
    \<open>update_one\<close>, \<open>delete_one\<close>, \<open>delete_many\<close>, projections; each operation on a
    well-formed query is characterised by list operations over \<open>query_sem\<close>.
  \<^item> \<open>Store\<close>: \<open>MockDatabase\<close> as a map from names to collections created on first
    access; a write is \<open>store_step\<close>; \<open>store_reach\<close> is the inductive set of reachable
    stores and \<open>store_inv\<close> (every document well-formed, with an \<open>id\<close>) holds in all of
    them, by rule induction over \<open>store_step_inv\<close>.
  \<^item> \<open>Backend\<close>: \<open>create_user\<close> (duplicate check, insert, fraud detection whose
    exceptions are swallowed); the fraud engine's answer is an input. \<open>users_reach\<close> runs
    requests one at a time; \<open>conc_step\<close> splits a request at its \<open>await\<close>s and lets
    requests interleave.
  \<^item> \<open>Api\<close>: the HTTP boundary between the Users page and \<open>create_user\<close>: the posted
    form validated into a \<open>RationUser\<close> (\<open>user_of_form\<close>, with the server's id and
    timestamp) and the reply as \<open>axios\<close> delivers it (\<open>post_user\<close>: success, or the
    \<open>detail\<close> of an \<open>HTTPException\<close>); the running guide's cURL and Python
    Create-user requests (\<open>curl_create_body\<close>, \<open>py_create_body\<close>, \<open>client_create\<close>).
  \<^item> \<open>UiCommon\<close>, \<open>UsersPage\<close>, \<open>AlertsPage\<close>, \<open>TransactionsPage\<close>,
    \<open>LoginPage\<close>, \<open>AppShell\<close>, \<open>DashboardPage\<close>, \<open>AnalyticsPage\<close>: each page as a
    record of its \<open>useState\<close> hooks and a step function from a state and an event (a
    click, an input, the completion of an axios call, carried as \<open>Ok\<close> body or
    \<open>Failed\<close> detail) to the new state and the HTTP calls started, and a view function
    for what it renders. \<open>useEffect\<close> filters run after every event that changes their
    dependencies; browser form validation (\<open>required\<close>, \<open>min\<close>, \<open>disabled\<close>) guards
    submission. The Login page runs inside the App shell and authenticates it through its
    callback; \<open>localStorage\<close> is a map shared by both and read by the request
    interceptor. An unbounded run of the Users page is a stream of events
    (\<open>users_trace\<close>, HOL-Library's \<open>stream\<close>), on which its liveness is stated.
  \<^item> \<open>Layout\<close> (\<open>components/Layout.js\<close>, staged in \<open>src/unnamed/part_000\<close>): the
    header reads the signed-in user back from \<open>localStorage\<close> with \<open>JSON.parse\<close> and
    renders its name and e-mail as React renders values (\<open>react_node\<close>), with
    \<open>SyntaxError\<close>, \<open>TypeError\<close> and an invalid child as values of \<open>js_error\<close>; \<open>layout_step\<close> is
    \<open>handleLogout\<close> and the sidebar's navigation on a \<open>browser\<close> (the App's state, the
    path and the toasts); \<open>browser_view\<close> composes it with the App's routes, and
    \<open>browser_reach\<close> is the inductive set of browser states a session reaches by page
    loads, Login events inside the App, Layout clicks, reloads and typed paths.
  \<^item> \<open>NumberFormat\<close>: the JavaScript number printing the pages rely on:
    \<open>show_nat\<close> (decimal digits, a \<open>function\<close> with a measure), \<open>to_fixed\<close>
    (\<open>Number.prototype.toFixed\<close> as ECMA-262 defines it for \<open>|x| < 10^21\<close>) and
    \<open>percent_label\<close>; they are read back with the \<open>parseInt\<close>/\<open>parseFloat\<close> models of
    \<open>UiCommon\<close>.
  \<^item> \<open>JsonValue\<close>, \<open>Json\<close>: JSON values with nested arrays and objects (\<open>json\<close>),
    \<open>JSON.stringify\<close> (QuoteJSONString with every escape, SerializeJSONArray,
    SerializeJSONObject) and \<open>JSON.parse\<close> as parsers from text to an error or a value
    and the rest of the text: \<open>parse_json\<close>, \<open>parse_members\<close> and \<open>parse_elements\<close>
    are one mutually recursive \<open>function\<close>.

  \<^medskip>\<^bold>\<open>What is proved.\<close> Claims C1--C40 of the manifest, each stated after a text
  naming it. The store: the invariant over reachable stores (C1), the matcher's
  refinement of \<open>query_sem\<close> (C2), the specification's update scenario (C5), the
  insert/lookup round trip (C6), \<open>$or\<close>, \<open>$regex\<close>, update and delete semantics
  (C7--C10), cursor sorting (C11) with ties kept in storage order in both directions (C13) and its equivalence with the reference stable
  descending sort (C12), slicing with its bounds and negative bounds (C14, C15),
  and the matcher's errors (C16--C18). The handler: Aadhaar uniqueness under sequential
  requests (C3) and its failure under interleaved ones (C4), its errors (C19, C20) and the
  types of every stored cardholder (C21). Serialisation and formatting: the JSON round
  trip at every depth (C22), the header showing the user the Login page stored (C23) and its failure
  when the reply has no user (C24), logout (C25), \<open>toFixed\<close> read back within half a
  unit and exact on numbers that already have its decimals (C26, C27), the digit loop's
  bound (C28), the pie labels' total (C31). The pages: out-of-order detail responses
  (C29), the exact score intervals where a confidence card's label and colour disagree (C30), the users' filter and its
  effect invariant (C32, C33), the end of loading in every fair unbounded run (C34), the
  actions a card offers and the validity of posted users (C35, C36), alert review and the
  alerts' effect invariant (C37, C39), the session invariant that a protected page is shown
  only while a token is stored, over every reachable browser state (C38), and adding a cardholder end to
  end, from the page's form through \<open>create_user\<close> and back to the page (C40). Every theorem with a
  hypothesis has a witness below that applies it at concrete data.

  \<^medskip>\<^bold>\<open>Bounds and termination.\<close> No fuel is needed: every loop of the source is a
  structural recursion over a finite list or over the nested query (the matcher's
  termination is found by \<open>fun\<close> on the size of the query, and \<open>stringify\<close>'s on the size
  of the value); the loops that are not structural are \<open>function\<close>s with a measure:
  \<open>show_nat\<close> (division by ten; C28 bounds it by the number of digits) and the parser of
  \<open>JSON.parse\<close>, measured by twice the length of the text, plus one in the member and
  element loops. After a nested value these loops check that it consumed input, so that
  the measure does not depend on the parser's own results; \<open>parse_shorter\<close> proves the
  check always passes, so it never changes a result. The liveness of C34 is stated on
  infinite event streams under the fairness hypothesis that every request is answered.
  Numbers are \<open>real\<close> (the JSON numbers of the store and JavaScript numbers, so
  \<open>toFixed\<close> rounds the exact value, not its nearest double), Python slice bounds
  \<open>int\<close>, characters bytes.

  \<^medskip>\<^bold>\<open>Not modelled.\<close> The other HTTP endpoints, JWT issuance and password hashing,
  the fraud and ML engines and the MongoDB fallback are not in \<open>src/\<close>; the first 208
  lines of \<open>part_000\<close> and the prose of \<open>part_003\<close> are Markdown reports; of
  \<open>part_003\<close>'s client snippets only the Create-user requests are modelled (in
  \<open>Api\<close>), since register, login and the user listing call endpoints whose code is absent. The UI components,
  chart geometry, the locale-dependent \<open>toLocaleString\<close> of dates and incomes, JSON
  numbers with fractions or exponents and \<open>\u\<close> escapes above 255 (reported as
  \<open>Unsupported\<close>) and \<open>toFixed\<close> beyond \<open>10^21\<close> are not modelled; full regular
  expressions are not modelled (see \<open>Query\<close>); Unicode case folding is reduced to ASCII.
\<close>

section \<open>Example data\<close>

definition alice_doc :: doc where
  "alice_doc = [(''aadhaar_id'', VStr ''A1''), (''name'', VStr ''Alice'')]"

definition bob_doc :: doc where
  "bob_doc = [(''aadhaar_id'', VStr ''A2''), (''name'', VStr ''Bob'')]"

definition ramesh :: ration_user where
  "ramesh = \<lparr>user_id = ''u-1'', aadhaar_id = ''123456789012'', name = ''Ramesh'', address = ''Ward 4'',
     district = ''Pune'', state = ''MH'', family_size = 4, income = 50000, card_type = ''BPL'',
     phone = ''9876543210'', status = ''active'', verification_status = ''pending'', created_at = ''2025-11-13''\<rparr>"

definition ramesh_again :: ration_user where
  "ramesh_again = ramesh\<lparr>user_id := ''u-2''\<rparr>"

definition ramesh_form :: new_user_form where
  "ramesh_form = initial_form\<lparr>nu_aadhaar_id := ''123456789012'', nu_name := ''Ramesh'', nu_address := ''Ward 4'',
     nu_district := ''Pune'', nu_state := ''MH'', nu_phone := ''9876543210''\<rparr>"

definition ramesh_store :: store where
  "ramesh_store = (empty_store(''users'' \<mapsto> empty_collection))(''users'' \<mapsto> \<lparr>coll_docs = [user_doc ramesh]\<rparr>)"

definition users_page_loaded :: users_state where
  "users_page_loaded = users_init\<lparr>users := [ramesh], filteredUsers := [ramesh], loading := False\<rparr>"

definition alert1 :: fraud_alert where
  "alert1 = \<lparr>alert_id = ''a-1'', alert_user_id = ''u-1'', fraud_type = ''Duplicate card'',
     confidence_score = 0.85, details_message = ''Two cards for one Aadhaar'', alert_status = ''pending'',
     alert_created_at = ''2025-11-13''\<rparr>"

definition alerts_page_loaded :: alerts_state where
  "alerts_page_loaded = alerts_init\<lparr>alerts := [alert1], filteredAlerts := [alert1], alertsLoading := False\<rparr>"

definition alert2 :: fraud_alert where
  "alert2 = alert1\<lparr>alert_id := ''a-2'', alert_user_id := ''u-2'', confidence_score := 0.62\<rparr>"

definition alerts_page_two :: alerts_state where
  "alerts_page_two = alerts_init\<lparr>alerts := [alert1, alert2], filteredAlerts := [alert1, alert2], alertsLoading := False\<rparr>"

definition officer :: json where
  "officer = JObj [(''id'', JStr ''o-1''), (''username'', JStr ''officer''), (''email'', JStr ''o@pds.gov.in''),
                   (''roles'', JArr [JStr ''admin'', JStr ''auditor'']), (''office'', JObj [(''district'', JStr ''Pune'')])]"

definition officer_reply :: login_reply where
  "officer_reply = \<lparr>access_token = Some ''jwt'', reply_user = Some officer\<rparr>"

definition signed_in_browser :: browser where
  "signed_in_browser = \<lparr>br_app = app_mount (app_init (Map.empty(''token'' \<mapsto> ''jwt''))), br_path = ''/users'', br_toasts = []\<rparr>"

section \<open>Properties across components\<close>

text \<open>C4. Two registrations of the same Aadhaar number that interleave between the
  duplicate check and the insert both succeed: the check-then-insert of
  \<open>create_user\<close> does not make Aadhaar numbers unique under concurrent requests.\<close>

theorem concurrent_duplicate_registration:
  "\<exists>s. (conc_step [ramesh, ramesh_again])\<^sup>*\<^sup>* (empty_store, [Pending, Pending]) (s, [Created, Created])
       \<and> \<not> users_unique s"
proof -
  let ?us = "[ramesh, ramesh_again]"
  define s1 where "s1 = fst (get_collection empty_store ''users'')"
  have st1: "conc_step ?us (empty_store, [Pending, Pending]) (s1, [Checked, Pending])"
    using conc_step.check_new [where us = ?us and i = 0 and ps = "[Pending, Pending]" and s = empty_store]
    by (simp add: s1_def find_one_aadhaar users_of_def empty_store_def)
  have st2: "conc_step ?us (s1, [Checked, Pending]) (s1, [Checked, Checked])"
    using conc_step.check_new [where us = ?us and i = 1 and ps = "[Checked, Pending]" and s = s1]
    by (simp add: s1_def find_one_aadhaar users_of_def empty_store_def get_collection_def empty_collection_def)
  define s2 where "s2 = (fst (get_collection s1 ''users''))(''users'' \<mapsto>
     fst (insert_one (user_id ramesh) (user_doc ramesh) (snd (get_collection s1 ''users''))))"
  have st3: "conc_step ?us (s1, [Checked, Checked]) (s2, [Created, Checked])"
    using conc_step.insert [where us = ?us and i = 0 and ps = "[Checked, Checked]" and s = s1]
    by (simp add: s2_def)
  define s3 where "s3 = (fst (get_collection s2 ''users''))(''users'' \<mapsto>
     fst (insert_one (user_id ramesh_again) (user_doc ramesh_again) (snd (get_collection s2 ''users''))))"
  have st4: "conc_step ?us (s2, [Created, Checked]) (s3, [Created, Created])"
    using conc_step.insert [where us = ?us and i = 1 and ps = "[Created, Checked]" and s = s2]
    by (simp add: s3_def)
  have "\<not> users_unique s3"
    by (simp add: users_unique_def s3_def s2_def s1_def users_of_def insert_one_def get_collection_def
                  empty_store_def empty_collection_def ramesh_again_def Let_def)
  with st1 st2 st3 st4 show ?thesis
    by (meson converse_rtranclp_into_rtranclp rtranclp.rtrancl_refl)
qed


text \<open>The second scenario: \<open>delete_many({})\<close> on a five-document collection
  removes and counts all five, after which \<open>count_documents({})\<close> is 0.\<close>

theorem spec_scenario_delete_all:
  "(case delete_many \<lparr>coll_docs = [alice_doc, bob_doc, alice_doc, bob_doc, alice_doc]\<rparr> [] of
      Inr (c', n) \<Rightarrow> n = 5 \<and> count_documents c' [] = Inr 0
    | Inl _ \<Rightarrow> False)"
  by (simp add: delete_many_def count_documents_def)


section \<open>Witnesses\<close>



theorem unknown_operator_raises_witness:
  "matches_query alice_doc [(''name'', VDoc [(''$exists'', VBool True)])] = Inl (MalformedQuery ''$exists'')"
  using unknown_operator_raises [of "''name''" "''$exists''" alice_doc "VBool True"] by simp

theorem type_mismatch_no_match_witness:
  "get_field alice_doc ''name'' = Some (VStr ''Alice'')
   \<and> matches_query alice_doc [(''name'', VDoc [(''$gt'', VNum 3)])] = Inr False"
  using type_mismatch_no_match [of "''name''" alice_doc "''Alice''" "''$gt''" 3]
  by (simp add: alice_doc_def get_field_def)

theorem insert_find_one_roundtrip_witness:
  "find_one (fst (insert_one ''id-1'' alice_doc empty_collection)) [(''id'', VStr ''id-1'')] None
     = Inr (Some (set_field alice_doc ''id'' (VStr ''id-1'')))"
  using insert_find_one_roundtrip [of alice_doc empty_collection "''id-1''"]
  by (simp add: alice_doc_def get_field_def empty_collection_def)

theorem update_one_first_match_witness:
  "update_one \<lparr>coll_docs = [alice_doc, bob_doc]\<rparr> [(''aadhaar_id'', VStr ''A2'')] [(''status'', VStr ''flagged'')]
     = Inr (\<lparr>coll_docs = [alice_doc, merge_doc bob_doc [(''status'', VStr ''flagged'')]]\<rparr>, 1)"
  using update_one_first_match [of "[(''aadhaar_id'', VStr ''A2'')]" "\<lparr>coll_docs = [alice_doc, bob_doc]\<rparr>"
                                   "[(''status'', VStr ''flagged'')]"]
  by (simp add: alice_doc_def bob_doc_def get_field_def)

theorem delete_many_removes_matches_witness:
  "delete_many \<lparr>coll_docs = [alice_doc, bob_doc]\<rparr> [(''name'', VStr ''Bob'')] = Inr (\<lparr>coll_docs = [alice_doc]\<rparr>, 1)
   \<and> length (filter (\<lambda>d. query_sem d [(''name'', VStr ''Bob'')]) [alice_doc, bob_doc]) = 1"
proof -
  have del: "delete_many \<lparr>coll_docs = [alice_doc, bob_doc]\<rparr> [(''name'', VStr ''Bob'')] = Inr (\<lparr>coll_docs = [alice_doc]\<rparr>, 1)"
    by (simp add: delete_many_def alice_doc_def bob_doc_def get_field_def)
  have "wf_query [(''name'', VStr ''Bob'')]" by simp
  from delete_many_removes_matches [OF this del]
  have "length (filter (\<lambda>d. query_sem d [(''name'', VStr ''Bob'')]) [alice_doc, bob_doc]) = 1"
    by simp
  with del show ?thesis by simp
qed

theorem sort_desc_reverses_asc_witness:
  "cur_data (cursor_sort (mk_cursor [alice_doc, bob_doc]) ''name'' (-1)) = [bob_doc, alice_doc]"
proof -
  have d: "distinct (map (sort_key_of ''name'') (cur_data (mk_cursor [alice_doc, bob_doc])))"
    by (simp add: mk_cursor_def sort_key_of_def alice_doc_def bob_doc_def get_field_def)
  have "cur_data (cursor_sort (mk_cursor [alice_doc, bob_doc]) ''name'' 1) = [alice_doc, bob_doc]"
    by (simp add: cursor_sort_def mk_cursor_def sort_key_of_def alice_doc_def bob_doc_def get_field_def)
  with sort_desc_reverses_asc [OF d] show ?thesis by simp
qed

theorem sort_missing_first_witness:
  "get_field (cur_data (cursor_sort (mk_cursor [alice_doc, [(''name'', VStr ''Carl'')]]) ''aadhaar_id'' 1) ! 0) ''aadhaar_id'' = None"
proof -
  have s: "cur_data (cursor_sort (mk_cursor [alice_doc, [(''name'', VStr ''Carl'')]]) ''aadhaar_id'' 1)
             = [[(''name'', VStr ''Carl'')], alice_doc]"
    by (simp add: cursor_sort_def mk_cursor_def sort_key_of_def alice_doc_def get_field_def)
  show ?thesis
    using sort_missing_first [of 1 0 1 "mk_cursor [alice_doc, [(''name'', VStr ''Carl'')]]" "''aadhaar_id''"]
    by (simp add: s get_field_def)
qed

theorem to_list_bounds_witness:
  "to_list (mk_cursor [alice_doc, bob_doc]) (Some 1) = [alice_doc]"
  using to_list_bounds [of 1 "mk_cursor [alice_doc, bob_doc]"] by (simp add: mk_cursor_def)

theorem reachable_store_inv_witness:
  "store_reach (empty_store(''users'' \<mapsto> \<lparr>coll_docs = [alice_doc @ [(''id'', VStr ''id-1'')]]\<rparr>))
   \<and> store_inv (empty_store(''users'' \<mapsto> \<lparr>coll_docs = [alice_doc @ [(''id'', VStr ''id-1'')]]\<rparr>))"
proof -
  have "store_step empty_store (InsertOne ''users'' ''id-1'' alice_doc)
          = Inr (empty_store(''users'' \<mapsto> \<lparr>coll_docs = [alice_doc @ [(''id'', VStr ''id-1'')]]\<rparr>),
                 RInserted (alice_doc @ [(''id'', VStr ''id-1'')]))"
    by (simp add: store_step_def get_collection_def empty_store_def empty_collection_def insert_one_def
                  with_id_def alice_doc_def get_field_def Let_def)
  moreover have "op_docs_wf (InsertOne ''users'' ''id-1'' alice_doc)"
    by (simp add: alice_doc_def wf_doc_def)
  ultimately have r: "store_reach (empty_store(''users'' \<mapsto> \<lparr>coll_docs = [alice_doc @ [(''id'', VStr ''id-1'')]]\<rparr>))"
    by (blast intro: store_reach.step [OF store_reach.init])
  with reachable_store_inv [OF r] show ?thesis by simp
qed

theorem get_collection_stable_witness:
  "snd (get_collection empty_store ''users'') = empty_collection
   \<and> get_collection (fst (get_collection empty_store ''users'')) ''users'' = get_collection empty_store ''users''"
  using get_collection_stable [of empty_store "''users''"] by (simp add: empty_store_def)

lemma ramesh_store_reachable: "users_reach ramesh_store \<and> users_of ramesh_store = [user_doc ramesh]"
proof -
  have c: "create_user empty_store ramesh (Inl (MalformedQuery ''fraud engine down'')) = Inr (ramesh_store, ramesh)"
    by (simp add: create_user_def get_collection_def empty_store_def empty_collection_def find_one_aadhaar
                  insert_one_def Let_def ramesh_store_def)
  have "users_reach ramesh_store" by (rule users_reach.create [OF users_reach.init c])
  then show ?thesis by (simp add: users_of_def ramesh_store_def)
qed

theorem sequential_creation_unique_witness:
  "users_reach ramesh_store \<and> users_of ramesh_store = [user_doc ramesh] \<and> users_unique ramesh_store"
  using ramesh_store_reachable sequential_creation_unique [of ramesh_store] by blast


theorem duplicate_aadhaar_rejected_witness:
  "create_user (empty_store(''users'' \<mapsto> \<lparr>coll_docs = [user_doc ramesh]\<rparr>)) ramesh_again (Inr [])
     = Inl (HTTPException 400 ''Aadhaar ID already registered'')"
  using duplicate_aadhaar_rejected [of "empty_store(''users'' \<mapsto> \<lparr>coll_docs = [user_doc ramesh]\<rparr>)" ramesh_again]
  by (simp add: users_of_def ramesh_again_def)

theorem fraud_failure_still_creates_witness:
  "users_of (fst (projr (create_user empty_store ramesh (Inl (MalformedQuery ''timeout''))))) = [user_doc ramesh]"
  using fraud_failure_still_creates [of empty_store ramesh "MalformedQuery ''timeout''"]
  by (simp add: users_of_def empty_store_def)

theorem filter_users_selects_witness:
  "ramesh \<in> set (filter_users [ramesh] ''RAM'' ''all'')"
  using filter_users_selects [of "[ramesh]" "''RAM''" "''all''"]
  by (simp add: ramesh_def to_lower_def lower_char_def)

theorem status_change_only_shown_witness:
  "PatchUserStatus ''u-1'' ''suspended'' \<in> set (snd (users_step users_page_loaded (ClickUserButton ''u-1'' SuspendBtn)))
   \<and> status ramesh = ''active''"
proof -
  have c: "PatchUserStatus ''u-1'' ''suspended'' \<in> set (snd (users_step users_page_loaded (ClickUserButton ''u-1'' SuspendBtn)))"
    by (simp add: users_step_def users_page_loaded_def users_init_def button_shown_def user_buttons_def ramesh_def)
  from status_change_only_shown [OF c] have "status ramesh = ''active''"
    by (auto simp: users_page_loaded_def users_init_def ramesh_def)
  with c show ?thesis by simp
qed


theorem flagged_user_status_locked_witness:
  "user_buttons (ramesh\<lparr>status := ''flagged''\<rparr>) = [VerifyBtn, ScanBtn]"
proof -
  have "SuspendBtn \<notin> set (user_buttons (ramesh\<lparr>status := ''flagged''\<rparr>))"
    using flagged_user_status_locked [of "ramesh\<lparr>status := ''flagged''\<rparr>"] by simp
  then show ?thesis by (simp add: user_buttons_def ramesh_def)
qed

theorem only_pending_alerts_updated_witness:
  "PatchAlert ''a-1'' ''confirmed'' \<in> set (snd (alerts_step alerts_page_loaded (ClickAlertButton ''a-1'' ConfirmBtn)))
   \<and> alert_status alert1 = ''pending''"
proof -
  have c: "PatchAlert ''a-1'' ''confirmed'' \<in> set (snd (alerts_step alerts_page_loaded (ClickAlertButton ''a-1'' ConfirmBtn)))"
    by (simp add: alerts_step_def alerts_page_loaded_def alerts_init_def alert_card_def alert_buttons_def alert1_def)
  from only_pending_alerts_updated [OF c] have "alert_status alert1 = ''pending''"
    by (auto simp: alerts_page_loaded_def alerts_init_def alert1_def)
  with c show ?thesis by simp
qed

theorem status_views_partition_witness:
  "mset [alert1, alert1\<lparr>alert_status := ''confirmed''\<rparr>]
     = mset (filter_alerts [alert1, alert1\<lparr>alert_status := ''confirmed''\<rparr>] ''pending'')
       + mset (filter_alerts [alert1, alert1\<lparr>alert_status := ''confirmed''\<rparr>] ''confirmed'')
       + mset (filter_alerts [alert1, alert1\<lparr>alert_status := ''confirmed''\<rparr>] ''dismissed'')"
  using status_views_partition [of "[alert1, alert1\<lparr>alert_status := ''confirmed''\<rparr>]"]
  by (simp add: alert1_def)

theorem confidence_color_monotone_witness:
  "confidence_color 0.7 = TextAmber \<and> confidence_color 0.9 = TextRed"
proof -
  have "(0.7::real) \<le> 0.9" by simp
  from confidence_color_monotone [OF this] have "confidence_color 0.9 = TextRed" by simp
  moreover have "confidence_color 0.7 = TextAmber" by (simp add: confidence_color_def)
  ultimately show ?thesis by simp
qed

theorem protected_pages_need_auth_witness:
  "route ''/users'' True = Some (RenderPage UsersP) \<and> route ''/users'' False \<noteq> Some (RenderPage UsersP)"
proof -
  have "route ''/users'' False \<noteq> Some (RenderPage UsersP)"
    using protected_pages_need_auth [of "''/users''" False UsersP] by auto
  then show ?thesis by (simp add: route_def)
qed

theorem redirect_one_hop_witness:
  "route ''/fraud-alerts'' False = Some (Redirect ''/login'') \<and> route ''/login'' False = Some (RenderPage LoginP)"
proof -
  have r: "route ''/fraud-alerts'' False = Some (Redirect ''/login'')" by (simp add: route_def)
  from redirect_one_hop [OF r] obtain p where "route ''/login'' False = Some (RenderPage p)" by blast
  with r show ?thesis by (simp add: route_def)
qed

theorem interceptor_adds_bearer_witness:
  "map_of (add_auth_header (Map.empty(''token'' \<mapsto> ''abc'')) [(''Accept'', ''application/json'')]) ''Authorization''
     = Some ''Bearer abc''
   \<and> map_of (add_auth_header (Map.empty(''token'' \<mapsto> ''abc'')) [(''Accept'', ''application/json'')]) ''Accept''
     = Some ''application/json''"
  using interceptor_adds_bearer [of "Map.empty(''token'' \<mapsto> ''abc'')" "[(''Accept'', ''application/json'')]"]
  by simp

theorem login_success_opens_dashboard_witness:
  "app_view (fst (app_login_step (app_mount (app_init Map.empty))
                    (LoginDone True (Ok \<lparr>access_token = Some ''jwt'', reply_user = Some (JObj [])\<rparr>)))) ''/''
     = AppRoute (Some (RenderPage DashboardP))"
proof -
  obtain s' calls where st: "app_login_step (app_mount (app_init Map.empty))
      (LoginDone True (Ok \<lparr>access_token = Some ''jwt'', reply_user = Some (JObj [])\<rparr>)) = (s', calls)"
    by fastforce
  have "\<not> appLoading (app_mount (app_init Map.empty))" by (simp add: app_mount_def)
  from login_success_opens_dashboard [OF st this] st show ?thesis by simp
qed

theorem login_no_double_submit_witness:
  "login_step (login_init\<lparr>loginLoading := True\<rparr>) Map.empty LoginSubmit = (login_init\<lparr>loginLoading := True\<rparr>, Map.empty, None, [])"
  using login_no_double_submit [of "login_init\<lparr>loginLoading := True\<rparr>" "Map.empty" True "Failed None"] by simp

theorem pie_colours_cycle_witness:
  "snd (pie_cells [(''a'', 1), (''b'', 2), (''c'', 3), (''d'', 4), (''e'', 5), (''f'', 6), (''g'', 7)] ! 6) = ''#6366f1''"
proof -
  have "(6::nat) < length [(''a'', 1::nat), (''b'', 2), (''c'', 3), (''d'', 4), (''e'', 5), (''f'', 6), (''g'', 7)]" by simp
  from pie_colours_cycle [OF this] show ?thesis by (simp add: COLORS_def)
qed

theorem txn_search_selects_witness:
  "filter_transactions [\<lparr>txn_id = ''t1'', card_number = ''RC-100'', txn_user_id = ''u-1'', shop_id = ''s1'',
      transaction_date = ''2025-11-13'', items = [], total_amount = 0\<rparr>] ''RC-1'' \<noteq> []"
  using txn_search_selects [of "[\<lparr>txn_id = ''t1'', card_number = ''RC-100'', txn_user_id = ''u-1'', shop_id = ''s1'',
      transaction_date = ''2025-11-13'', items = [], total_amount = 0\<rparr>]" "''RC-1''"]
  by auto



theorem header_shows_signed_in_user_witness:
  "layout_header (localStore (fst (app_login_step (app_init Map.empty) (LoginDone True (Ok officer_reply)))))
   = Inr (''officer'', ''o@pds.gov.in'')"
  using header_shows_signed_in_user [of officer_reply officer "app_init Map.empty"]
  by (simp add: officer_reply_def officer_def user_header_def react_text_def)

theorem missing_user_breaks_layout_witness:
  "isAuthenticated (fst (app_login_step (app_init Map.empty) (LoginDone True (Ok (officer_reply\<lparr>reply_user := None\<rparr>)))))
   \<and> layout_header (localStore (fst (app_login_step (app_init Map.empty) (LoginDone True (Ok (officer_reply\<lparr>reply_user := None\<rparr>))))))
     = Inl (JsonError SyntaxError)"
  using missing_user_breaks_layout [of "officer_reply\<lparr>reply_user := None\<rparr>" "app_init Map.empty"] by simp

theorem logout_ends_session_witness:
  "browser_view (layout_step signed_in_browser LogoutClick) = AppRoute (Some (RenderPage LoginP))
   \<and> localStore (br_app (layout_step signed_in_browser LogoutClick)) ''token'' = None"
proof -
  have "\<not> appLoading (br_app signed_in_browser)" by (simp add: signed_in_browser_def app_mount_def app_init_def)
  from logout_ends_session [OF this] show ?thesis by simp
qed

theorem details_follow_last_response_witness:
  "selectedAlert (fst (alerts_run alerts_page_two
      [ClickAlertButton ''a-1'' ViewBtn, ClickAlertButton ''a-2'' ViewBtn, ViewDone alert2 (Ok ramesh_again), ViewDone alert1 (Ok ramesh)]))
   = Some (alert1, ramesh)"
proof -
  have a1: "alert_card alerts_page_two (alert_id alert1) = Some alert1"
    by (simp add: alert_card_def alerts_page_two_def alerts_init_def alert1_def)
  have a2: "alert_card alerts_page_two (alert_id alert2) = Some alert2"
    by (simp add: alert_card_def alerts_page_two_def alerts_init_def alert2_def alert1_def)
  from details_follow_last_response [OF a1 a2, of ramesh_again ramesh] show ?thesis
    by (simp add: alert1_def alert2_def)
qed


theorem users_loading_ends_witness:
  "\<exists>n. \<forall>m\<ge>n. \<not> loading (users_trace users_init
                  (UsersMount ## UsersFetched (Ok []) ## sconst (SearchInput [])) m)"
proof -
  let ?es = "UsersMount ## UsersFetched (Ok []) ## sconst (SearchInput [])"
  have fair: "\<forall>i. GetUsers \<in> set (snd (users_step (users_trace users_init ?es i) (?es !! i)))
                  \<longrightarrow> (\<exists>j>i. is_users_fetched (?es !! j))"
  proof (intro allI impI)
    fix i
    assume h: "GetUsers \<in> set (snd (users_step (users_trace users_init ?es i) (?es !! i)))"
    have "i = 0"
    proof (rule ccontr)
      assume "i \<noteq> 0"
      then obtain k where "i = Suc k" by (cases i) auto
      with h show False by (cases k) (simp_all add: users_step_def)
    qed
    then show "\<exists>j>i. is_users_fetched (?es !! j)" by (intro exI [of _ 1]) simp
  qed
  from users_loading_ends [OF _ fair] show ?thesis by simp
qed


theorem protected_page_has_token_witness:
  "map_of (add_auth_header (localStore (br_app signed_in_browser)) []) ''Authorization'' = Some ''Bearer jwt''"
proof -
  have r: "browser_reach signed_in_browser"
    unfolding signed_in_browser_def by (rule browser_reach.load)
  have v: "browser_view signed_in_browser = AppRoute (Some (RenderPage UsersP))"
    by (simp add: signed_in_browser_def browser_view_def app_view_def route_def app_mount_def app_init_def)
  from protected_page_has_token [OF r v, of "[]"] show ?thesis
    by (auto simp: signed_in_browser_def app_mount_def app_init_def)
qed

end
